theory Spec2Isabelle
  imports Main
begin

section \<open>Go standard-library functions used by the provider\<close>

text \<open>
  Go strings are byte sequences; they are modelled as \<open>string\<close> (a list of 8-bit characters).
  Go's \<open>int\<close> is 64 bits wide on the platforms the provider is built for; it is modelled as
  \<open>int\<close>, with the range check written out wherever a value is parsed into it.  The program
  performs no arithmetic on these values, so no wrap-around can occur.
\<close>

subsection \<open>Package strings\<close>

definition strings_HasPrefix :: "string \<Rightarrow> string \<Rightarrow> bool" where
  "strings_HasPrefix s p = (length p \<le> length s \<and> take (length p) s = p)"

definition strings_HasSuffix :: "string \<Rightarrow> string \<Rightarrow> bool" where
  "strings_HasSuffix s p = (length p \<le> length s \<and> drop (length s - length p) s = p)"

fun strings_Contains :: "string \<Rightarrow> string \<Rightarrow> bool" where
  "strings_Contains [] sub = (sub = [])"
| "strings_Contains (c # cs) sub = (strings_HasPrefix (c # cs) sub \<or> strings_Contains cs sub)"

text \<open>\<open>strings.Split(s, sep)\<close> for a one-byte separator: the fields between the separators,
  always at least one.\<close>

fun strings_Split :: "string \<Rightarrow> char \<Rightarrow> string list" where
  "strings_Split [] sep = [[]]"
| "strings_Split (c # cs) sep =
     (if c = sep then [] # strings_Split cs sep
      else (case strings_Split cs sep of
              [] \<Rightarrow> [[c]]
            | x # xs \<Rightarrow> (c # x) # xs))"

subsection \<open>Package strconv\<close>

datatype NumError = ErrSyntax | ErrRange

definition isDigit :: "char \<Rightarrow> bool" where
  "isDigit c = ((48::int) \<le> of_char c \<and> of_char c \<le> (57::int))"

definition digitVal :: "char \<Rightarrow> int" where
  "digitVal c = of_char c - 48"

text \<open>The digit loop of \<open>strconv.ParseUint(s, 10, 64)\<close>: a byte that is not a digit is a syntax
  error, a value above \<open>2^64 - 1\<close> a range error, whichever comes first.\<close>

fun parseUintFrom :: "int \<Rightarrow> string \<Rightarrow> NumError + int" where
  "parseUintFrom n [] = Inr n"
| "parseUintFrom n (c # cs) =
     (if \<not> isDigit c then Inl ErrSyntax
      else let n1 = n * 10 + digitVal c in
        if n1 > 2 ^ 64 - 1 then Inl ErrRange else parseUintFrom n1 cs)"

text \<open>\<open>strconv.Atoi\<close>: an optional sign, then at least one decimal digit; the value must fit a
  signed 64-bit integer.  (The fast path of the library for short inputs computes the same
  result.)\<close>

definition strconv_Atoi :: "string \<Rightarrow> NumError + int" where
  "strconv_Atoi s =
     (if s = [] then Inl ErrSyntax
      else let neg = (hd s = CHR ''-'');
               ds = (if hd s = CHR ''+'' \<or> hd s = CHR ''-'' then tl s else s)
           in if ds = [] then Inl ErrSyntax
              else (case parseUintFrom 0 ds of
                      Inl e \<Rightarrow> Inl e
                    | Inr un \<Rightarrow>
                        if \<not> neg \<and> un \<ge> 2 ^ 63 then Inl ErrRange
                        else if neg \<and> un > 2 ^ 63 then Inl ErrRange
                        else Inr (if neg then - un else un)))"

section \<open>Subnet identifier derivation\<close>

text \<open>\<open>cidrToIDRepl = strings.NewReplacer(".", "", "/", "", " ", "")\<close>: every dot, slash and
  space is replaced by the empty string.\<close>

definition cidrToIDRepl_Replace :: "string \<Rightarrow> string" where
  "cidrToIDRepl_Replace s =
     concat (map (\<lambda>c. if c = CHR ''.'' then [] else if c = CHR ''/'' then []
                       else if c = CHR '' '' then [] else [c]) s)"

text \<open>\<open>strconv.Atoi(cidrToIDRepl.Replace(strings.Split(subnet, "/")[0]))\<close>, as written in
  \<open>Create\<close> and \<open>Update\<close> of the subnet resource.\<close>

definition cidrToID :: "string \<Rightarrow> NumError + int" where
  "cidrToID subnet = strconv_Atoi (cidrToIDRepl_Replace (hd (strings_Split subnet (CHR ''/''))))"

text \<open>Decimal rendering of an integer, as \<open>%d\<close> prints it.\<close>

fun natDigits :: "nat \<Rightarrow> string" where
  "natDigits n =
     (if n < 10 then [''0123456789'' ! n]
      else natDigits (n div 10) @ [''0123456789'' ! (n mod 10)])"

declare natDigits.simps [simp del]

definition fmt_d :: "int \<Rightarrow> string" where
  "fmt_d i = (if i < 0 then CHR ''-'' # natDigits (nat (- i)) else natDigits (nat i))"

section \<open>JSON values and their decoding by encoding/json\<close>

text \<open>
  A JSON text is modelled after parsing: \<open>JInt\<close> is a number written as an integer literal,
  \<open>JReal\<close> any other number literal (kept as its text).  What a \<open>json.Decoder\<close> reads from a
  byte stream is an end of input, a syntax error (with the library's message) or a first value.
\<close>

datatype json =
    JNull
  | JBool bool
  | JInt int
  | JReal string
  | JStr string
  | JArr "json list"
  | JObj "(string \<times> json) list"

datatype stream = EmptyStream | BadSyntax string | FirstValue json

datatype json_err =
    IoEOF
  | SyntaxErr string
  | UnmarshalTypeError string string

fun jsonKind :: "json \<Rightarrow> string" where
  "jsonKind JNull = ''null''"
| "jsonKind (JBool b) = ''bool''"
| "jsonKind (JInt n) = ''number''"
| "jsonKind (JReal s) = ''number''"
| "jsonKind (JStr s) = ''string''"
| "jsonKind (JArr xs) = ''array''"
| "jsonKind (JObj kvs) = ''object''"

definition json_err_Error :: "json_err \<Rightarrow> string" where
  "json_err_Error e =
     (case e of
        IoEOF \<Rightarrow> ''EOF''
      | SyntaxErr m \<Rightarrow> m
      | UnmarshalTypeError v t \<Rightarrow> ''json: cannot unmarshal '' @ v @ '' into Go value of type '' @ t)"

text \<open>
  A decoder for a Go type takes the current content of the target and the JSON value.
  The rules are those of \<open>json.Unmarshal\<close>: \<open>null\<close> leaves a number, string, boolean or struct
  as it is and makes a slice or pointer nil; a value of the wrong kind is an
  \<open>UnmarshalTypeError\<close>; an object is stored into a struct key by key, in the order of the
  text, keys that match no field being skipped.  The library goes on after a type error and
  reports the first one at the end; since every caller in this program discards the target
  when an error is reported, the model stops at the first error.
\<close>

type_synonym 'a dec = "'a \<Rightarrow> json \<Rightarrow> json_err + 'a"

definition dec_int :: "int dec" where
  "dec_int cur j =
     (case j of
        JNull \<Rightarrow> Inr cur
      | JInt n \<Rightarrow> if - (2 ^ 63) \<le> n \<and> n < 2 ^ 63 then Inr n
                  else Inl (UnmarshalTypeError ''number'' ''int'')
      | _ \<Rightarrow> Inl (UnmarshalTypeError (jsonKind j) ''int''))"

definition dec_string :: "string dec" where
  "dec_string cur j =
     (case j of
        JNull \<Rightarrow> Inr cur
      | JStr s \<Rightarrow> Inr s
      | _ \<Rightarrow> Inl (UnmarshalTypeError (jsonKind j) ''string''))"

definition dec_bool :: "bool dec" where
  "dec_bool cur j =
     (case j of
        JNull \<Rightarrow> Inr cur
      | JBool b \<Rightarrow> Inr b
      | _ \<Rightarrow> Inl (UnmarshalTypeError (jsonKind j) ''bool''))"

text \<open>A pointer field \<open>*T\<close>: \<open>null\<close> makes it nil, any other value is decoded into the pointee
  (a fresh zero value when the pointer was nil).\<close>

definition dec_ptr :: "'a \<Rightarrow> 'a dec \<Rightarrow> 'a option dec" where
  "dec_ptr zero d cur j =
     (case j of
        JNull \<Rightarrow> Inr None
      | _ \<Rightarrow> map_sum id Some (d (case cur of None \<Rightarrow> zero | Some v \<Rightarrow> v) j))"

text \<open>An \<open>interface{}\<close> target takes any value.\<close>

definition dec_any :: "json dec" where
  "dec_any cur j = Inr j"

fun dec_elems :: "'a \<Rightarrow> 'a dec \<Rightarrow> json list \<Rightarrow> json_err + 'a list" where
  "dec_elems zero d [] = Inr []"
| "dec_elems zero d (j # js) =
     (case d zero j of
        Inl e \<Rightarrow> Inl e
      | Inr v \<Rightarrow> map_sum id (\<lambda>vs. v # vs) (dec_elems zero d js))"

definition dec_slice :: "string \<Rightarrow> 'a \<Rightarrow> 'a dec \<Rightarrow> 'a list dec" where
  "dec_slice ty zero d cur j =
     (case j of
        JNull \<Rightarrow> Inr []
      | JArr js \<Rightarrow> dec_elems zero d js
      | _ \<Rightarrow> Inl (UnmarshalTypeError (jsonKind j) ty))"

fun dec_object :: "(string \<Rightarrow> json \<Rightarrow> 'r \<Rightarrow> json_err + 'r) \<Rightarrow> (string \<times> json) list \<Rightarrow> 'r \<Rightarrow> json_err + 'r" where
  "dec_object setf [] r = Inr r"
| "dec_object setf ((k, v) # kvs) r =
     (case setf k v r of
        Inl e \<Rightarrow> Inl e
      | Inr r' \<Rightarrow> dec_object setf kvs r')"

definition dec_struct :: "string \<Rightarrow> (string \<Rightarrow> json \<Rightarrow> 'r \<Rightarrow> json_err + 'r) \<Rightarrow> 'r dec" where
  "dec_struct ty setf cur j =
     (case j of
        JNull \<Rightarrow> Inr cur
      | JObj kvs \<Rightarrow> dec_object setf kvs cur
      | _ \<Rightarrow> Inl (UnmarshalTypeError (jsonKind j) ty))"

text \<open>A \<open>map[string]interface{}\<close> target, kept as the list of its entries (a later entry for a
  key replaces an earlier one).\<close>

definition dec_map :: "(string \<times> json) list dec" where
  "dec_map cur j =
     (case j of
        JNull \<Rightarrow> Inr []
      | JObj kvs \<Rightarrow> Inr (cur @ kvs)
      | _ \<Rightarrow> Inl (UnmarshalTypeError (jsonKind j) ''map[string]interface {}''))"

text \<open>The field a key is stored into: the field whose JSON name is the key, otherwise the
  first field whose name equals the key up to the case of ASCII letters.\<close>

definition asciiLower :: "char \<Rightarrow> char" where
  "asciiLower c =
     (case map_of (zip ''ABCDEFGHIJKLMNOPQRSTUVWXYZ'' ''abcdefghijklmnopqrstuvwxyz'') c of
        None \<Rightarrow> c
      | Some l \<Rightarrow> l)"

definition fieldFor :: "string list \<Rightarrow> string \<Rightarrow> string option" where
  "fieldFor names k =
     (if k \<in> set names then Some k
      else find (\<lambda>n. map asciiLower n = map asciiLower k) names)"

section \<open>Package kea: the command client\<close>

subsection \<open>Types\<close>

text \<open>
  Go structs are records.  Several structs have fields of the same name, so every field
  carries a short prefix naming its struct (\<open>rs_ID\<close> is \<open>RemoteSubnet4.ID\<close>, \<open>rl_ID\<close> is
  \<open>RemoteSubnet4List.ID\<close>, \<open>ns_ID\<close> is \<open>NewRemoteSubnet4.ID\<close>).  A pointer field is an
  \<open>option\<close>; a nil slice and an empty slice are both \<open>[]\<close>; a map is the list of its entries.
\<close>

record Response =
  Result :: int
  Text :: string
  Arguments :: "json option"

record Metadata =
  ServerTags :: "string list"

record Relay =
  IPAddresses :: "string list"

record Pool =
  po_Pool :: string

record OptionData =
  od_Code :: "int option"
  od_Data :: string
  od_Name :: string
  od_Space :: "string option"
  od_AlwaysSend :: bool

record RemoteSubnet4 =
  rs_FourO6Interface :: string
  rs_FourO6InterfaceID :: string
  rs_FourO6Subnet :: string
  rs_ID :: int
  rs_Metadata :: Metadata
  rs_OptionData :: "OptionData list"
  rs_Pools :: "Pool list"
  rs_Relay :: Relay
  rs_SharedNetworkName :: json
  rs_Subnet :: string
  rs_UserContext :: "(string \<times> json) list"

record RemoteSubnet4List =
  rl_ID :: int
  rl_Metadata :: Metadata
  rl_SharedNetworkName :: string
  rl_Subnet :: string

record NewRemoteSubnet4 =
  ns_ID :: int
  ns_Subnet :: string
  ns_SharedNetworkName :: "string option"
  ns_Pools :: "Pool list"
  ns_OptionData :: "OptionData list"
  ns_Relay :: Relay
  ns_UserContext :: "(string \<times> string) list"

record OptionReq =
  oq_Code :: int
  oq_Data :: string

record Reservation =
  rv_BootFileName :: string
  rv_ClientID :: string
  rv_CircuitID :: string
  rv_DuID :: string
  rv_FlexID :: string
  rv_IPAddress :: string
  rv_HwAddress :: string
  rv_Hostname :: string
  rv_NextServer :: string
  rv_OptionData :: "OptionData list"
  rv_SubnetID :: int
  rv_UserContext :: "(string \<times> json) list"

text \<open>The values stored in \<open>Request.Arguments\<close> (a \<open>map[string]any\<close>) by the commands below.\<close>

datatype any =
    AInt int
  | AString string
  | AStrings "string list"
  | AStringMap "(string \<times> string) list"
  | AStringMaps "(string \<times> string) list list"
  | AIntMaps "(string \<times> int) list list"
  | ANewSubnets "NewRemoteSubnet4 list"
  | AReservation Reservation

record Request =
  Command :: string
  rq_Arguments :: "(string \<times> any) list"
  Service :: "string list"

record auth =
  username :: string
  password :: string

datatype Level = PanicLevel | FatalLevel | ErrorLevel | WarnLevel | InfoLevel | DebugLevel | TraceLevel

text \<open>
  \<open>Client\<close>: the \<open>http.Client\<close> is represented by what \<open>processOptions\<close> configures in it (the
  timeout in seconds, the proxy, and whether the transport in use skips TLS verification),
  the logger by its level.
\<close>

record Client =
  cl_Timeout :: "int option"
  cl_Proxy :: "string option"
  cl_InsecureSkipVerify :: bool
  cl_logLevel :: Level
  cl_auth :: auth
  cl_remote :: string

text \<open>An \<open>http.Request\<close> as \<open>make\<close> builds it.\<close>

record http_request =
  hr_Method :: string
  hr_URL :: string
  hr_Body :: "Request option"
  hr_ContentType :: string
  hr_Accept :: string
  hr_BasicAuth :: auth
  hr_RawQuery :: "(string \<times> string list) list"

text \<open>
  The errors the client returns.  \<open>RequestError\<close> and \<open>TransportError\<close> carry the message of
  the library error from \<open>http.NewRequestWithContext\<close> and \<open>http.Client.Do\<close>.
\<close>

datatype error =
    ErrInvalidIP
  | ErrInvalidMAC
  | RequestError string
  | TransportError string
  | CheckUnmarshal json_err
  | CheckNoResponse
  | ResultError int string
  | PayloadError json_err

definition error_Error :: "error \<Rightarrow> string" where
  "error_Error e =
     (case e of
        ErrInvalidIP \<Rightarrow> ''invalid IP address''
      | ErrInvalidMAC \<Rightarrow> ''invalid MAC address''
      | RequestError m \<Rightarrow> m
      | TransportError m \<Rightarrow> m
      | CheckUnmarshal je \<Rightarrow> ''checkResponse.json.Unmarshal('' @ json_err_Error je @ '')''
      | CheckNoResponse \<Rightarrow> ''checkResponse(Unable to find response in [])''
      | ResultError code txt \<Rightarrow> ''result:'' @ fmt_d code @ ''('' @ txt @ '')''
      | PayloadError je \<Rightarrow> ''failure decoding payload: '' @ json_err_Error je)"

text \<open>
  The environment of a call: the parts of the standard library that are not modelled
  (whether \<open>http.NewRequestWithContext\<close> rejects a method and URL, \<open>strconv.Quote\<close>, how
  \<open>fmt\<close> prints a struct with \<open>%v\<close>, the IPv6 parser of package net) and the remote server
  (\<open>roundTrip\<close>: what \<open>http.Client.Do\<close> returns for a request, an error message or the body
  stream of the response).
\<close>

record env =
  newRequestError :: "string \<Rightarrow> string \<Rightarrow> string option"
  roundTrip :: "http_request \<Rightarrow> string + stream"
  strconv_Quote :: "string \<Rightarrow> string"
  fmt_v :: "NewRemoteSubnet4 \<Rightarrow> string"
  parseIPv6 :: "string \<Rightarrow> bool"

subsection \<open>Decoders of the response types\<close>

definition zero_Response :: Response where
  "zero_Response = \<lparr>Result = 0, Text = [], Arguments = None\<rparr>"

text \<open>\<open>Arguments\<close> is a \<open>json.RawMessage\<close>: it keeps the value as it stands, \<open>null\<close> included.\<close>

definition Response_set :: "string \<Rightarrow> json \<Rightarrow> Response \<Rightarrow> json_err + Response" where
  "Response_set k v r =
     (case fieldFor [''result'', ''text'', ''arguments''] k of
        None \<Rightarrow> Inr r
      | Some f \<Rightarrow>
          if f = ''result'' then map_sum id (\<lambda>x. r\<lparr>Result := x\<rparr>) (dec_int (Result r) v)
          else if f = ''text'' then map_sum id (\<lambda>x. r\<lparr>Text := x\<rparr>) (dec_string (Text r) v)
          else Inr (r\<lparr>Arguments := Some v\<rparr>))"

definition dec_Response :: "Response dec" where
  "dec_Response = dec_struct ''kea.Response'' Response_set"

definition zero_Metadata :: Metadata where
  "zero_Metadata = \<lparr>ServerTags = []\<rparr>"

definition Metadata_set :: "string \<Rightarrow> json \<Rightarrow> Metadata \<Rightarrow> json_err + Metadata" where
  "Metadata_set k v r =
     (case fieldFor [''server-tags''] k of
        None \<Rightarrow> Inr r
      | Some f \<Rightarrow> map_sum id (\<lambda>x. r\<lparr>ServerTags := x\<rparr>)
                    (dec_slice ''[]string'' [] dec_string (ServerTags r) v))"

definition dec_Metadata :: "Metadata dec" where
  "dec_Metadata = dec_struct ''kea.Metadata'' Metadata_set"

definition zero_Relay :: Relay where
  "zero_Relay = \<lparr>IPAddresses = []\<rparr>"

definition Relay_set :: "string \<Rightarrow> json \<Rightarrow> Relay \<Rightarrow> json_err + Relay" where
  "Relay_set k v r =
     (case fieldFor [''ip-addresses''] k of
        None \<Rightarrow> Inr r
      | Some f \<Rightarrow> map_sum id (\<lambda>x. r\<lparr>IPAddresses := x\<rparr>)
                    (dec_slice ''[]string'' [] dec_string (IPAddresses r) v))"

definition dec_Relay :: "Relay dec" where
  "dec_Relay = dec_struct ''kea.Relay'' Relay_set"

definition zero_Pool :: Pool where
  "zero_Pool = \<lparr>po_Pool = []\<rparr>"

definition Pool_set :: "string \<Rightarrow> json \<Rightarrow> Pool \<Rightarrow> json_err + Pool" where
  "Pool_set k v r =
     (case fieldFor [''pool''] k of
        None \<Rightarrow> Inr r
      | Some f \<Rightarrow> map_sum id (\<lambda>x. r\<lparr>po_Pool := x\<rparr>) (dec_string (po_Pool r) v))"

definition dec_Pool :: "Pool dec" where
  "dec_Pool = dec_struct ''kea.Pool'' Pool_set"

definition zero_OptionData :: OptionData where
  "zero_OptionData = \<lparr>od_Code = None, od_Data = [], od_Name = [], od_Space = None, od_AlwaysSend = False\<rparr>"

definition OptionData_set :: "string \<Rightarrow> json \<Rightarrow> OptionData \<Rightarrow> json_err + OptionData" where
  "OptionData_set k v r =
     (case fieldFor [''code'', ''data'', ''name'', ''space'', ''always-send''] k of
        None \<Rightarrow> Inr r
      | Some f \<Rightarrow>
          if f = ''code'' then map_sum id (\<lambda>x. r\<lparr>od_Code := x\<rparr>) (dec_ptr 0 dec_int (od_Code r) v)
          else if f = ''data'' then map_sum id (\<lambda>x. r\<lparr>od_Data := x\<rparr>) (dec_string (od_Data r) v)
          else if f = ''name'' then map_sum id (\<lambda>x. r\<lparr>od_Name := x\<rparr>) (dec_string (od_Name r) v)
          else if f = ''space'' then map_sum id (\<lambda>x. r\<lparr>od_Space := x\<rparr>) (dec_ptr [] dec_string (od_Space r) v)
          else map_sum id (\<lambda>x. r\<lparr>od_AlwaysSend := x\<rparr>) (dec_bool (od_AlwaysSend r) v))"

definition dec_OptionData :: "OptionData dec" where
  "dec_OptionData = dec_struct ''kea.OptionData'' OptionData_set"

definition zero_RemoteSubnet4 :: RemoteSubnet4 where
  "zero_RemoteSubnet4 =
     \<lparr>rs_FourO6Interface = [], rs_FourO6InterfaceID = [], rs_FourO6Subnet = [], rs_ID = 0,
      rs_Metadata = zero_Metadata, rs_OptionData = [], rs_Pools = [], rs_Relay = zero_Relay,
      rs_SharedNetworkName = JNull, rs_Subnet = [], rs_UserContext = []\<rparr>"

definition RemoteSubnet4_set :: "string \<Rightarrow> json \<Rightarrow> RemoteSubnet4 \<Rightarrow> json_err + RemoteSubnet4" where
  "RemoteSubnet4_set k v r =
     (case fieldFor [''4o6-interface'', ''4o6-interface-id'', ''4o6-subnet'', ''id'', ''metadata'',
                     ''option-data'', ''pools'', ''relay'', ''shared-network-name'', ''subnet'',
                     ''user-context''] k of
        None \<Rightarrow> Inr r
      | Some f \<Rightarrow>
          if f = ''4o6-interface'' then
            map_sum id (\<lambda>x. r\<lparr>rs_FourO6Interface := x\<rparr>) (dec_string (rs_FourO6Interface r) v)
          else if f = ''4o6-interface-id'' then
            map_sum id (\<lambda>x. r\<lparr>rs_FourO6InterfaceID := x\<rparr>) (dec_string (rs_FourO6InterfaceID r) v)
          else if f = ''4o6-subnet'' then
            map_sum id (\<lambda>x. r\<lparr>rs_FourO6Subnet := x\<rparr>) (dec_string (rs_FourO6Subnet r) v)
          else if f = ''id'' then
            map_sum id (\<lambda>x. r\<lparr>rs_ID := x\<rparr>) (dec_int (rs_ID r) v)
          else if f = ''metadata'' then
            map_sum id (\<lambda>x. r\<lparr>rs_Metadata := x\<rparr>) (dec_Metadata (rs_Metadata r) v)
          else if f = ''option-data'' then
            map_sum id (\<lambda>x. r\<lparr>rs_OptionData := x\<rparr>)
              (dec_slice ''[]kea.OptionData'' zero_OptionData dec_OptionData (rs_OptionData r) v)
          else if f = ''pools'' then
            map_sum id (\<lambda>x. r\<lparr>rs_Pools := x\<rparr>)
              (dec_slice ''[]kea.Pool'' zero_Pool dec_Pool (rs_Pools r) v)
          else if f = ''relay'' then
            map_sum id (\<lambda>x. r\<lparr>rs_Relay := x\<rparr>) (dec_Relay (rs_Relay r) v)
          else if f = ''shared-network-name'' then
            map_sum id (\<lambda>x. r\<lparr>rs_SharedNetworkName := x\<rparr>) (dec_any (rs_SharedNetworkName r) v)
          else if f = ''subnet'' then
            map_sum id (\<lambda>x. r\<lparr>rs_Subnet := x\<rparr>) (dec_string (rs_Subnet r) v)
          else
            map_sum id (\<lambda>x. r\<lparr>rs_UserContext := x\<rparr>) (dec_map (rs_UserContext r) v))"

definition dec_RemoteSubnet4 :: "RemoteSubnet4 dec" where
  "dec_RemoteSubnet4 = dec_struct ''kea.RemoteSubnet4'' RemoteSubnet4_set"

definition zero_RemoteSubnet4List :: RemoteSubnet4List where
  "zero_RemoteSubnet4List =
     \<lparr>rl_ID = 0, rl_Metadata = zero_Metadata, rl_SharedNetworkName = [], rl_Subnet = []\<rparr>"

definition RemoteSubnet4List_set :: "string \<Rightarrow> json \<Rightarrow> RemoteSubnet4List \<Rightarrow> json_err + RemoteSubnet4List" where
  "RemoteSubnet4List_set k v r =
     (case fieldFor [''id'', ''metadata'', ''shared-network-name'', ''subnet''] k of
        None \<Rightarrow> Inr r
      | Some f \<Rightarrow>
          if f = ''id'' then map_sum id (\<lambda>x. r\<lparr>rl_ID := x\<rparr>) (dec_int (rl_ID r) v)
          else if f = ''metadata'' then
            map_sum id (\<lambda>x. r\<lparr>rl_Metadata := x\<rparr>) (dec_Metadata (rl_Metadata r) v)
          else if f = ''shared-network-name'' then
            map_sum id (\<lambda>x. r\<lparr>rl_SharedNetworkName := x\<rparr>) (dec_string (rl_SharedNetworkName r) v)
          else map_sum id (\<lambda>x. r\<lparr>rl_Subnet := x\<rparr>) (dec_string (rl_Subnet r) v))"

definition dec_RemoteSubnet4List :: "RemoteSubnet4List dec" where
  "dec_RemoteSubnet4List = dec_struct ''kea.RemoteSubnet4List'' RemoteSubnet4List_set"

definition zero_OptionReq :: OptionReq where
  "zero_OptionReq = \<lparr>oq_Code = 0, oq_Data = []\<rparr>"

definition OptionReq_set :: "string \<Rightarrow> json \<Rightarrow> OptionReq \<Rightarrow> json_err + OptionReq" where
  "OptionReq_set k v r =
     (case fieldFor [''code'', ''data''] k of
        None \<Rightarrow> Inr r
      | Some f \<Rightarrow>
          if f = ''code'' then map_sum id (\<lambda>x. r\<lparr>oq_Code := x\<rparr>) (dec_int (oq_Code r) v)
          else map_sum id (\<lambda>x. r\<lparr>oq_Data := x\<rparr>) (dec_string (oq_Data r) v))"

definition dec_OptionReq :: "OptionReq dec" where
  "dec_OptionReq = dec_struct ''kea.OptionReq'' OptionReq_set"

text \<open>The anonymous result structs \<open>struct { Subnets []T `json:"subnets"` }\<close> and
  \<open>struct { Options []OptionReq `json:"options"` }\<close> of the commands.\<close>

record 'a ret_Subnets =
  Subnets :: "'a list"

definition ret_Subnets_set :: "string \<Rightarrow> 'a \<Rightarrow> 'a dec \<Rightarrow> string \<Rightarrow> json \<Rightarrow> 'a ret_Subnets \<Rightarrow> json_err + 'a ret_Subnets" where
  "ret_Subnets_set ty zero d k v r =
     (case fieldFor [''subnets''] k of
        None \<Rightarrow> Inr r
      | Some f \<Rightarrow> map_sum id (\<lambda>x. r\<lparr>Subnets := x\<rparr>) (dec_slice ty zero d (Subnets r) v))"

definition dec_ret_Subnets :: "string \<Rightarrow> 'a \<Rightarrow> 'a dec \<Rightarrow> 'a ret_Subnets dec" where
  "dec_ret_Subnets ty zero d = dec_struct ''struct'' (ret_Subnets_set ty zero d)"

record ret_Options =
  Options :: "OptionReq list"

definition ret_Options_set :: "string \<Rightarrow> json \<Rightarrow> ret_Options \<Rightarrow> json_err + ret_Options" where
  "ret_Options_set k v r =
     (case fieldFor [''options''] k of
        None \<Rightarrow> Inr r
      | Some f \<Rightarrow> map_sum id (\<lambda>x. r\<lparr>Options := x\<rparr>)
                    (dec_slice ''[]kea.OptionReq'' zero_OptionReq dec_OptionReq (Options r) v))"

definition dec_ret_Options :: "ret_Options dec" where
  "dec_ret_Options = dec_struct ''struct'' ret_Options_set"

subsection \<open>make, checkResponse and do\<close>

text \<open>
  \<open>make\<close> (here \<open>make_req\<close>, since every record has a \<open>make\<close> of its own):
  the payload is encoded (for the \<open>Request\<close> values built below the encoder cannot
  fail), the URL is completed, and the library builds the request.  Every caller passes
  \<open>http.MethodPost\<close> and no query parameters.
\<close>

definition make_req :: "env \<Rightarrow> Client \<Rightarrow> string \<Rightarrow> string \<Rightarrow> Request option \<Rightarrow> (string \<times> string list) list option \<Rightarrow> error + http_request" where
  "make_req e c httpMethod url body queryParameters =
     (let url1 = (if \<not> strings_HasPrefix url ''https://'' then ''https://'' @ url else url);
          url2 = (if \<not> strings_HasSuffix url1 ''/'' then url1 @ ''/'' else url1)
      in case newRequestError e httpMethod url2 of
           Some m \<Rightarrow> Inl (RequestError m)
         | None \<Rightarrow>
             Inr \<lparr>hr_Method = httpMethod, hr_URL = url2, hr_Body = body,
                  hr_ContentType = ''application/json'', hr_Accept = ''application/json'',
                  hr_BasicAuth = cl_auth c,
                  hr_RawQuery = (case queryParameters of
                                   None \<Rightarrow> []
                                 | Some q \<Rightarrow> if length q > 0 then q else [])\<rparr>)"

text \<open>\<open>json.NewDecoder(resp.Body).Decode(&e)\<close> with \<open>e\<close> a \<open>[]Response\<close>.\<close>

definition Decode_Responses :: "stream \<Rightarrow> json_err + Response list" where
  "Decode_Responses body =
     (case body of
        EmptyStream \<Rightarrow> Inl IoEOF
      | BadSyntax m \<Rightarrow> Inl (SyntaxErr m)
      | FirstValue j \<Rightarrow> dec_slice ''[]kea.Response'' zero_Response dec_Response [] j)"

definition checkResponse :: "stream \<Rightarrow> error + Response" where
  "checkResponse body =
     (case Decode_Responses body of
        Inl err \<Rightarrow> Inl (CheckUnmarshal err)
      | Inr e \<Rightarrow>
          (case e of
             [] \<Rightarrow> Inl CheckNoResponse
           | e0 # _ \<Rightarrow>
               if Result e0 = 0 then Inr e0
               else Inl (ResultError (Result e0) (Text e0))))"

text \<open>
  \<open>do\<close>: the target \<open>v\<close> is \<open>None\<close> for a nil target, otherwise its current content with the
  decoder of its type.  The result is the returned \<open>*Response\<close>, the returned error, and what
  was stored in the target: \<open>None\<close> when the target was not written (or was left by a failed
  decode, after which no caller reads it).  Decoding an empty \<open>Arguments\<close> message is the
  library's \<open>io.EOF\<close>.  The deferred close of the body assigns to a local variable after the
  result has been fixed, so it does not change what is returned.
\<close>

definition do :: "env \<Rightarrow> Client \<Rightarrow> http_request \<Rightarrow> ('a \<times> 'a dec) option \<Rightarrow> Response option \<times> error option \<times> 'a option" where
  "do e c req v =
     (case roundTrip e req of
        Inl m \<Rightarrow> (None, Some (TransportError m), None)
      | Inr body \<Rightarrow>
          (case checkResponse body of
             Inl err \<Rightarrow> (None, Some err, None)
           | Inr res \<Rightarrow>
               (case v of
                  None \<Rightarrow> (Some res, None, None)
                | Some (cur, d) \<Rightarrow>
                    (case (case Arguments res of None \<Rightarrow> Inl IoEOF | Some j \<Rightarrow> d cur j) of
                       Inl je \<Rightarrow>
                         if je \<noteq> IoEOF then (Some res, Some (PayloadError je), None)
                         else (Some res, None, None)
                     | Inr x \<Rightarrow> (Some res, None, Some x)))))"

definition target_content :: "'a \<Rightarrow> 'a option \<Rightarrow> 'a" where
  "target_content zero stored = (case stored of None \<Rightarrow> zero | Some x \<Rightarrow> x)"

subsection \<open>Subnet commands\<close>

text \<open>
  Every command returns its Go result together with the requests it handed to
  \<open>http.Client.Do\<close>, in order.  Indexing an empty slice is the run-time panic
  \<open>IndexOutOfRange index length\<close>.
\<close>

datatype go_panic = IndexOutOfRange nat nat

definition zero_ret_Subnets :: "'a ret_Subnets" where
  "zero_ret_Subnets = \<lparr>Subnets = []\<rparr>"

definition RemoteSubnet4List :: "env \<Rightarrow> Client \<Rightarrow> string \<Rightarrow> (RemoteSubnet4List list \<times> error option) \<times> http_request list" where
  "RemoteSubnet4List e c hostname =
     (let payload = \<lparr>Command = ''remote-subnet4-list'',
                      rq_Arguments = [(''remote'', AStringMap [(''type'', cl_remote c)]),
                                      (''server-tags'', AStrings [''all''])],
                      Service = [''dhcp4'']\<rparr>
      in case make_req e c ''POST'' hostname (Some payload) None of
           Inl err \<Rightarrow> (([], Some err), [])
         | Inr req \<Rightarrow>
             (case do e c req (Some (zero_ret_Subnets,
                     dec_ret_Subnets ''[]kea.RemoteSubnet4List'' zero_RemoteSubnet4List dec_RemoteSubnet4List)) of
                (_, Some err, _) \<Rightarrow> (([], Some err), [req])
              | (_, None, ret) \<Rightarrow> ((Subnets (target_content zero_ret_Subnets ret), None), [req])))"

definition RemoteSubnet4GetByPrefix :: "env \<Rightarrow> Client \<Rightarrow> string \<Rightarrow> string \<Rightarrow> (go_panic + RemoteSubnet4 \<times> error option) \<times> http_request list" where
  "RemoteSubnet4GetByPrefix e c hostname prefix =
     (let payload = \<lparr>Command = ''remote-subnet4-get-by-prefix'',
                      rq_Arguments = [(''remote'', AStringMap [(''type'', cl_remote c)]),
                                      (''subnets'', AStringMaps [[(''subnet'', prefix)]])],
                      Service = [''dhcp4'']\<rparr>
      in case make_req e c ''POST'' hostname (Some payload) None of
           Inl err \<Rightarrow> (Inr (zero_RemoteSubnet4, Some err), [])
         | Inr req \<Rightarrow>
             (case do e c req (Some (zero_ret_Subnets,
                     dec_ret_Subnets ''[]kea.RemoteSubnet4'' zero_RemoteSubnet4 dec_RemoteSubnet4)) of
                (_, Some err, _) \<Rightarrow> (Inr (zero_RemoteSubnet4, Some err), [req])
              | (_, None, ret) \<Rightarrow>
                  (case Subnets (target_content zero_ret_Subnets ret) of
                     [] \<Rightarrow> (Inl (IndexOutOfRange 0 0), [req])
                   | s0 # _ \<Rightarrow> (Inr (s0, None), [req]))))"

definition RemoteSubnet4GetByID :: "env \<Rightarrow> Client \<Rightarrow> string \<Rightarrow> int \<Rightarrow> (go_panic + RemoteSubnet4 \<times> error option) \<times> http_request list" where
  "RemoteSubnet4GetByID e c hostname i =
     (let payload = \<lparr>Command = ''remote-subnet4-get-by-id'',
                      rq_Arguments = [(''remote'', AStringMap [(''type'', cl_remote c)]),
                                      (''subnets'', AIntMaps [[(''id'', i)]])],
                      Service = [''dhcp4'']\<rparr>
      in case make_req e c ''POST'' hostname (Some payload) None of
           Inl err \<Rightarrow> (Inr (zero_RemoteSubnet4, Some err), [])
         | Inr req \<Rightarrow>
             (case do e c req (Some (zero_ret_Subnets,
                     dec_ret_Subnets ''[]kea.RemoteSubnet4'' zero_RemoteSubnet4 dec_RemoteSubnet4)) of
                (_, Some err, _) \<Rightarrow> (Inr (zero_RemoteSubnet4, Some err), [req])
              | (_, None, ret) \<Rightarrow>
                  (case Subnets (target_content zero_ret_Subnets ret) of
                     [] \<Rightarrow> (Inl (IndexOutOfRange 0 0), [req])
                   | s0 # _ \<Rightarrow> (Inr (s0, None), [req]))))"

definition RemoteSubnet4Set :: "env \<Rightarrow> Client \<Rightarrow> string \<Rightarrow> NewRemoteSubnet4 list \<Rightarrow> (RemoteSubnet4List list \<times> error option) \<times> http_request list" where
  "RemoteSubnet4Set e c hostname subnets =
     (let payload = \<lparr>Command = ''remote-subnet4-set'',
                      rq_Arguments = [(''remote'', AStringMap [(''type'', cl_remote c)]),
                                      (''server-tags'', AStrings [''all'']),
                                      (''subnets'', ANewSubnets subnets)],
                      Service = [''dhcp4'']\<rparr>
      in case make_req e c ''POST'' hostname (Some payload) None of
           Inl err \<Rightarrow> (([], Some err), [])
         | Inr req \<Rightarrow>
             (case do e c req (Some (zero_ret_Subnets,
                     dec_ret_Subnets ''[]kea.RemoteSubnet4List'' zero_RemoteSubnet4List dec_RemoteSubnet4List)) of
                (_, Some err, _) \<Rightarrow> (([], Some err), [req])
              | (_, None, ret) \<Rightarrow> ((Subnets (target_content zero_ret_Subnets ret), None), [req])))"

subsection \<open>Package net: address parsing\<close>

text \<open>
  \<open>net.ParseIP\<close> looks for the first dot or colon: a dot selects the IPv4 parser, a colon the
  IPv6 parser (taken from the environment), and a text with neither is rejected.  An IPv4
  address is four decimal fields separated by dots, each with at least one digit, a value
  of at most 255 and no leading zero.  Only whether the result is nil matters to the
  program, so the model returns a boolean.
\<close>

definition decimal :: "string \<Rightarrow> int" where
  "decimal ds = foldl (\<lambda>n c. n * 10 + digitVal c) 0 ds"

definition ipv4Field :: "string \<Rightarrow> bool" where
  "ipv4Field f =
     (f \<noteq> [] \<and> list_all isDigit f \<and> decimal f \<le> 255 \<and> \<not> (length f > 1 \<and> hd f = CHR ''0''))"

definition parseIPv4 :: "string \<Rightarrow> bool" where
  "parseIPv4 s = (let fs = strings_Split s (CHR ''.'') in length fs = 4 \<and> list_all ipv4Field fs)"

fun ParseIP_from :: "env \<Rightarrow> string \<Rightarrow> string \<Rightarrow> bool" where
  "ParseIP_from e s [] = False"
| "ParseIP_from e s (c # cs) =
     (if c = CHR ''.'' then parseIPv4 s
      else if c = CHR '':'' then parseIPv6 e s
      else ParseIP_from e s cs)"

definition net_ParseIP :: "env \<Rightarrow> string \<Rightarrow> bool" where
  "net_ParseIP e s = ParseIP_from e s s"

text \<open>
  \<open>net.ParseMAC\<close>: 6, 8 or 20 bytes written as pairs of hexadecimal digits separated by
  colons or by hyphens, or as groups of four digits separated by dots.  \<open>xtoi2\<close> reads two
  hexadecimal digits and requires a following byte, if any, to be the separator.
\<close>

definition hexVal :: "char \<Rightarrow> nat option" where
  "hexVal c =
     (let n = (of_char c :: nat) in
      if 48 \<le> n \<and> n \<le> 57 then Some (n - 48)
      else if 97 \<le> n \<and> n \<le> 102 then Some (n - 97 + 10)
      else if 65 \<le> n \<and> n \<le> 70 then Some (n - 65 + 10)
      else None)"

fun xtoi2 :: "string \<Rightarrow> char \<Rightarrow> nat option" where
  "xtoi2 (a # b # rest) sep =
     (if rest \<noteq> [] \<and> hd rest \<noteq> sep then None
      else (case (hexVal a, hexVal b) of
              (Some x, Some y) \<Rightarrow> Some (x * 16 + y)
            | _ \<Rightarrow> None))"
| "xtoi2 s sep = None"

fun macPairs :: "char \<Rightarrow> nat \<Rightarrow> string \<Rightarrow> nat list option" where
  "macPairs sep 0 s = Some []"
| "macPairs sep (Suc n) s =
     (case xtoi2 s sep of
        None \<Rightarrow> None
      | Some b \<Rightarrow> map_option (\<lambda>bs. b # bs) (macPairs sep n (drop 3 s)))"

fun macQuads :: "char \<Rightarrow> nat \<Rightarrow> string \<Rightarrow> nat list option" where
  "macQuads sep 0 s = Some []"
| "macQuads sep (Suc n) s =
     (case xtoi2 (take 2 s) (CHR 0x00) of
        None \<Rightarrow> None
      | Some b1 \<Rightarrow>
          (case xtoi2 (drop 2 s) sep of
             None \<Rightarrow> None
           | Some b2 \<Rightarrow> map_option (\<lambda>bs. b1 # b2 # bs) (macQuads sep n (drop 5 s))))"

definition net_ParseMAC :: "string \<Rightarrow> nat list option" where
  "net_ParseMAC s =
     (if length s < 14 then None
      else if s ! 2 = CHR '':'' \<or> s ! 2 = CHR ''-'' then
        (if (length s + 1) mod 3 \<noteq> 0 then None
         else let n = (length s + 1) div 3 in
           if n \<noteq> 6 \<and> n \<noteq> 8 \<and> n \<noteq> 20 then None
           else macPairs (s ! 2) n s)
      else if s ! 4 = CHR ''.'' then
        (if (length s + 1) mod 5 \<noteq> 0 then None
         else let n = 2 * (length s + 1) div 5 in
           if n \<noteq> 6 \<and> n \<noteq> 8 \<and> n \<noteq> 20 then None
           else macQuads (s ! 4) (n div 2) s)
      else None)"

text \<open>\<open>HardwareAddr.String\<close>: the bytes as two lower-case hexadecimal digits each, joined by
  colons.\<close>

definition hexDigit :: "nat \<Rightarrow> char" where
  "hexDigit n = ''0123456789abcdef'' ! n"

fun HardwareAddr_String :: "nat list \<Rightarrow> string" where
  "HardwareAddr_String [] = []"
| "HardwareAddr_String [b] = [hexDigit (b div 16), hexDigit (b mod 16)]"
| "HardwareAddr_String (b # bs) =
     hexDigit (b div 16) # hexDigit (b mod 16) # CHR '':'' # HardwareAddr_String bs"

subsection \<open>Reservation commands\<close>

definition zero_ret_Options :: ret_Options where
  "zero_ret_Options = \<lparr>Options = []\<rparr>"

definition ReservationAdd :: "env \<Rightarrow> Client \<Rightarrow> string \<Rightarrow> Reservation \<Rightarrow> error option \<times> http_request list" where
  "ReservationAdd e c hostname res0 =
     (if \<not> net_ParseIP e (rv_IPAddress res0) then (Some ErrInvalidIP, [])
      else (case net_ParseMAC (rv_HwAddress res0) of
              None \<Rightarrow> (Some ErrInvalidMAC, [])
            | Some val \<Rightarrow>
                (let res = res0\<lparr>rv_HwAddress := HardwareAddr_String val\<rparr>;
                     payload = \<lparr>Command = ''reservation-add'',
                                rq_Arguments = [(''reservation'', AReservation res)],
                                Service = [''dhcp4'']\<rparr>
                 in case make_req e c ''POST'' hostname (Some payload) None of
                      Inl err \<Rightarrow> (Some err, [])
                    | Inr req \<Rightarrow>
                        (case do e c req (Some (zero_ret_Options, dec_ret_Options)) of
                           (_, Some err, _) \<Rightarrow> (Some err, [req])
                         | (_, None, _) \<Rightarrow> (None, [req])))))"

definition ReservationDel :: "env \<Rightarrow> Client \<Rightarrow> string \<Rightarrow> string \<Rightarrow> int \<Rightarrow> error option \<times> http_request list" where
  "ReservationDel e c hostname ipAddress subnetID =
     (if \<not> net_ParseIP e ipAddress then (Some ErrInvalidIP, [])
      else (let payload = \<lparr>Command = ''reservation-del'',
                            rq_Arguments = [(''subnet-id'', AInt subnetID),
                                            (''ip-address'', AString ipAddress)],
                            Service = [''dhcp4'']\<rparr>
            in case make_req e c ''POST'' hostname (Some payload) None of
                 Inl err \<Rightarrow> (Some err, [])
               | Inr req \<Rightarrow>
                   (case do e c req (Some (JNull, dec_any)) of
                      (_, Some err, _) \<Rightarrow> (Some err, [req])
                    | (_, None, _) \<Rightarrow> (None, [req]))))"

subsection \<open>Client construction\<close>

record options =
  op_httpTimeout :: "int option"
  op_logLevel :: "Level option"
  op_proxyURL :: "string option"
  op_auth :: "auth option"
  op_remote :: "string option"

definition zero_options :: options where
  "zero_options = \<lparr>op_httpTimeout = None, op_logLevel = None, op_proxyURL = None,
                    op_auth = None, op_remote = None\<rparr>"

definition SetHTTPTimeout :: "int \<Rightarrow> options \<Rightarrow> options" where
  "SetHTTPTimeout timeout o1 = o1\<lparr>op_httpTimeout := Some timeout\<rparr>"

definition WithLogLevel :: "Level \<Rightarrow> options \<Rightarrow> options" where
  "WithLogLevel lvl o1 = o1\<lparr>op_logLevel := Some lvl\<rparr>"

definition WithProxy :: "string \<Rightarrow> options \<Rightarrow> options" where
  "WithProxy url o1 = o1\<lparr>op_proxyURL := Some url\<rparr>"

definition WithAuth :: "string \<Rightarrow> string \<Rightarrow> options \<Rightarrow> options" where
  "WithAuth user pass o1 = o1\<lparr>op_auth := Some \<lparr>username = user, password = pass\<rparr>\<rparr>"

definition WithRemote :: "string \<Rightarrow> options \<Rightarrow> options" where
  "WithRemote r o1 = o1\<lparr>op_remote := Some r\<rparr>"

text \<open>
  \<open>processOptions\<close>: \<open>logrus.Fatal\<close> and \<open>logrus.Fatalf\<close> log and end the process, so a fatal
  exit is the \<open>Inl\<close> result and no client exists afterwards.  \<open>getenv\<close> is \<open>os.Getenv\<close> (the
  empty string for an unset variable), \<open>urlParseError\<close> what \<open>url.Parse\<close> reports.  A proxy
  replaces the transport by a fresh one, which does not carry the TLS setting.
\<close>

datatype fatal = FatalProxy string | FatalMissingAuth

definition processOptions :: "(string \<Rightarrow> string) \<Rightarrow> (string \<Rightarrow> string option) \<Rightarrow> (options \<Rightarrow> options) list \<Rightarrow> fatal + Client" where
  "processOptions getenv urlParseError opts =
     (let o1 = fold (\<lambda>opt acc. opt acc) opts zero_options;
          remote = (case op_remote o1 of None \<Rightarrow> ''postgresql'' | Some r \<Rightarrow> r)
      in case (case op_proxyURL o1 of None \<Rightarrow> None | Some u \<Rightarrow> urlParseError u) of
           Some err \<Rightarrow> Inl (FatalProxy err)
         | None \<Rightarrow>
             (let a = (case op_auth o1 of
                         Some x \<Rightarrow> \<lparr>username = username x, password = password x\<rparr>
                       | None \<Rightarrow> \<lparr>username = getenv ''KEA_USERNAME'',
                                   password = getenv ''KEA_PASSWORD''\<rparr>)
              in if username a = [] \<or> password a = [] then Inl FatalMissingAuth
                 else Inr \<lparr>cl_Timeout = op_httpTimeout o1,
                           cl_Proxy = op_proxyURL o1,
                           cl_InsecureSkipVerify = (op_proxyURL o1 = None),
                           cl_logLevel = (case op_logLevel o1 of None \<Rightarrow> InfoLevel | Some l \<Rightarrow> l),
                           cl_auth = a,
                           cl_remote = remote\<rparr>))"

definition New :: "(string \<Rightarrow> string) \<Rightarrow> (string \<Rightarrow> string option) \<Rightarrow> (options \<Rightarrow> options) list \<Rightarrow> fatal + Client" where
  "New getenv urlParseError opts = processOptions getenv urlParseError opts"

section \<open>Package provider: the Terraform resources\<close>

subsection \<open>Framework values and diagnostics\<close>

text \<open>
  A framework attribute (\<open>types.String\<close>, \<open>types.Int64\<close>, \<open>types.Bool\<close>) is null, unknown or
  a value; the \<open>Value...\<close> accessors return the zero value for null and unknown.  Reading the
  configuration or state (\<open>Get\<close>) may produce diagnostics, which are an input of each method;
  \<open>State.Set\<close> is taken to succeed.  A method returns its diagnostics, the state it has
  set (if any) and the requests it issued.
\<close>

datatype 'a tf = tfNull | tfUnknown | tfValue 'a

definition IsNull :: "'a tf \<Rightarrow> bool" where
  "IsNull a = (case a of tfNull \<Rightarrow> True | _ \<Rightarrow> False)"

definition IsUnknown :: "'a tf \<Rightarrow> bool" where
  "IsUnknown a = (case a of tfUnknown \<Rightarrow> True | _ \<Rightarrow> False)"

definition ValueString :: "string tf \<Rightarrow> string" where
  "ValueString a = (case a of tfValue s \<Rightarrow> s | _ \<Rightarrow> [])"

definition ValueInt64 :: "int tf \<Rightarrow> int" where
  "ValueInt64 a = (case a of tfValue i \<Rightarrow> i | _ \<Rightarrow> 0)"

definition ValueBool :: "bool tf \<Rightarrow> bool" where
  "ValueBool a = (case a of tfValue b \<Rightarrow> b | _ \<Rightarrow> False)"

datatype severity = SeverityError | SeverityWarning

datatype diagnostic = Diagnostic severity string string

definition AddError :: "string \<Rightarrow> string \<Rightarrow> diagnostic list \<Rightarrow> diagnostic list" where
  "AddError summary detail ds = ds @ [Diagnostic SeverityError summary detail]"

definition HasError :: "diagnostic list \<Rightarrow> bool" where
  "HasError ds = list_ex (\<lambda>d. case d of Diagnostic sev _ _ \<Rightarrow> sev = SeverityError) ds"

subsection \<open>The subnet resource\<close>

record remoteSubnet4OptionResourceModel =
  om_Code :: "int tf"
  om_Data :: "string tf"
  om_Name :: "string tf"
  om_AlwaysSend :: "bool tf"

record remoteSubnet4PoolResourceModel =
  pm_Pool :: "string tf"

record remoteSubnet4RelayResourceModel =
  rm_IPAddress :: "string tf"

record remoteSubnet4ResourceSchema =
  sc_Hostname :: "string tf"
  sc_ID :: "int tf"
  sc_OptionData :: "remoteSubnet4OptionResourceModel list"
  sc_Pools :: "remoteSubnet4PoolResourceModel list"
  sc_Relay :: "remoteSubnet4RelayResourceModel list"
  sc_Subnet :: "string tf"

text \<open>The checks every method of the subnet resource starts with.\<close>

definition subnet4_required :: "remoteSubnet4ResourceSchema \<Rightarrow> diagnostic list \<Rightarrow> diagnostic list" where
  "subnet4_required config d0 =
     (let d1 = (if IsNull (sc_Subnet config) \<or> IsUnknown (sc_Subnet config)
                   \<or> ValueString (sc_Subnet config) = []
                then AddError ''RemoteSubnet4Read'' ''Subnet4 prefix is required'' d0 else d0)
      in if IsNull (sc_Hostname config) \<or> IsUnknown (sc_Hostname config)
            \<or> ValueString (sc_Hostname config) = []
         then AddError ''RemoteSubnet4Read'' ''Hostname is required'' d1 else d1)"

text \<open>The \<open>kea.NewRemoteSubnet4\<close> that \<open>Create\<close> and \<open>Update\<close> build from the configuration.\<close>

definition newSubnet_of :: "int \<Rightarrow> remoteSubnet4ResourceSchema \<Rightarrow> NewRemoteSubnet4" where
  "newSubnet_of i config =
     \<lparr>ns_ID = i,
      ns_Subnet = ValueString (sc_Subnet config),
      ns_SharedNetworkName = None,
      ns_Pools = map (\<lambda>p. \<lparr>po_Pool = ValueString (pm_Pool p)\<rparr>) (sc_Pools config),
      ns_OptionData = map (\<lambda>o1. \<lparr>od_Code = Some (ValueInt64 (om_Code o1)),
                                   od_Data = ValueString (om_Data o1),
                                   od_Name = ValueString (om_Name o1),
                                   od_Space = None,
                                   od_AlwaysSend = ValueBool (om_AlwaysSend o1)\<rparr>) (sc_OptionData config),
      ns_Relay = \<lparr>IPAddresses = map (\<lambda>ip. ValueString (rm_IPAddress ip)) (sc_Relay config)\<rparr>,
      ns_UserContext = []\<rparr>"

definition NumError_Error :: "env \<Rightarrow> string \<Rightarrow> NumError \<Rightarrow> string" where
  "NumError_Error e num err =
     ''strconv.Atoi: parsing '' @ strconv_Quote e num @ '': ''
       @ (case err of ErrSyntax \<Rightarrow> ''invalid syntax'' | ErrRange \<Rightarrow> ''value out of range'')"

definition remoteSubnet4Resource_Create :: "env \<Rightarrow> Client \<Rightarrow> diagnostic list \<Rightarrow> remoteSubnet4ResourceSchema \<Rightarrow> diagnostic list \<times> remoteSubnet4ResourceSchema option \<times> http_request list" where
  "remoteSubnet4Resource_Create e c d0 config =
     (let d = subnet4_required config d0 in
      if HasError d then (d, None, [])
      else let subnet = ValueString (sc_Subnet config) in
        case cidrToID subnet of
          Inl err \<Rightarrow>
            (AddError ''RemoteSubnet4Create''
               (''Unable to parse subnet4 prefix `'' @ subnet @ ''`, got error: ''
                  @ NumError_Error e (cidrToIDRepl_Replace (hd (strings_Split subnet (CHR ''/'')))) err) d,
             None, [])
        | Inr i \<Rightarrow>
            (let newSubnet = newSubnet_of i config in
             case RemoteSubnet4Set e c (ValueString (sc_Hostname config)) [newSubnet] of
               ((respData, Some err), sent) \<Rightarrow>
                 (AddError ''RemoteSubnet4Create''
                    (''Unable to create subnet with new id='' @ fmt_d i @ '' in Kea, got error: ''
                       @ error_Error err @ '' | '' @ fmt_v e newSubnet) d,
                  None, sent)
             | ((respData, None), sent) \<Rightarrow>
                 (case respData of
                    [res] \<Rightarrow>
                      (d, Some (config\<lparr>sc_ID := tfValue (rl_ID res),
                                       sc_Subnet := tfValue (rl_Subnet res)\<rparr>), sent)
                  | _ \<Rightarrow>
                      (AddError ''RemoteSubnet4Update''
                         (''Unable to create subnet4 with new id='' @ fmt_d i
                            @ '' in Kea,, got error: %!s(<nil>)'') d,
                       None, sent))))"

definition remoteSubnet4Resource_Update :: "env \<Rightarrow> Client \<Rightarrow> diagnostic list \<Rightarrow> remoteSubnet4ResourceSchema \<Rightarrow> diagnostic list \<times> remoteSubnet4ResourceSchema option \<times> http_request list" where
  "remoteSubnet4Resource_Update e c d0 config =
     (let d = subnet4_required config d0 in
      if HasError d then (d, None, [])
      else let subnet = ValueString (sc_Subnet config) in
        case cidrToID subnet of
          Inl err \<Rightarrow>
            (AddError ''RemoteSubnet4Create''
               (''Unable to parse subnet4 prefix `'' @ subnet @ ''`, got error: ''
                  @ NumError_Error e (cidrToIDRepl_Replace (hd (strings_Split subnet (CHR ''/'')))) err) d,
             None, [])
        | Inr i \<Rightarrow>
            (case RemoteSubnet4Set e c (ValueString (sc_Hostname config)) [newSubnet_of i config] of
               ((respData, Some err), sent) \<Rightarrow>
                 (AddError ''RemoteSubnet4Update''
                    (''Unable to update subnet4 in Kea, got error: '' @ error_Error err) d,
                  None, sent)
             | ((respData, None), sent) \<Rightarrow>
                 (case respData of
                    [res] \<Rightarrow>
                      (d, Some (config\<lparr>sc_ID := tfValue (rl_ID res),
                                       sc_Subnet := tfValue (rl_Subnet res)\<rparr>), sent)
                  | _ \<Rightarrow>
                      (AddError ''RemoteSubnet4Update''
                         ''Unable to update subnet4 in Kea,, got error: %!s(<nil>)'' d,
                       None, sent))))"

text \<open>\<open>Read\<close>: an error of the lookup is reported unless its text contains \<open>not found\<close>; the state
  is then written from whatever the lookup returned.\<close>

definition remoteSubnet4Resource_Read :: "env \<Rightarrow> Client \<Rightarrow> diagnostic list \<Rightarrow> remoteSubnet4ResourceSchema \<Rightarrow> (go_panic + diagnostic list \<times> remoteSubnet4ResourceSchema option) \<times> http_request list" where
  "remoteSubnet4Resource_Read e c d0 config =
     (let d = subnet4_required config d0 in
      if HasError d then (Inr (d, None), [])
      else
        case RemoteSubnet4GetByPrefix e c (ValueString (sc_Hostname config))
               (ValueString (sc_Subnet config)) of
          (Inl p, sent) \<Rightarrow> (Inl p, sent)
        | (Inr (respData, err), sent) \<Rightarrow>
            (let reported = (case err of
                               None \<Rightarrow> None
                             | Some er \<Rightarrow>
                                 if \<not> strings_Contains (error_Error er) ''not found''
                                 then Some (AddError ''RemoteSubnet4GetByPrefix''
                                        (''Unable to read example, got error: '' @ error_Error er) d)
                                 else None)
             in case reported of
                  Some d' \<Rightarrow> (Inr (d', None), sent)
                | None \<Rightarrow>
                    if HasError d then (Inr (d, None), sent)
                    else
                      (Inr (d, Some (config\<lparr>
                          sc_ID := tfValue (rs_ID respData),
                          sc_OptionData :=
                            map (\<lambda>v. \<lparr>om_Code = tfValue (case od_Code v of None \<Rightarrow> 0 | Some code \<Rightarrow> code),
                                       om_Data = tfValue (od_Data v),
                                       om_Name = tfValue (od_Name v),
                                       om_AlwaysSend = tfValue (od_AlwaysSend v)\<rparr>) (rs_OptionData respData),
                          sc_Pools := map (\<lambda>v. \<lparr>pm_Pool = tfValue (po_Pool v)\<rparr>) (rs_Pools respData),
                          sc_Relay := map (\<lambda>v. \<lparr>rm_IPAddress = tfValue v\<rparr>) (IPAddresses (rs_Relay respData)),
                          sc_Subnet := tfValue (rs_Subnet respData)\<rparr>)), sent)))"

subsection \<open>The reservation resource\<close>

record reservationOptionResourceModel =
  ro_Code :: "int tf"
  ro_Data :: "string tf"
  ro_Name :: "string tf"
  ro_AlwaysSend :: "bool tf"

record reservationResourceSchema =
  rr_SubnetID :: "int tf"
  rr_Hostname :: "string tf"
  rr_ReservationHostname :: "string tf"
  rr_BootFileName :: "string tf"
  rr_ClientID :: "string tf"
  rr_CircuitID :: "string tf"
  rr_DuID :: "string tf"
  rr_FlexID :: "string tf"
  rr_IPAddress :: "string tf"
  rr_HwAddress :: "string tf"
  rr_NextServer :: "string tf"
  rr_OptionData :: "reservationOptionResourceModel list"
  rr_UserContext :: "(string \<times> string) list tf"

definition reservationResource_Delete :: "env \<Rightarrow> Client \<Rightarrow> diagnostic list \<Rightarrow> reservationResourceSchema \<Rightarrow> diagnostic list \<times> http_request list" where
  "reservationResource_Delete e c d0 config =
     (let d1 = (if IsNull (rr_SubnetID config) \<or> IsUnknown (rr_SubnetID config)
                then AddError ''ReservationDel'' ''`subnet_id` is required'' d0 else d0);
          d2 = (if IsNull (rr_Hostname config) \<or> IsUnknown (rr_Hostname config)
                   \<or> ValueString (rr_Hostname config) = []
                then AddError ''ReservationDel'' ''`hostname` field is required'' d1 else d1);
          d3 = (if IsNull (rr_ReservationHostname config) \<or> IsUnknown (rr_ReservationHostname config)
                   \<or> ValueString (rr_ReservationHostname config) = []
                then AddError ''ReservationDel'' ''`reservation_hostname` field is required'' d2 else d2);
          d4 = (if IsNull (rr_IPAddress config) \<or> IsUnknown (rr_IPAddress config)
                   \<or> ValueString (rr_IPAddress config) = []
                then AddError ''ReservationDel'' ''`ip_address` field is required'' d3 else d3)
      in if HasError d4 then (d4, [])
         else
           (case ReservationDel e c (ValueString (rr_Hostname config))
                   (ValueString (rr_IPAddress config)) (ValueInt64 (rr_SubnetID config)) of
              (Some err, sent) \<Rightarrow>
                (AddError ''ReservationDel''
                   (''Unable to delete reservation, got error: '' @ error_Error err) d4, sent)
            | (None, sent) \<Rightarrow> (d4, sent)))"

section \<open>The specification's reading of the subnet identifier\<close>

text \<open>
  The specification derives the identifier from a prefix by taking the part before the
  slash, removing the dots (and any slash or space), and reading the remaining digit string
  as a decimal number.  \<open>is_ipv4_cidr\<close> is a syntactically valid IPv4 prefix: a dotted IPv4
  address, a slash and a prefix length of at most 32.
\<close>

definition spec_digits :: "string \<Rightarrow> string" where
  "spec_digits P =
     filter (\<lambda>c. c \<noteq> CHR ''.'' \<and> c \<noteq> CHR ''/'' \<and> c \<noteq> CHR '' '')
       (takeWhile (\<lambda>c. c \<noteq> CHR ''/'') P)"

definition spec_subnet_id :: "string \<Rightarrow> int option" where
  "spec_subnet_id P =
     (let ds = spec_digits P in
      if ds \<noteq> [] \<and> list_all isDigit ds then Some (decimal ds) else None)"

definition is_ipv4_cidr :: "string \<Rightarrow> bool" where
  "is_ipv4_cidr P =
     (case strings_Split P (CHR ''/'') of
        [a, n] \<Rightarrow> parseIPv4 a \<and> n \<noteq> [] \<and> list_all isDigit n \<and> decimal n \<le> 32
      | _ \<Rightarrow> False)"

section \<open>Observations and example inputs\<close>

text \<open>The URL \<open>make\<close> computes from the host name it is given.\<close>

definition request_url :: "string \<Rightarrow> string" where
  "request_url url =
     (let url1 = (if \<not> strings_HasPrefix url ''https://'' then ''https://'' @ url else url)
      in if \<not> strings_HasSuffix url1 ''/'' then url1 @ ''/'' else url1)"

text \<open>The request \<open>make\<close> builds for a \<open>POST\<close> of a payload to a host, when the library
  accepts it.\<close>

definition post_request :: "Client \<Rightarrow> string \<Rightarrow> Request \<Rightarrow> http_request" where
  "post_request c hostname payload =
     \<lparr>hr_Method = ''POST'', hr_URL = request_url hostname, hr_Body = Some payload,
      hr_ContentType = ''application/json'', hr_Accept = ''application/json'',
      hr_BasicAuth = cl_auth c, hr_RawQuery = []\<rparr>"

text \<open>The \<open>subnets\<close> argument of a request that carries new subnets.\<close>

definition request_subnets :: "http_request \<Rightarrow> NewRemoteSubnet4 list option" where
  "request_subnets r =
     (case hr_Body r of
        None \<Rightarrow> None
      | Some b \<Rightarrow>
          (case map_of (rq_Arguments b) ''subnets'' of
             Some (ANewSubnets xs) \<Rightarrow> Some xs
           | _ \<Rightarrow> None))"

text \<open>The reservation carried by a request, if any.\<close>

definition request_reservation :: "http_request \<Rightarrow> Reservation option" where
  "request_reservation r =
     (case hr_Body r of
        None \<Rightarrow> None
      | Some b \<Rightarrow>
          (case map_of (rq_Arguments b) ''reservation'' of
             Some (AReservation x) \<Rightarrow> Some x
           | _ \<Rightarrow> None))"

text \<open>
  Example inputs for the concrete instances below: a client, an environment whose server
  answers every request with a given body, and the envelope the server sends for a result
  code, a text and arguments.
\<close>

definition example_client :: Client where
  "example_client =
     \<lparr>cl_Timeout = None, cl_Proxy = None, cl_InsecureSkipVerify = True, cl_logLevel = InfoLevel,
      cl_auth = \<lparr>username = ''kea'', password = ''secret''\<rparr>, cl_remote = ''postgresql''\<rparr>"

definition example_env :: "stream \<Rightarrow> env" where
  "example_env body =
     \<lparr>newRequestError = (\<lambda>m u. None),
      roundTrip = (\<lambda>r. Inr body),
      strconv_Quote = (\<lambda>s. CHR 0x22 # s @ [CHR 0x22]),
      fmt_v = (\<lambda>x. []),
      parseIPv6 = (\<lambda>s. False)\<rparr>"

definition example_request :: http_request where
  "example_request =
     \<lparr>hr_Method = ''POST'', hr_URL = ''https://kea-primary.example.com/'',
      hr_Body = Some \<lparr>Command = ''ha-heartbeat'', rq_Arguments = [], Service = [''dhcp4'']\<rparr>,
      hr_ContentType = ''application/json'', hr_Accept = ''application/json'',
      hr_BasicAuth = \<lparr>username = ''kea'', password = ''secret''\<rparr>, hr_RawQuery = []\<rparr>"

definition envelope :: "int \<Rightarrow> string \<Rightarrow> json \<Rightarrow> stream" where
  "envelope code txt args =
     FirstValue (JArr [JObj [(''result'', JInt code), (''text'', JStr txt), (''arguments'', args)]])"

definition example_set_reply :: stream where
  "example_set_reply =
     envelope 0 ''IPv4 subnet successfully set.''
       (JObj [(''subnets'', JArr [JObj [(''id'', JInt 1921682250),
                                        (''subnet'', JStr ''192.168.225.0/24'')]])])"

text \<open>The \<open>arguments\<close> of a lookup reply that leave the decoded list of subnets empty.\<close>

definition no_subnets :: "json option \<Rightarrow> bool" where
  "no_subnets a =
     (case a of
        None \<Rightarrow> True
      | Some j \<Rightarrow>
          dec_ret_Subnets ''[]kea.RemoteSubnet4'' zero_RemoteSubnet4 dec_RemoteSubnet4
            zero_ret_Subnets j = Inr \<lparr>Subnets = []\<rparr>)"

definition example_found_reply :: stream where
  "example_found_reply =
     envelope 0 ''1 IPv4 subnet(s) found.''
       (JObj [(''count'', JInt 1),
              (''subnets'', JArr [JObj
                 [(''id'', JInt 1921682250),
                  (''subnet'', JStr ''192.168.225.0/24''),
                  (''shared-network-name'', JNull),
                  (''pools'', JArr [JObj [(''pool'', JStr ''192.168.225.50-192.168.225.150'')]]),
                  (''relay'', JObj [(''ip-addresses'', JArr [JStr ''192.168.225.1''])]),
                  (''option-data'', JArr [JObj [(''code'', JInt 3), (''name'', JStr ''routers''),
                                                (''data'', JStr ''192.168.225.1''),
                                                (''always-send'', JBool False)]])]])])"

definition example_reservation_config :: reservationResourceSchema where
  "example_reservation_config =
     \<lparr>rr_SubnetID = tfValue 1921682250,
      rr_Hostname = tfValue ''kea-primary.example.com'',
      rr_ReservationHostname = tfValue ''host-1'',
      rr_BootFileName = tfNull, rr_ClientID = tfNull, rr_CircuitID = tfNull, rr_DuID = tfNull,
      rr_FlexID = tfNull,
      rr_IPAddress = tfValue ''192.168.225.5'',
      rr_HwAddress = tfValue ''b8:27:eb:9c:ae:b7'',
      rr_NextServer = tfNull, rr_OptionData = [], rr_UserContext = tfNull\<rparr>"

definition example_reservation :: "string \<Rightarrow> string \<Rightarrow> Reservation" where
  "example_reservation ip mac =
     \<lparr>rv_BootFileName = [], rv_ClientID = [], rv_CircuitID = [], rv_DuID = [], rv_FlexID = [],
      rv_IPAddress = ip, rv_HwAddress = mac, rv_Hostname = ''host-1'', rv_NextServer = [],
      rv_OptionData = [], rv_SubnetID = 1921682250, rv_UserContext = []\<rparr>"

text \<open>The credentials the specification names: those of the explicit configuration, or,
  when none is given, those of the two environment variables.\<close>

definition resolved_auth :: "(string \<Rightarrow> string) \<Rightarrow> (options \<Rightarrow> options) list \<Rightarrow> auth" where
  "resolved_auth getenv opts =
     (case op_auth (fold (\<lambda>opt acc. opt acc) opts zero_options) of
        Some x \<Rightarrow> x
      | None \<Rightarrow> \<lparr>username = getenv ''KEA_USERNAME'', password = getenv ''KEA_PASSWORD''\<rparr>)"

definition example_getenv :: "string \<Rightarrow> string" where
  "example_getenv k =
     (if k = ''KEA_USERNAME'' then ''kea'' else if k = ''KEA_PASSWORD'' then ''secret'' else [])"

text \<open>The canonical text of a hardware address: pairs of lower-case hexadecimal digits
  separated by colons.\<close>

definition lowerHex :: "char \<Rightarrow> bool" where
  "lowerHex ch = (ch \<in> set ''0123456789abcdef'')"

fun canonicalMAC :: "string \<Rightarrow> bool" where
  "canonicalMAC [a, b] = (lowerHex a \<and> lowerHex b)"
| "canonicalMAC (a # b # s # rest) = (lowerHex a \<and> lowerHex b \<and> s = CHR '':'' \<and> canonicalMAC rest)"
| "canonicalMAC other = False"

definition example_subnet_config :: "string \<Rightarrow> remoteSubnet4ResourceSchema" where
  "example_subnet_config subnet =
     \<lparr>sc_Hostname = tfValue ''kea-primary.example.com'',
      sc_ID = tfUnknown,
      sc_OptionData =
        [\<lparr>om_Code = tfValue 3, om_Data = tfValue ''192.168.225.1'', om_Name = tfValue ''routers'',
          om_AlwaysSend = tfNull\<rparr>,
         \<lparr>om_Code = tfValue 15, om_Data = tfValue ''example.com'', om_Name = tfValue ''domain-name'',
          om_AlwaysSend = tfNull\<rparr>,
         \<lparr>om_Code = tfValue 6, om_Data = tfValue ''4.2.2.2, 8.8.8.8'',
          om_Name = tfValue ''domain-name-servers'', om_AlwaysSend = tfValue True\<rparr>],
      sc_Pools = [\<lparr>pm_Pool = tfValue ''192.168.225.50-192.168.225.150''\<rparr>],
      sc_Relay = [\<lparr>rm_IPAddress = tfValue ''192.168.225.1''\<rparr>],
      sc_Subnet = tfValue subnet\<rparr>"

section \<open>Properties\<close>

lemma strings_Split_nonempty: "strings_Split s sep \<noteq> []"
  by (induction s) (auto split: list.splits)

subsection \<open>Subnet identifier derivation\<close>

lemma hd_strings_Split: "hd (strings_Split s sep) = takeWhile (\<lambda>c. c \<noteq> sep) s"
  by (induction s) (auto split: list.splits simp: strings_Split_nonempty)

lemma concat_strings_Split: "concat (strings_Split s sep) = filter (\<lambda>c. c \<noteq> sep) s"
  by (induction s) (auto split: list.splits)

lemma cidrToIDRepl_Replace_filter:
  "cidrToIDRepl_Replace s = filter (\<lambda>c. c \<noteq> CHR ''.'' \<and> c \<noteq> CHR ''/'' \<and> c \<noteq> CHR '' '') s"
  unfolding cidrToIDRepl_Replace_def by (induction s) auto

lemma cidrToID_spec_digits: "cidrToID P = strconv_Atoi (spec_digits P)"
  by (simp add: cidrToID_def spec_digits_def hd_strings_Split cidrToIDRepl_Replace_filter)

lemma digitVal_bounds: "isDigit c \<Longrightarrow> 0 \<le> digitVal c \<and> digitVal c \<le> 9"
  by (simp add: isDigit_def digitVal_def)

lemma foldl_decimal_ge:
  "list_all isDigit cs \<Longrightarrow> 0 \<le> n \<Longrightarrow> n \<le> foldl (\<lambda>n c. n * 10 + digitVal c) n cs"
proof (induction cs arbitrary: n)
  case Nil
  then show ?case by simp
next
  case (Cons c cs)
  from Cons.prems have d: "0 \<le> digitVal c" and r: "list_all isDigit cs"
    using digitVal_bounds by auto
  have "n \<le> n * 10 + digitVal c" using Cons.prems(2) d by simp
  also have "\<dots> \<le> foldl (\<lambda>n c. n * 10 + digitVal c) (n * 10 + digitVal c) cs"
    using Cons.IH [OF r] Cons.prems(2) d by simp
  finally show ?case by simp
qed

lemma parseUintFrom_digits:
  "list_all isDigit cs \<Longrightarrow> 0 \<le> n \<Longrightarrow>
   foldl (\<lambda>n c. n * 10 + digitVal c) n cs \<le> 2 ^ 64 - 1 \<Longrightarrow>
   parseUintFrom n cs = Inr (foldl (\<lambda>n c. n * 10 + digitVal c) n cs)"
proof (induction cs arbitrary: n)
  case Nil
  then show ?case by simp
next
  case (Cons c cs)
  from Cons.prems have d: "0 \<le> digitVal c" and dc: "isDigit c" and r: "list_all isDigit cs"
    using digitVal_bounds by auto
  have nn: "0 \<le> n * 10 + digitVal c" using Cons.prems(2) d by simp
  have "n * 10 + digitVal c \<le> foldl (\<lambda>n c. n * 10 + digitVal c) (n * 10 + digitVal c) cs"
    by (rule foldl_decimal_ge [OF r nn])
  with Cons.prems(3) have le: "n * 10 + digitVal c \<le> 2 ^ 64 - 1" by simp
  show ?case using Cons.IH [OF r nn] Cons.prems(3) le dc by (simp add: Let_def)
qed

lemma isDigit_not_sign: "isDigit c \<Longrightarrow> c \<noteq> CHR ''+'' \<and> c \<noteq> CHR ''-''"
  by (auto simp: isDigit_def)

lemma strconv_Atoi_digits:
  assumes "ds \<noteq> []" "list_all isDigit ds" "decimal ds < 2 ^ 63"
  shows "strconv_Atoi ds = Inr (decimal ds)"
proof -
  obtain c cs where ds: "ds = c # cs" using assms(1) by (cases ds) auto
  have c: "c \<noteq> CHR ''+''" "c \<noteq> CHR ''-''" using assms(2) ds isDigit_not_sign by auto
  have le: "foldl (\<lambda>n c. n * 10 + digitVal c) 0 ds \<le> 2 ^ 64 - 1"
    using assms(3) by (simp add: decimal_def)
  have "parseUintFrom 0 ds = Inr (decimal ds)"
    using parseUintFrom_digits [OF assms(2) _ le] by (simp add: decimal_def)
  then show ?thesis using assms(3) c ds by (simp add: strconv_Atoi_def Let_def)
qed


lemma foldl_decimal_shift:
  "foldl (\<lambda>n c. n * 10 + digitVal c) n ds
     = n * 10 ^ length ds + foldl (\<lambda>n c. n * 10 + digitVal c) 0 ds"
proof (induction ds arbitrary: n)
  case Nil
  then show ?case by simp
next
  case (Cons c cs)
  have "foldl (\<lambda>n c. n * 10 + digitVal c) n (c # cs)
          = (n * 10 + digitVal c) * 10 ^ length cs + foldl (\<lambda>n c. n * 10 + digitVal c) 0 cs"
    using Cons.IH [of "n * 10 + digitVal c"] by simp
  moreover have "foldl (\<lambda>n c. n * 10 + digitVal c) 0 (c # cs)
          = digitVal c * 10 ^ length cs + foldl (\<lambda>n c. n * 10 + digitVal c) 0 cs"
    using Cons.IH [of "digitVal c"] by simp
  ultimately show ?case by (simp add: algebra_simps)
qed

lemma decimal_Cons: "decimal (c # cs) = digitVal c * 10 ^ length cs + decimal cs"
  using foldl_decimal_shift [of "digitVal c" cs] by (simp add: decimal_def)

lemma decimal_nonneg: "list_all isDigit ds \<Longrightarrow> 0 \<le> decimal ds"
  using foldl_decimal_ge [of ds 0] by (simp add: decimal_def)

lemma decimal_lt_pow: "list_all isDigit ds \<Longrightarrow> decimal ds < 10 ^ length ds"
proof (induction ds)
  case Nil
  then show ?case by (simp add: decimal_def)
next
  case (Cons c cs)
  then have d: "digitVal c \<le> 9" and r: "decimal cs < 10 ^ length cs"
    using digitVal_bounds by auto
  have m: "digitVal c * 10 ^ length cs \<le> 9 * 10 ^ length cs"
    using d by (simp add: mult_right_mono)
  have p: "(10::int) ^ length (c # cs) = 10 * 10 ^ length cs" by simp
  show ?case unfolding decimal_Cons p using m r by linarith
qed

lemma digitVal_zero: "isDigit c \<Longrightarrow> digitVal c = 0 \<Longrightarrow> c = CHR ''0''"
proof -
  assume "isDigit c" and "digitVal c = 0"
  then have a: "(of_char c :: int) = 48" by (simp add: digitVal_def)
  have b: "(of_char (CHR ''0'') :: int) = 48" by simp
  have "(of_char c :: int) = of_char (CHR ''0'')" unfolding a b ..
  then show ?thesis by (simp only: of_char_eq_iff)
qed

lemma ipv4Field_length: "ipv4Field f \<Longrightarrow> length f \<le> 3"
proof (rule ccontr)
  assume f: "ipv4Field f" and "\<not> length f \<le> 3"
  then have len: "4 \<le> length f" by simp
  then obtain c cs where fc: "f = c # cs" by (cases f) auto
  from f fc len have dc: "isDigit c" and dcs: "list_all isDigit cs" and nz: "c \<noteq> CHR ''0''"
    and le: "decimal (c # cs) \<le> 255"
    by (auto simp: ipv4Field_def)
  have "1 \<le> digitVal c" using dc nz digitVal_zero [of c] digitVal_bounds [of c] by fastforce
  moreover have "(10::int) ^ 3 \<le> 10 ^ length cs"
    using len fc by (intro power_increasing) auto
  ultimately have "(1000::int) \<le> digitVal c * 10 ^ length cs"
    using mult_mono [of 1 "digitVal c" "10 ^ 3" "10 ^ length cs"] by simp
  then show False using le decimal_nonneg [OF dcs] by (simp add: decimal_Cons)
qed


lemma isDigit_not_sep: "isDigit c \<Longrightarrow> c \<noteq> CHR ''/'' \<and> c \<noteq> CHR '' '' \<and> c \<noteq> CHR ''.''"
  by (auto simp: isDigit_def)

lemma parseIPv4_digits:
  assumes "parseIPv4 a"
  shows "filter (\<lambda>c. c \<noteq> CHR ''.'' \<and> c \<noteq> CHR ''/'' \<and> c \<noteq> CHR '' '') a \<noteq> []
       \<and> list_all isDigit (filter (\<lambda>c. c \<noteq> CHR ''.'' \<and> c \<noteq> CHR ''/'' \<and> c \<noteq> CHR '' '') a)
       \<and> length (filter (\<lambda>c. c \<noteq> CHR ''.'' \<and> c \<noteq> CHR ''/'' \<and> c \<noteq> CHR '' '') a) \<le> 12"
proof -
  from assms obtain f1 f2 f3 f4 where fs: "strings_Split a (CHR ''.'') = [f1, f2, f3, f4]"
    and f: "ipv4Field f1" "ipv4Field f2" "ipv4Field f3" "ipv4Field f4"
    by (auto simp: parseIPv4_def Let_def length_Suc_conv numeral_eq_Suc)
  let ?ds = "f1 @ f2 @ f3 @ f4"
  have c: "filter (\<lambda>c. c \<noteq> CHR ''.'') a = ?ds"
    using concat_strings_Split [of a "CHR ''.''"] fs by simp
  have dig: "list_all isDigit ?ds" using f by (simp add: ipv4Field_def)
  have "filter (\<lambda>c. c \<noteq> CHR ''.'' \<and> c \<noteq> CHR ''/'' \<and> c \<noteq> CHR '' '') a
          = filter (\<lambda>c. c \<noteq> CHR ''/'' \<and> c \<noteq> CHR '' '') (filter (\<lambda>c. c \<noteq> CHR ''.'') a)"
    by (simp add: conj_commute conj_left_commute)
  also have "\<dots> = filter (\<lambda>c. c \<noteq> CHR ''/'' \<and> c \<noteq> CHR '' '') ?ds" by (simp only: c)
  also have "\<dots> = ?ds"
    using dig isDigit_not_sep by (intro filter_True) (auto simp: list_all_iff)
  finally have eq: "filter (\<lambda>c. c \<noteq> CHR ''.'' \<and> c \<noteq> CHR ''/'' \<and> c \<noteq> CHR '' '') a = ?ds" .
  have ne: "?ds \<noteq> []" using f(1) by (simp add: ipv4Field_def)
  have len: "length ?ds \<le> 12"
    using ipv4Field_length [OF f(1)] ipv4Field_length [OF f(2)]
          ipv4Field_length [OF f(3)] ipv4Field_length [OF f(4)] by simp
  show ?thesis unfolding eq using ne dig len by blast
qed

lemma is_ipv4_cidr_derivation:
  assumes "is_ipv4_cidr P"
  shows "\<exists>n. spec_subnet_id P = Some n \<and> 0 \<le> n \<and> n < 10 ^ 12 \<and> cidrToID P = Inr n"
proof -
  from assms obtain a n where sp: "strings_Split P (CHR ''/'') = [a, n]" and a: "parseIPv4 a"
    by (auto simp: is_ipv4_cidr_def split: list.splits)
  have "takeWhile (\<lambda>c. c \<noteq> CHR ''/'') P = a"
    using hd_strings_Split [of P "CHR ''/''"] sp by simp
  then have ds: "spec_digits P = filter (\<lambda>c. c \<noteq> CHR ''.'' \<and> c \<noteq> CHR ''/'' \<and> c \<noteq> CHR '' '') a"
    by (simp add: spec_digits_def)
  from parseIPv4_digits [OF a] have ne: "spec_digits P \<noteq> []"
    and dig: "list_all isDigit (spec_digits P)" and len: "length (spec_digits P) \<le> 12"
    unfolding ds by auto
  have "decimal (spec_digits P) < 10 ^ length (spec_digits P)" by (rule decimal_lt_pow [OF dig])
  also have "\<dots> \<le> (10::int) ^ 12" using len by (intro power_increasing) auto
  finally have lt: "decimal (spec_digits P) < 10 ^ 12" .
  then have lt63: "decimal (spec_digits P) < 2 ^ 63" by simp
  have "cidrToID P = Inr (decimal (spec_digits P))"
    unfolding cidrToID_spec_digits by (rule strconv_Atoi_digits [OF ne dig lt63])
  moreover have "spec_subnet_id P = Some (decimal (spec_digits P))"
    using ne dig by (simp add: spec_subnet_id_def)
  ultimately show ?thesis using lt decimal_nonneg [OF dig] by blast
qed

lemma spec_subnet_id_refines:
  assumes "spec_subnet_id P = Some n" "n < 2 ^ 63"
  shows "cidrToID P = Inr n"
proof -
  from assms(1) have ne: "spec_digits P \<noteq> []" and dig: "list_all isDigit (spec_digits P)"
    and n: "n = decimal (spec_digits P)"
    by (auto simp: spec_subnet_id_def Let_def split: if_splits)
  show ?thesis unfolding cidrToID_spec_digits n
    using strconv_Atoi_digits [OF ne dig] assms(2) n by simp
qed

lemma example_prefix_id: "cidrToID ''192.168.225.0/24'' = Inr 1921682250"
  by (simp add: cidrToID_def strconv_Atoi_def cidrToIDRepl_Replace_def isDigit_def digitVal_def)

lemma HasError_AddError: "HasError (AddError s t d)"
  by (simp add: HasError_def AddError_def)

lemma Create_parse_failure:
  assumes "\<not> HasError (subnet4_required config d0)"
    and "cidrToID (ValueString (sc_Subnet config)) = Inl err"
  shows "\<exists>d. remoteSubnet4Resource_Create e c d0 config = (d, None, []) \<and> HasError d"
  using assms by (simp add: remoteSubnet4Resource_Create_def Let_def HasError_AddError)

lemma Update_parse_failure:
  assumes "\<not> HasError (subnet4_required config d0)"
    and "cidrToID (ValueString (sc_Subnet config)) = Inl err"
  shows "\<exists>d. remoteSubnet4Resource_Update e c d0 config = (d, None, []) \<and> HasError d"
  using assms by (simp add: remoteSubnet4Resource_Update_def Let_def HasError_AddError)

lemma make_req_Inr:
  assumes "make_req e c m url body q = Inr req"
  shows "hr_Method req = m \<and> hr_Body req = body \<and> hr_BasicAuth req = cl_auth c
       \<and> hr_ContentType req = ''application/json'' \<and> hr_Accept req = ''application/json''
       \<and> hr_URL req = (let url1 = (if \<not> strings_HasPrefix url ''https://'' then ''https://'' @ url else url)
                        in if \<not> strings_HasSuffix url1 ''/'' then url1 @ ''/'' else url1)"
  using assms unfolding make_req_def Let_def by (auto split: option.splits)

lemma RemoteSubnet4Set_sent_eq:
  "snd (RemoteSubnet4Set e c h subnets) =
     (case make_req e c ''POST'' h
             (Some \<lparr>Command = ''remote-subnet4-set'',
                     rq_Arguments = [(''remote'', AStringMap [(''type'', cl_remote c)]),
                                     (''server-tags'', AStrings [''all'']),
                                     (''subnets'', ANewSubnets subnets)],
                     Service = [''dhcp4'']\<rparr>) None of
        Inl err \<Rightarrow> []
      | Inr req \<Rightarrow> [req])"
proof (cases "make_req e c ''POST'' h
             (Some \<lparr>Command = ''remote-subnet4-set'',
                     rq_Arguments = [(''remote'', AStringMap [(''type'', cl_remote c)]),
                                     (''server-tags'', AStrings [''all'']),
                                     (''subnets'', ANewSubnets subnets)],
                     Service = [''dhcp4'']\<rparr>) None")
  case (Inl err)
  then show ?thesis by (simp add: RemoteSubnet4Set_def)
next
  case (Inr req)
  obtain res err ret where d: "do e c req (Some (zero_ret_Subnets,
     dec_ret_Subnets ''[]kea.RemoteSubnet4List'' zero_RemoteSubnet4List dec_RemoteSubnet4List)) = (res, err, ret)"
    by (metis prod.exhaust)
  show ?thesis using Inr d by (cases err) (simp_all add: RemoteSubnet4Set_def)
qed

lemma RemoteSubnet4Set_sent:
  "list_all (\<lambda>r. request_subnets r = Some subnets \<and> hr_Method r = ''POST'')
     (snd (RemoteSubnet4Set e c h subnets))"
  unfolding RemoteSubnet4Set_sent_eq
  by (auto split: sum.splits dest!: make_req_Inr simp: request_subnets_def)

lemma Create_sent:
  "snd (snd (remoteSubnet4Resource_Create e c d0 config)) =
     (if HasError (subnet4_required config d0) then []
      else case cidrToID (ValueString (sc_Subnet config)) of
             Inl err \<Rightarrow> []
           | Inr i \<Rightarrow> snd (RemoteSubnet4Set e c (ValueString (sc_Hostname config)) [newSubnet_of i config]))"
proof (cases "HasError (subnet4_required config d0)")
  case True
  then show ?thesis by (simp add: remoteSubnet4Resource_Create_def Let_def)
next
  case False
  show ?thesis
  proof (cases "cidrToID (ValueString (sc_Subnet config))")
    case (Inl err)
    then show ?thesis using False by (simp add: remoteSubnet4Resource_Create_def Let_def)
  next
    case (Inr i)
    obtain respData err sent where r:
      "RemoteSubnet4Set e c (ValueString (sc_Hostname config)) [newSubnet_of i config] = ((respData, err), sent)"
      by (metis prod.exhaust)
    show ?thesis using False Inr r
      by (simp add: remoteSubnet4Resource_Create_def Let_def split: option.splits list.splits)
  qed
qed

lemma Update_sent:
  "snd (snd (remoteSubnet4Resource_Update e c d0 config)) =
     (if HasError (subnet4_required config d0) then []
      else case cidrToID (ValueString (sc_Subnet config)) of
             Inl err \<Rightarrow> []
           | Inr i \<Rightarrow> snd (RemoteSubnet4Set e c (ValueString (sc_Hostname config)) [newSubnet_of i config]))"
proof (cases "HasError (subnet4_required config d0)")
  case True
  then show ?thesis by (simp add: remoteSubnet4Resource_Update_def Let_def)
next
  case False
  show ?thesis
  proof (cases "cidrToID (ValueString (sc_Subnet config))")
    case (Inl err)
    then show ?thesis using False by (simp add: remoteSubnet4Resource_Update_def Let_def)
  next
    case (Inr i)
    obtain respData err sent where r:
      "RemoteSubnet4Set e c (ValueString (sc_Hostname config)) [newSubnet_of i config] = ((respData, err), sent)"
      by (metis prod.exhaust)
    show ?thesis using False Inr r
      by (simp add: remoteSubnet4Resource_Update_def Let_def split: option.splits list.splits)
  qed
qed

lemma Create_sent_id:
  assumes "cidrToID (ValueString (sc_Subnet config)) = Inr i"
  shows "list_all (\<lambda>r. request_subnets r = Some [newSubnet_of i config])
           (snd (snd (remoteSubnet4Resource_Create e c d0 config)))"
proof -
  have s: "list_all (\<lambda>r. request_subnets r = Some [newSubnet_of i config])
     (snd (RemoteSubnet4Set e c (ValueString (sc_Hostname config)) [newSubnet_of i config]))"
    using RemoteSubnet4Set_sent [of "[newSubnet_of i config]" e c "ValueString (sc_Hostname config)"]
    by (simp add: list_all_iff)
  show ?thesis unfolding Create_sent using assms s by simp
qed

lemma Update_sent_id:
  assumes "cidrToID (ValueString (sc_Subnet config)) = Inr i"
  shows "list_all (\<lambda>r. request_subnets r = Some [newSubnet_of i config])
           (snd (snd (remoteSubnet4Resource_Update e c d0 config)))"
proof -
  have s: "list_all (\<lambda>r. request_subnets r = Some [newSubnet_of i config])
     (snd (RemoteSubnet4Set e c (ValueString (sc_Hostname config)) [newSubnet_of i config]))"
    using RemoteSubnet4Set_sent [of "[newSubnet_of i config]" e c "ValueString (sc_Hostname config)"]
    by (simp add: list_all_iff)
  show ?thesis unfolding Update_sent using assms s by simp
qed

text \<open>
  C1.  For every valid IPv4 prefix \<open>P\<close> the identifier computed by the resource is the
  number the specification describes: the digits of the part before the slash, dots (and
  any slash or space) removed, read as a decimal number; more generally this holds whenever
  that digit string denotes a number below \<open>2^63\<close>.  The derivation is a function of \<open>P\<close>
  alone, and \<open>192.168.225.0/24\<close> gives \<open>1921682250\<close>.  When the conversion fails, \<open>Create\<close>
  and \<open>Update\<close> stop with the diagnostic \<open>RemoteSubnet4Create\<close> that quotes the prefix and
  the conversion error, set no state and issue no request.  When it succeeds, every request
  they issue carries the derived identifier.
\<close>

theorem subnet_id_derivation:
  "(is_ipv4_cidr P \<longrightarrow> (\<exists>n. spec_subnet_id P = Some n \<and> cidrToID P = Inr n))
   \<and> (spec_subnet_id P = Some m \<and> m < 2 ^ 63 \<longrightarrow> cidrToID P = Inr m)
   \<and> cidrToID ''192.168.225.0/24'' = Inr 1921682250
   \<and> (\<not> HasError (subnet4_required bad d0) \<and> cidrToID (ValueString (sc_Subnet bad)) = Inl err \<longrightarrow>
        remoteSubnet4Resource_Create e c d0 bad =
          (AddError ''RemoteSubnet4Create''
             (''Unable to parse subnet4 prefix `'' @ ValueString (sc_Subnet bad) @ ''`, got error: ''
                @ NumError_Error e (cidrToIDRepl_Replace (hd (strings_Split (ValueString (sc_Subnet bad)) (CHR ''/'')))) err)
             (subnet4_required bad d0), None, [])
      \<and> remoteSubnet4Resource_Update e c d0 bad =
          (AddError ''RemoteSubnet4Create''
             (''Unable to parse subnet4 prefix `'' @ ValueString (sc_Subnet bad) @ ''`, got error: ''
                @ NumError_Error e (cidrToIDRepl_Replace (hd (strings_Split (ValueString (sc_Subnet bad)) (CHR ''/'')))) err)
             (subnet4_required bad d0), None, []))
   \<and> (cidrToID (ValueString (sc_Subnet config)) = Inr i \<longrightarrow>
        ns_ID (newSubnet_of i config) = i
      \<and> list_all (\<lambda>r. request_subnets r = Some [newSubnet_of i config])
           (snd (snd (remoteSubnet4Resource_Create e c d1 config)))
      \<and> list_all (\<lambda>r. request_subnets r = Some [newSubnet_of i config])
           (snd (snd (remoteSubnet4Resource_Update e c d1 config))))"
proof (intro conjI impI)
  assume "is_ipv4_cidr P"
  then show "\<exists>n. spec_subnet_id P = Some n \<and> cidrToID P = Inr n"
    using is_ipv4_cidr_derivation by blast
next
  assume "spec_subnet_id P = Some m \<and> m < 2 ^ 63"
  then show "cidrToID P = Inr m" using spec_subnet_id_refines by blast
next
  show "cidrToID ''192.168.225.0/24'' = Inr 1921682250" by (rule example_prefix_id)
next
  assume a: "\<not> HasError (subnet4_required bad d0) \<and> cidrToID (ValueString (sc_Subnet bad)) = Inl err"
  then show "remoteSubnet4Resource_Create e c d0 bad =
          (AddError ''RemoteSubnet4Create''
             (''Unable to parse subnet4 prefix `'' @ ValueString (sc_Subnet bad) @ ''`, got error: ''
                @ NumError_Error e (cidrToIDRepl_Replace (hd (strings_Split (ValueString (sc_Subnet bad)) (CHR ''/'')))) err)
             (subnet4_required bad d0), None, [])"
    by (simp add: remoteSubnet4Resource_Create_def Let_def)
  from a show "remoteSubnet4Resource_Update e c d0 bad =
          (AddError ''RemoteSubnet4Create''
             (''Unable to parse subnet4 prefix `'' @ ValueString (sc_Subnet bad) @ ''`, got error: ''
                @ NumError_Error e (cidrToIDRepl_Replace (hd (strings_Split (ValueString (sc_Subnet bad)) (CHR ''/'')))) err)
             (subnet4_required bad d0), None, [])"
    by (simp add: remoteSubnet4Resource_Update_def Let_def)
next
  assume a: "cidrToID (ValueString (sc_Subnet config)) = Inr i"
  show "ns_ID (newSubnet_of i config) = i" by (simp add: newSubnet_of_def)
  show "list_all (\<lambda>r. request_subnets r = Some [newSubnet_of i config])
           (snd (snd (remoteSubnet4Resource_Create e c d1 config)))"
    by (rule Create_sent_id [OF a])
  show "list_all (\<lambda>r. request_subnets r = Some [newSubnet_of i config])
           (snd (snd (remoteSubnet4Resource_Update e c d1 config)))"
    by (rule Update_sent_id [OF a])
qed

lemma example_is_ipv4_cidr: "is_ipv4_cidr ''192.168.225.0/24''"
  by (simp add: is_ipv4_cidr_def parseIPv4_def ipv4Field_def decimal_def isDigit_def digitVal_def)

lemma example_spec_subnet_id: "spec_subnet_id ''192.168.225.0/24'' = Some 1921682250"
  by (simp add: spec_subnet_id_def spec_digits_def decimal_def isDigit_def digitVal_def)

lemma example_bad_prefix: "cidrToID ''10.0.0.x/24'' = Inl ErrSyntax"
  by (simp add: cidrToID_def strconv_Atoi_def cidrToIDRepl_Replace_def isDigit_def digitVal_def)

lemma example_config_required:
  "subnet \<noteq> [] \<Longrightarrow> subnet4_required (example_subnet_config subnet) [] = []"
  by (simp add: subnet4_required_def example_subnet_config_def IsNull_def IsUnknown_def ValueString_def)

theorem subnet_id_derivation_witness:
  "is_ipv4_cidr ''192.168.225.0/24''
   \<and> spec_subnet_id ''192.168.225.0/24'' = Some 1921682250
   \<and> cidrToID ''192.168.225.0/24'' = Inr 1921682250
   \<and> \<not> HasError (subnet4_required (example_subnet_config ''10.0.0.x/24'') [])
   \<and> cidrToID (ValueString (sc_Subnet (example_subnet_config ''10.0.0.x/24''))) = Inl ErrSyntax
   \<and> HasError (fst (remoteSubnet4Resource_Create (example_env EmptyStream) example_client []
                       (example_subnet_config ''10.0.0.x/24'')))
   \<and> snd (remoteSubnet4Resource_Create (example_env EmptyStream) example_client []
            (example_subnet_config ''10.0.0.x/24'')) = (None, [])
   \<and> snd (remoteSubnet4Resource_Update (example_env EmptyStream) example_client []
            (example_subnet_config ''10.0.0.x/24'')) = (None, [])
   \<and> list_all (\<lambda>r. request_subnets r = Some [newSubnet_of 1921682250 (example_subnet_config ''192.168.225.0/24'')])
        (snd (snd (remoteSubnet4Resource_Create (example_env EmptyStream) example_client []
                     (example_subnet_config ''192.168.225.0/24''))))"
proof -
  have h1: "is_ipv4_cidr ''192.168.225.0/24''" by (rule example_is_ipv4_cidr)
  have h2: "spec_subnet_id ''192.168.225.0/24'' = Some 1921682250 \<and> (1921682250::int) < 2 ^ 63"
    using example_spec_subnet_id by simp
  have h3: "\<not> HasError (subnet4_required (example_subnet_config ''10.0.0.x/24'') [])
            \<and> cidrToID (ValueString (sc_Subnet (example_subnet_config ''10.0.0.x/24''))) = Inl ErrSyntax"
  proof -
    have r: "subnet4_required (example_subnet_config ''10.0.0.x/24'') [] = []"
      by (rule example_config_required) simp
    have v: "ValueString (sc_Subnet (example_subnet_config ''10.0.0.x/24'')) = ''10.0.0.x/24''"
      by (simp add: example_subnet_config_def ValueString_def)
    show ?thesis unfolding r v using example_bad_prefix by (simp add: HasError_def)
  qed
  have h4: "cidrToID (ValueString (sc_Subnet (example_subnet_config ''192.168.225.0/24''))) = Inr 1921682250"
    using example_prefix_id by (simp add: example_subnet_config_def ValueString_def)
  note t = subnet_id_derivation [of "''192.168.225.0/24''" 1921682250
      "example_subnet_config ''10.0.0.x/24''" "[]" ErrSyntax "example_env EmptyStream" example_client
      "example_subnet_config ''192.168.225.0/24''" 1921682250 "[]"]
  from t h1 h2 h3 h4 show ?thesis by (simp add: HasError_AddError)
qed

subsection \<open>The response envelope\<close>

lemma Decode_Responses_not_array:
  assumes "\<And>js. j \<noteq> JArr js"
  shows "Decode_Responses (FirstValue j) = Inr [] \<or> (\<exists>err. Decode_Responses (FirstValue j) = Inl err)"
  using assms by (cases j) (auto simp: Decode_Responses_def dec_slice_def)

lemma checkResponse_rejects:
  assumes "body = EmptyStream \<or> (\<exists>m. body = BadSyntax m)
           \<or> (\<exists>j. body = FirstValue j \<and> (\<forall>js. j \<noteq> JArr js)) \<or> body = FirstValue (JArr [])"
  shows "\<exists>err. checkResponse body = Inl err"
proof -
  consider "body = EmptyStream" | m where "body = BadSyntax m"
    | j where "body = FirstValue j" "\<And>js. j \<noteq> JArr js" | "body = FirstValue (JArr [])"
    using assms by blast
  then show ?thesis
  proof cases
    case 1
    then show ?thesis by (simp add: checkResponse_def Decode_Responses_def)
  next
    case 2
    then show ?thesis by (simp add: checkResponse_def Decode_Responses_def)
  next
    case 3
    from Decode_Responses_not_array [OF 3(2)] show ?thesis
      unfolding 3(1) by (auto simp: checkResponse_def)
  next
    case 4
    then show ?thesis by (simp add: checkResponse_def Decode_Responses_def dec_slice_def)
  qed
qed

lemma checkResponse_first:
  assumes "Decode_Responses body = Inr (r # rs)"
  shows "checkResponse body = (if Result r = 0 then Inr r else Inl (ResultError (Result r) (Text r)))"
  using assms by (simp add: checkResponse_def)

lemma do_check_error:
  assumes "roundTrip e req = Inr body" "checkResponse body = Inl err"
  shows "do e c req v = (None, Some err, None)"
  using assms by (simp add: do_def)

lemma do_no_target:
  assumes "roundTrip e req = Inr body" "checkResponse body = Inr r"
  shows "do e c req None = (Some r, None, None)"
  using assms by (simp add: do_def)

lemma do_target:
  assumes "roundTrip e req = Inr body" "checkResponse body = Inr r"
  shows "do e c req (Some (cur, d)) =
           (case Arguments r of
              None \<Rightarrow> (Some r, None, None)
            | Some j \<Rightarrow>
                (case d cur j of
                   Inl je \<Rightarrow> if je \<noteq> IoEOF then (Some r, Some (PayloadError je), None)
                             else (Some r, None, None)
                 | Inr x \<Rightarrow> (Some r, None, Some x)))"
  using assms by (simp add: do_def split: option.splits sum.splits)

lemma Decode_envelope:
  assumes "- (2 ^ 63) \<le> code" "code < 2 ^ 63"
  shows "Decode_Responses (envelope code txt args)
           = Inr [\<lparr>Result = code, Text = txt, Arguments = Some args\<rparr>]"
  using assms
  by (simp add: Decode_Responses_def envelope_def dec_slice_def dec_Response_def dec_struct_def
        Response_set_def fieldFor_def dec_int_def dec_string_def zero_Response_def)


text \<open>
  C2.  A body that is empty, malformed, not a JSON array or an empty array makes
  \<open>checkResponse\<close>, and with it \<open>do\<close>, fail.  When the first element of the decoded array has
  result 0, \<open>checkResponse\<close> returns it and \<open>do\<close> returns it too: without a target nothing
  is decoded; with a target, an empty \<open>arguments\<close> is not an error and leaves the target
  as it was, otherwise \<open>arguments\<close> is decoded into the target (a decoding failure is
  reported as a payload error).  When the result is not 0, \<open>do\<close> returns no response and the
  single error \<open>result:<code>(<text>)\<close>, and the target is not written.
\<close>

theorem envelope_decoding:
  "((body = EmptyStream \<or> (\<exists>m. body = BadSyntax m)
       \<or> (\<exists>j. body = FirstValue j \<and> (\<forall>js. j \<noteq> JArr js)) \<or> body = FirstValue (JArr []))
      \<and> roundTrip e req = Inr body
     \<longrightarrow> (\<exists>err. checkResponse body = Inl err \<and> do e c req v = (None, Some err, None)))
   \<and> (Decode_Responses body = Inr (r # rs) \<and> Result r = 0 \<and> roundTrip e req = Inr body \<longrightarrow>
        checkResponse body = Inr r
      \<and> do e c req (None :: ('a \<times> 'a dec) option) = (Some r, None, None)
      \<and> (Arguments r = None \<longrightarrow> do e c req (Some (cur, d)) = (Some r, None, None))
      \<and> (\<forall>j x. Arguments r = Some j \<and> d cur j = Inr x \<longrightarrow>
             do e c req (Some (cur, d)) = (Some r, None, Some x))
      \<and> (\<forall>j je. Arguments r = Some j \<and> d cur j = Inl je \<and> je \<noteq> IoEOF \<longrightarrow>
             do e c req (Some (cur, d)) = (Some r, Some (PayloadError je), None)))
   \<and> (Decode_Responses body = Inr (r # rs) \<and> Result r \<noteq> 0 \<and> roundTrip e req = Inr body \<longrightarrow>
        checkResponse body = Inl (ResultError (Result r) (Text r))
      \<and> do e c req v = (None, Some (ResultError (Result r) (Text r)), None)
      \<and> error_Error (ResultError (Result r) (Text r))
           = ''result:'' @ fmt_d (Result r) @ ''('' @ Text r @ '')'')
   \<and> (- (2 ^ 63) \<le> code \<and> code < 2 ^ 63 \<longrightarrow>
        Decode_Responses (envelope code txt args)
          = Inr [\<lparr>Result = code, Text = txt, Arguments = Some args\<rparr>])"
proof (intro conjI impI allI)
  assume a: "(body = EmptyStream \<or> (\<exists>m. body = BadSyntax m)
       \<or> (\<exists>j. body = FirstValue j \<and> (\<forall>js. j \<noteq> JArr js)) \<or> body = FirstValue (JArr []))
      \<and> roundTrip e req = Inr body"
  then obtain err where "checkResponse body = Inl err" using checkResponse_rejects by blast
  then show "\<exists>err. checkResponse body = Inl err \<and> do e c req v = (None, Some err, None)"
    using a do_check_error by blast
next
  assume a: "Decode_Responses body = Inr (r # rs) \<and> Result r = 0 \<and> roundTrip e req = Inr body"
  then have ck: "checkResponse body = Inr r" by (simp add: checkResponse_first)
  from a have rt: "roundTrip e req = Inr body" by simp
  show "checkResponse body = Inr r" by (rule ck)
  show "do e c req None = (Some r, None, None)" by (rule do_no_target [OF rt ck])
  { assume "Arguments r = None"
    then show "do e c req (Some (cur, d)) = (Some r, None, None)"
      by (simp add: do_target [OF rt ck]) }
  { fix j x assume "Arguments r = Some j \<and> d cur j = Inr x"
    then show "do e c req (Some (cur, d)) = (Some r, None, Some x)"
      by (simp add: do_target [OF rt ck]) }
  { fix j je assume "Arguments r = Some j \<and> d cur j = Inl je \<and> je \<noteq> IoEOF"
    then show "do e c req (Some (cur, d)) = (Some r, Some (PayloadError je), None)"
      by (simp add: do_target [OF rt ck]) }
next
  assume a: "Decode_Responses body = Inr (r # rs) \<and> Result r \<noteq> 0 \<and> roundTrip e req = Inr body"
  then have ck: "checkResponse body = Inl (ResultError (Result r) (Text r))"
    by (simp add: checkResponse_first)
  show "checkResponse body = Inl (ResultError (Result r) (Text r))" by (rule ck)
  show "do e c req v = (None, Some (ResultError (Result r) (Text r)), None)"
    using a ck do_check_error by blast
  show "error_Error (ResultError (Result r) (Text r))
           = ''result:'' @ fmt_d (Result r) @ ''('' @ Text r @ '')''"
    by (simp add: error_Error_def)
next
  assume "- (2 ^ 63) \<le> code \<and> code < 2 ^ 63"
  then show "Decode_Responses (envelope code txt args)
          = Inr [\<lparr>Result = code, Text = txt, Arguments = Some args\<rparr>]"
    using Decode_envelope by blast
qed

lemma example_env_roundTrip: "roundTrip (example_env body) req = Inr body"
  by (simp add: example_env_def)

lemma fmt_d_3: "fmt_d 3 = ''3''"
  by (simp add: fmt_d_def natDigits.simps)

theorem envelope_decoding_witness:
  "checkResponse (FirstValue (JObj [])) = Inl (CheckUnmarshal (UnmarshalTypeError ''object'' ''[]kea.Response''))
   \<and> do (example_env (FirstValue (JObj []))) example_client example_request (Some (JNull, dec_any))
        = (None, Some (CheckUnmarshal (UnmarshalTypeError ''object'' ''[]kea.Response'')), None)
   \<and> Decode_Responses (envelope 0 ''ok'' (JObj [(''count'', JInt 1)]))
        = Inr [\<lparr>Result = 0, Text = ''ok'', Arguments = Some (JObj [(''count'', JInt 1)])\<rparr>]
   \<and> do (example_env (envelope 0 ''ok'' (JObj [(''count'', JInt 1)]))) example_client example_request
          (None :: (json \<times> json dec) option)
        = (Some \<lparr>Result = 0, Text = ''ok'', Arguments = Some (JObj [(''count'', JInt 1)])\<rparr>, None, None)
   \<and> do (example_env (envelope 0 ''ok'' (JObj [(''count'', JInt 1)]))) example_client example_request
          (Some (JNull, dec_any))
        = (Some \<lparr>Result = 0, Text = ''ok'', Arguments = Some (JObj [(''count'', JInt 1)])\<rparr>, None,
           Some (JObj [(''count'', JInt 1)]))
   \<and> do (example_env (envelope 3 ''not found'' JNull)) example_client example_request
          (Some (JNull, dec_any))
        = (None, Some (ResultError 3 ''not found''), None)
   \<and> error_Error (ResultError 3 ''not found'') = ''result:3(not found)''"
proof -
  let ?b1 = "FirstValue (JObj [])"
  let ?a2 = "JObj [(''count'', JInt 1)]"
  let ?b2 = "envelope 0 ''ok'' ?a2"
  let ?r2 = "\<lparr>Result = 0, Text = ''ok'', Arguments = Some ?a2\<rparr>"
  let ?b3 = "envelope 3 ''not found'' JNull"
  let ?r3 = "\<lparr>Result = 3, Text = ''not found'', Arguments = Some JNull\<rparr>"
  have c1: "checkResponse ?b1 = Inl (CheckUnmarshal (UnmarshalTypeError ''object'' ''[]kea.Response''))"
    by (simp add: checkResponse_def Decode_Responses_def dec_slice_def)
  have h1: "(?b1 = EmptyStream \<or> (\<exists>m. ?b1 = BadSyntax m)
       \<or> (\<exists>j. ?b1 = FirstValue j \<and> (\<forall>js. j \<noteq> JArr js)) \<or> ?b1 = FirstValue (JArr []))
      \<and> roundTrip (example_env ?b1) example_request = Inr ?b1"
    by (simp add: example_env_roundTrip)
  have d2: "Decode_Responses ?b2 = Inr [?r2]" by (rule Decode_envelope) simp_all
  have h2: "Decode_Responses ?b2 = Inr (?r2 # []) \<and> Result ?r2 = 0
            \<and> roundTrip (example_env ?b2) example_request = Inr ?b2"
    using d2 by (simp add: example_env_roundTrip)
  have d3: "Decode_Responses ?b3 = Inr [?r3]" by (rule Decode_envelope) simp_all
  have h3: "Decode_Responses ?b3 = Inr (?r3 # []) \<and> Result ?r3 \<noteq> 0
            \<and> roundTrip (example_env ?b3) example_request = Inr ?b3"
    using d3 by (simp add: example_env_roundTrip)
  note t1 = envelope_decoding [of ?b1 "example_env ?b1" example_request example_client
      "Some (JNull, dec_any)" ?r2 "[]" JNull dec_any 0 "''ok''" ?a2]
  note t2 = envelope_decoding [of ?b2 "example_env ?b2" example_request example_client
      "Some (JNull, dec_any)" ?r2 "[]" JNull dec_any 0 "''ok''" ?a2]
  note t3 = envelope_decoding [of ?b3 "example_env ?b3" example_request example_client
      "Some (JNull, dec_any)" ?r3 "[]" JNull dec_any 0 "''ok''" ?a2]
  from t1 [THEN conjunct1, rule_format, OF h1] c1
  have w1: "do (example_env ?b1) example_client example_request (Some (JNull, dec_any))
        = (None, Some (CheckUnmarshal (UnmarshalTypeError ''object'' ''[]kea.Response'')), None)"
    by auto
  note s2 = t2 [THEN conjunct2, THEN conjunct1, rule_format, OF h2]
  from s2 have w2: "do (example_env ?b2) example_client example_request
          (None :: (json \<times> json dec) option) = (Some ?r2, None, None)"
    by blast
  have "Arguments ?r2 = Some ?a2 \<and> dec_any JNull ?a2 = Inr ?a2" by (simp add: dec_any_def)
  with s2 have w2': "do (example_env ?b2) example_client example_request (Some (JNull, dec_any))
          = (Some ?r2, None, Some ?a2)"
    by blast
  note s3 = t3 [THEN conjunct2, THEN conjunct2, THEN conjunct1, rule_format, OF h3]
  from s3 have w3: "do (example_env ?b3) example_client example_request (Some (JNull, dec_any))
        = (None, Some (ResultError 3 ''not found''), None)"
    by simp
  from s3 have w3': "error_Error (ResultError 3 ''not found'') = ''result:3(not found)''"
    by (simp add: fmt_d_3)
  show ?thesis using c1 w1 d2 w2 w2' w3 w3' by simp
qed

subsection \<open>Creating a subnet\<close>

lemma make_req_post:
  "make_req e c ''POST'' hostname (Some payload) None =
     (case newRequestError e ''POST'' (request_url hostname) of
        Some m \<Rightarrow> Inl (RequestError m)
      | None \<Rightarrow> Inr (post_request c hostname payload))"
  by (simp add: make_req_def request_url_def post_request_def Let_def split: option.splits)

lemma RemoteSubnet4Set_ok:
  assumes "newRequestError e ''POST'' (request_url h) = None"
    and "do e c (post_request c h
            \<lparr>Command = ''remote-subnet4-set'',
             rq_Arguments = [(''remote'', AStringMap [(''type'', cl_remote c)]),
                             (''server-tags'', AStrings [''all'']),
                             (''subnets'', ANewSubnets subnets)],
             Service = [''dhcp4'']\<rparr>)
          (Some (zero_ret_Subnets,
                 dec_ret_Subnets ''[]kea.RemoteSubnet4List'' zero_RemoteSubnet4List dec_RemoteSubnet4List))
         = (res, None, Some ret)"
  shows "RemoteSubnet4Set e c h subnets =
           ((Subnets ret, None),
            [post_request c h
              \<lparr>Command = ''remote-subnet4-set'',
               rq_Arguments = [(''remote'', AStringMap [(''type'', cl_remote c)]),
                               (''server-tags'', AStrings [''all'']),
                               (''subnets'', ANewSubnets subnets)],
               Service = [''dhcp4'']\<rparr>])"
  using assms by (simp add: RemoteSubnet4Set_def make_req_post target_content_def)

lemma dec_subnet_list_example:
  "dec_ret_Subnets ''[]kea.RemoteSubnet4List'' zero_RemoteSubnet4List dec_RemoteSubnet4List
      zero_ret_Subnets (JObj [(''subnets'', JArr [JObj [(''id'', JInt 1921682250), (''subnet'', JStr ''192.168.225.0/24'')]])])
   = Inr \<lparr>Subnets = [\<lparr>rl_ID = 1921682250, rl_Metadata = zero_Metadata, rl_SharedNetworkName = [],
                            rl_Subnet = ''192.168.225.0/24''\<rparr>]\<rparr>"
  by (simp add: dec_ret_Subnets_def dec_struct_def ret_Subnets_set_def fieldFor_def dec_slice_def
        dec_RemoteSubnet4List_def RemoteSubnet4List_set_def dec_int_def dec_string_def
        zero_ret_Subnets_def zero_RemoteSubnet4List_def)

text \<open>
  C3.  For the desired subnet \<open>192.168.225.0/24\<close> with the pool
  \<open>192.168.225.50-192.168.225.150\<close>, the relay \<open>192.168.225.1\<close> and three option values,
  \<open>Create\<close> issues exactly one request, a \<open>POST\<close> of the command \<open>remote-subnet4-set\<close> whose
  \<open>subnets\<close> argument is the single object with id \<open>1921682250\<close>, the prefix, and the given
  pool, relay and option values unchanged.  When the server answers with result 0 and
  reports the subnet it has set, with this id, the state \<open>Create\<close> returns has the id
  \<open>1921682250\<close> (and the prefix the server reported), and no diagnostic is added.
\<close>

theorem create_subnet_scenario:
  fixes e :: env and c :: Client and h :: string and d0 :: "diagnostic list"
    and i0 :: "int tf" and c1 c2 c3 :: int and v1 v2 v3 n1 n2 n3 :: string and a1 a2 a3 :: "bool tf"
  defines "cfg \<equiv>
     \<lparr>sc_Hostname = tfValue h, sc_ID = i0,
      sc_OptionData =
        [\<lparr>om_Code = tfValue c1, om_Data = tfValue v1, om_Name = tfValue n1, om_AlwaysSend = a1\<rparr>,
         \<lparr>om_Code = tfValue c2, om_Data = tfValue v2, om_Name = tfValue n2, om_AlwaysSend = a2\<rparr>,
         \<lparr>om_Code = tfValue c3, om_Data = tfValue v3, om_Name = tfValue n3, om_AlwaysSend = a3\<rparr>],
      sc_Pools = [\<lparr>pm_Pool = tfValue ''192.168.225.50-192.168.225.150''\<rparr>],
      sc_Relay = [\<lparr>rm_IPAddress = tfValue ''192.168.225.1''\<rparr>],
      sc_Subnet = tfValue ''192.168.225.0/24''\<rparr>"
  defines "req \<equiv>
     \<lparr>hr_Method = ''POST'', hr_URL = request_url h,
      hr_Body = Some
        \<lparr>Command = ''remote-subnet4-set'',
         rq_Arguments =
           [(''remote'', AStringMap [(''type'', cl_remote c)]),
            (''server-tags'', AStrings [''all'']),
            (''subnets'', ANewSubnets
               [\<lparr>ns_ID = 1921682250, ns_Subnet = ''192.168.225.0/24'', ns_SharedNetworkName = None,
                 ns_Pools = [\<lparr>po_Pool = ''192.168.225.50-192.168.225.150''\<rparr>],
                 ns_OptionData =
                   [\<lparr>od_Code = Some c1, od_Data = v1, od_Name = n1, od_Space = None, od_AlwaysSend = ValueBool a1\<rparr>,
                    \<lparr>od_Code = Some c2, od_Data = v2, od_Name = n2, od_Space = None, od_AlwaysSend = ValueBool a2\<rparr>,
                    \<lparr>od_Code = Some c3, od_Data = v3, od_Name = n3, od_Space = None, od_AlwaysSend = ValueBool a3\<rparr>],
                 ns_Relay = \<lparr>IPAddresses = [''192.168.225.1'']\<rparr>,
                 ns_UserContext = []\<rparr>])],
         Service = [''dhcp4'']\<rparr>,
      hr_ContentType = ''application/json'', hr_Accept = ''application/json'',
      hr_BasicAuth = cl_auth c, hr_RawQuery = []\<rparr>"
  assumes host: "h \<noteq> []" and diags: "\<not> HasError d0"
    and lib: "newRequestError e ''POST'' (request_url h) = None"
    and reply: "roundTrip e req = Inr body"
    and ok: "Decode_Responses body = Inr (r # rs)" "Result r = 0" "Arguments r = Some args"
    and echo: "dec_ret_Subnets ''[]kea.RemoteSubnet4List'' zero_RemoteSubnet4List dec_RemoteSubnet4List
                 zero_ret_Subnets args = Inr \<lparr>Subnets = [res]\<rparr>" "rl_ID res = 1921682250"
  shows "remoteSubnet4Resource_Create e c d0 cfg =
           (d0, Some (cfg\<lparr>sc_ID := tfValue 1921682250, sc_Subnet := tfValue (rl_Subnet res)\<rparr>), [req])"
proof -
  have rq: "subnet4_required cfg d0 = d0"
    using host by (simp add: subnet4_required_def cfg_def IsNull_def IsUnknown_def ValueString_def)
  have sub: "ValueString (sc_Subnet cfg) = ''192.168.225.0/24''"
    and hn: "ValueString (sc_Hostname cfg) = h"
    by (simp_all add: cfg_def ValueString_def)
  have pr: "post_request c h
     \<lparr>Command = ''remote-subnet4-set'',
      rq_Arguments = [(''remote'', AStringMap [(''type'', cl_remote c)]),
                      (''server-tags'', AStrings [''all'']),
                      (''subnets'', ANewSubnets [newSubnet_of 1921682250 cfg])],
      Service = [''dhcp4'']\<rparr> = req"
    by (simp add: post_request_def req_def newSubnet_of_def cfg_def ValueString_def ValueInt64_def
          ValueBool_def)
  have ck: "checkResponse body = Inr r" using ok by (simp add: checkResponse_first)
  have d: "do e c req (Some (zero_ret_Subnets,
                 dec_ret_Subnets ''[]kea.RemoteSubnet4List'' zero_RemoteSubnet4List dec_RemoteSubnet4List))
         = (Some r, None, Some \<lparr>Subnets = [res]\<rparr>)"
    using ok(3) echo(1) by (simp add: do_target [OF reply ck])
  have set: "RemoteSubnet4Set e c h [newSubnet_of 1921682250 cfg] = (([res], None), [req])"
    using RemoteSubnet4Set_ok [OF lib, of c "[newSubnet_of 1921682250 cfg]"] d unfolding pr by simp
  show ?thesis
    using diags echo(2)
    by (simp add: remoteSubnet4Resource_Create_def rq sub hn example_prefix_id set)
qed


theorem create_subnet_scenario_witness:
  "remoteSubnet4Resource_Create (example_env example_set_reply) example_client []
      (example_subnet_config ''192.168.225.0/24'')
   = ([],
      Some ((example_subnet_config ''192.168.225.0/24'')
              \<lparr>sc_ID := tfValue 1921682250, sc_Subnet := tfValue ''192.168.225.0/24''\<rparr>),
      [\<lparr>hr_Method = ''POST'', hr_URL = ''https://kea-primary.example.com/'',
        hr_Body = Some
          \<lparr>Command = ''remote-subnet4-set'',
           rq_Arguments =
             [(''remote'', AStringMap [(''type'', ''postgresql'')]),
              (''server-tags'', AStrings [''all'']),
              (''subnets'', ANewSubnets
                 [\<lparr>ns_ID = 1921682250, ns_Subnet = ''192.168.225.0/24'', ns_SharedNetworkName = None,
                   ns_Pools = [\<lparr>po_Pool = ''192.168.225.50-192.168.225.150''\<rparr>],
                   ns_OptionData =
                     [\<lparr>od_Code = Some 3, od_Data = ''192.168.225.1'', od_Name = ''routers'',
                       od_Space = None, od_AlwaysSend = False\<rparr>,
                      \<lparr>od_Code = Some 15, od_Data = ''example.com'', od_Name = ''domain-name'',
                       od_Space = None, od_AlwaysSend = False\<rparr>,
                      \<lparr>od_Code = Some 6, od_Data = ''4.2.2.2, 8.8.8.8'', od_Name = ''domain-name-servers'',
                       od_Space = None, od_AlwaysSend = True\<rparr>],
                   ns_Relay = \<lparr>IPAddresses = [''192.168.225.1'']\<rparr>,
                   ns_UserContext = []\<rparr>])],
           Service = [''dhcp4'']\<rparr>,
        hr_ContentType = ''application/json'', hr_Accept = ''application/json'',
        hr_BasicAuth = \<lparr>username = ''kea'', password = ''secret''\<rparr>, hr_RawQuery = []\<rparr>])"
proof -
  let ?args = "JObj [(''subnets'', JArr [JObj [(''id'', JInt 1921682250),
                                               (''subnet'', JStr ''192.168.225.0/24'')]])]"
  let ?r = "\<lparr>Result = 0, Text = ''IPv4 subnet successfully set.'', Arguments = Some ?args\<rparr>"
  let ?res = "\<lparr>rl_ID = 1921682250, rl_Metadata = zero_Metadata, rl_SharedNetworkName = [],
               rl_Subnet = ''192.168.225.0/24''\<rparr>"
  have u: "request_url ''kea-primary.example.com'' = ''https://kea-primary.example.com/''"
    by (simp add: request_url_def strings_HasPrefix_def strings_HasSuffix_def)
  have h1: "''kea-primary.example.com'' \<noteq> []" by simp
  have h2: "\<not> HasError []" by (simp add: HasError_def)
  have h3: "newRequestError (example_env example_set_reply) ''POST''
              (request_url ''kea-primary.example.com'') = None"
    by (simp add: example_env_def)
  have h5: "Decode_Responses example_set_reply = Inr (?r # [])"
    unfolding example_set_reply_def by (rule Decode_envelope) simp_all
  have h6: "Result ?r = 0" and h7: "Arguments ?r = Some ?args" by simp_all
  have h9: "rl_ID ?res = 1921682250" by simp
  note t = create_subnet_scenario [where e = "example_env example_set_reply" and c = example_client
      and h = "''kea-primary.example.com''" and ?d0.0 = "[]" and body = example_set_reply and r = ?r
      and rs = "[]" and args = ?args and res = ?res
      and ?c1.0 = 3 and ?v1.0 = "''192.168.225.1''" and ?n1.0 = "''routers''" and ?a1.0 = tfNull
      and ?c2.0 = 15 and ?v2.0 = "''example.com''" and ?n2.0 = "''domain-name''" and ?a2.0 = tfNull
      and ?c3.0 = 6 and ?v3.0 = "''4.2.2.2, 8.8.8.8''" and ?n3.0 = "''domain-name-servers''"
      and ?a3.0 = "tfValue True" and ?i0.0 = tfUnknown,
      OF h1 h2 h3 example_env_roundTrip h5 h6 h7 dec_subnet_list_example h9]
  show ?thesis
    using t by (simp add: example_subnet_config_def example_client_def u ValueBool_def)
qed

subsection \<open>Lookups and the not-found filter\<close>

lemma strings_HasPrefix_iff: "strings_HasPrefix s p \<longleftrightarrow> (\<exists>b. s = p @ b)"
proof
  assume "strings_HasPrefix s p"
  then have "s = p @ drop (length p) s"
    by (metis append_take_drop_id strings_HasPrefix_def)
  then show "\<exists>b. s = p @ b" ..
next
  assume "\<exists>b. s = p @ b"
  then show "strings_HasPrefix s p" by (auto simp: strings_HasPrefix_def)
qed

lemma strings_Contains_iff: "strings_Contains s sub \<longleftrightarrow> (\<exists>a b. s = a @ sub @ b)"
proof (induction s)
  case Nil
  then show ?case by auto
next
  case (Cons c cs)
  show ?case
  proof
    assume "strings_Contains (c # cs) sub"
    then consider "strings_HasPrefix (c # cs) sub" | "strings_Contains cs sub" by auto
    then show "\<exists>a b. c # cs = a @ sub @ b"
    proof cases
      case 1
      then obtain b where "c # cs = sub @ b" using strings_HasPrefix_iff by blast
      then have "c # cs = [] @ sub @ b" by simp
      then show ?thesis by blast
    next
      case 2
      then obtain a b where "cs = a @ sub @ b" using Cons.IH by blast
      then have "c # cs = (c # a) @ sub @ b" by simp
      then show ?thesis by blast
    qed
  next
    assume "\<exists>a b. c # cs = a @ sub @ b"
    then obtain a b where ab: "c # cs = a @ sub @ b" by blast
    show "strings_Contains (c # cs) sub"
    proof (cases a)
      case Nil
      then have "strings_HasPrefix (c # cs) sub" using ab strings_HasPrefix_iff by auto
      then show ?thesis by simp
    next
      case (Cons x xs)
      then have "cs = xs @ sub @ b" using ab by simp
      then have "strings_Contains cs sub" using Cons.IH by blast
      then show ?thesis by simp
    qed
  qed
qed

lemma strings_Contains_append:
  assumes "strings_Contains t sub"
  shows "strings_Contains (a @ t @ b) sub"
proof -
  from assms obtain x y where "t = x @ sub @ y" using strings_Contains_iff by blast
  then have "a @ t @ b = (a @ x) @ sub @ (y @ b)" by simp
  then show ?thesis using strings_Contains_iff by blast
qed

lemma ResultError_contains:
  assumes "strings_Contains txt sub"
  shows "strings_Contains (error_Error (ResultError code txt)) sub"
  using strings_Contains_append [OF assms, of "''result:'' @ fmt_d code @ ''(''" "'')''"]
  by (simp add: error_Error_def)

lemma do_nonzero:
  assumes "roundTrip e req = Inr body" "Decode_Responses body = Inr (r # rs)" "Result r \<noteq> 0"
  shows "do e c req v = (None, Some (ResultError (Result r) (Text r)), None)"
proof -
  have "checkResponse body = Inl (ResultError (Result r) (Text r))"
    using assms(2,3) by (simp add: checkResponse_first)
  then show ?thesis by (rule do_check_error [OF assms(1)])
qed

lemma do_zero:
  assumes "roundTrip e req = Inr body" "Decode_Responses body = Inr (r # rs)" "Result r = 0"
  shows "do e c req (Some (cur, d)) =
           (case Arguments r of
              None \<Rightarrow> (Some r, None, None)
            | Some j \<Rightarrow>
                (case d cur j of
                   Inl je \<Rightarrow> if je \<noteq> IoEOF then (Some r, Some (PayloadError je), None)
                             else (Some r, None, None)
                 | Inr x \<Rightarrow> (Some r, None, Some x)))"
proof -
  have "checkResponse body = Inr r"
    using assms(2,3) by (simp add: checkResponse_first)
  then show ?thesis by (rule do_target [OF assms(1)])
qed

lemma RemoteSubnet4GetByPrefix_unfold:
  assumes "newRequestError e ''POST'' (request_url h) = None"
  shows "RemoteSubnet4GetByPrefix e c h prefix =
    (let req = post_request c h
                 \<lparr>Command = ''remote-subnet4-get-by-prefix'',
                  rq_Arguments = [(''remote'', AStringMap [(''type'', cl_remote c)]),
                                  (''subnets'', AStringMaps [[(''subnet'', prefix)]])],
                  Service = [''dhcp4'']\<rparr>
     in case do e c req (Some (zero_ret_Subnets,
               dec_ret_Subnets ''[]kea.RemoteSubnet4'' zero_RemoteSubnet4 dec_RemoteSubnet4)) of
          (_, Some err, _) \<Rightarrow> (Inr (zero_RemoteSubnet4, Some err), [req])
        | (_, None, ret) \<Rightarrow>
            (case Subnets (target_content zero_ret_Subnets ret) of
               [] \<Rightarrow> (Inl (IndexOutOfRange 0 0), [req])
             | s0 # _ \<Rightarrow> (Inr (s0, None), [req])))"
  using assms by (simp add: RemoteSubnet4GetByPrefix_def make_req_post Let_def)

lemma RemoteSubnet4GetByID_unfold:
  assumes "newRequestError e ''POST'' (request_url h) = None"
  shows "RemoteSubnet4GetByID e c h i =
    (let req = post_request c h
                 \<lparr>Command = ''remote-subnet4-get-by-id'',
                  rq_Arguments = [(''remote'', AStringMap [(''type'', cl_remote c)]),
                                  (''subnets'', AIntMaps [[(''id'', i)]])],
                  Service = [''dhcp4'']\<rparr>
     in case do e c req (Some (zero_ret_Subnets,
               dec_ret_Subnets ''[]kea.RemoteSubnet4'' zero_RemoteSubnet4 dec_RemoteSubnet4)) of
          (_, Some err, _) \<Rightarrow> (Inr (zero_RemoteSubnet4, Some err), [req])
        | (_, None, ret) \<Rightarrow>
            (case Subnets (target_content zero_ret_Subnets ret) of
               [] \<Rightarrow> (Inl (IndexOutOfRange 0 0), [req])
             | s0 # _ \<Rightarrow> (Inr (s0, None), [req])))"
  using assms by (simp add: RemoteSubnet4GetByID_def make_req_post Let_def)

lemma RemoteSubnet4List_unfold:
  assumes "newRequestError e ''POST'' (request_url h) = None"
  shows "RemoteSubnet4List e c h =
    (let req = post_request c h
                 \<lparr>Command = ''remote-subnet4-list'',
                  rq_Arguments = [(''remote'', AStringMap [(''type'', cl_remote c)]),
                                  (''server-tags'', AStrings [''all''])],
                  Service = [''dhcp4'']\<rparr>
     in case do e c req (Some (zero_ret_Subnets,
               dec_ret_Subnets ''[]kea.RemoteSubnet4List'' zero_RemoteSubnet4List dec_RemoteSubnet4List)) of
          (_, Some err, _) \<Rightarrow> (([], Some err), [req])
        | (_, None, ret) \<Rightarrow> ((Subnets (target_content zero_ret_Subnets ret), None), [req]))"
  using assms by (simp add: RemoteSubnet4List_def make_req_post Let_def)

lemma Read_filtered:
  assumes "\<not> HasError (subnet4_required config d0)"
    and "RemoteSubnet4GetByPrefix e c (ValueString (sc_Hostname config)) (ValueString (sc_Subnet config))
           = (Inr (respData, Some er), sent)"
    and "strings_Contains (error_Error er) ''not found''"
  shows "remoteSubnet4Resource_Read e c d0 config =
     (Inr (subnet4_required config d0,
           Some (config\<lparr>
              sc_ID := tfValue (rs_ID respData),
              sc_OptionData :=
                map (\<lambda>v. \<lparr>om_Code = tfValue (case od_Code v of None \<Rightarrow> 0 | Some code \<Rightarrow> code),
                           om_Data = tfValue (od_Data v),
                           om_Name = tfValue (od_Name v),
                           om_AlwaysSend = tfValue (od_AlwaysSend v)\<rparr>) (rs_OptionData respData),
              sc_Pools := map (\<lambda>v. \<lparr>pm_Pool = tfValue (po_Pool v)\<rparr>) (rs_Pools respData),
              sc_Relay := map (\<lambda>v. \<lparr>rm_IPAddress = tfValue v\<rparr>) (IPAddresses (rs_Relay respData)),
              sc_Subnet := tfValue (rs_Subnet respData)\<rparr>)), sent)"
  using assms by (simp add: remoteSubnet4Resource_Read_def Let_def)

lemma Read_unfiltered:
  assumes "\<not> HasError (subnet4_required config d0)"
    and "RemoteSubnet4GetByPrefix e c (ValueString (sc_Hostname config)) (ValueString (sc_Subnet config))
           = (Inr (respData, Some er), sent)"
    and "\<not> strings_Contains (error_Error er) ''not found''"
  shows "remoteSubnet4Resource_Read e c d0 config =
     (Inr (AddError ''RemoteSubnet4GetByPrefix''
             (''Unable to read example, got error: '' @ error_Error er) (subnet4_required config d0),
           None), sent)"
  using assms by (simp add: remoteSubnet4Resource_Read_def Let_def)

subsection \<open>Reading a subnet\<close>

lemma Read_found:
  assumes "\<not> HasError (subnet4_required config d0)"
    and "RemoteSubnet4GetByPrefix e c (ValueString (sc_Hostname config)) (ValueString (sc_Subnet config))
           = (Inr (respData, None), sent)"
  shows "remoteSubnet4Resource_Read e c d0 config =
     (Inr (subnet4_required config d0,
           Some (config\<lparr>
              sc_ID := tfValue (rs_ID respData),
              sc_OptionData :=
                map (\<lambda>v. \<lparr>om_Code = tfValue (case od_Code v of None \<Rightarrow> 0 | Some code \<Rightarrow> code),
                           om_Data = tfValue (od_Data v),
                           om_Name = tfValue (od_Name v),
                           om_AlwaysSend = tfValue (od_AlwaysSend v)\<rparr>) (rs_OptionData respData),
              sc_Pools := map (\<lambda>v. \<lparr>pm_Pool = tfValue (po_Pool v)\<rparr>) (rs_Pools respData),
              sc_Relay := map (\<lambda>v. \<lparr>rm_IPAddress = tfValue v\<rparr>) (IPAddresses (rs_Relay respData)),
              sc_Subnet := tfValue (rs_Subnet respData)\<rparr>)), sent)"
  using assms by (simp add: remoteSubnet4Resource_Read_def Let_def)

lemma Read_panic:
  assumes "\<not> HasError (subnet4_required config d0)"
    and "RemoteSubnet4GetByPrefix e c (ValueString (sc_Hostname config)) (ValueString (sc_Subnet config))
           = (Inl p, sent)"
  shows "remoteSubnet4Resource_Read e c d0 config = (Inl p, sent)"
  using assms by (simp add: remoteSubnet4Resource_Read_def Let_def)

lemma subnet4_required_ok:
  assumes "h \<noteq> []" "p \<noteq> []"
  shows "subnet4_required \<lparr>sc_Hostname = tfValue h, sc_ID = i0, sc_OptionData = os, sc_Pools = ps,
                            sc_Relay = ys, sc_Subnet = tfValue p\<rparr> d0 = d0"
  using assms by (simp add: subnet4_required_def IsNull_def IsUnknown_def ValueString_def)

lemma example_found_decode:
  "dec_ret_Subnets ''[]kea.RemoteSubnet4'' zero_RemoteSubnet4 dec_RemoteSubnet4 zero_ret_Subnets
     (JObj [(''count'', JInt 1),
              (''subnets'', JArr [JObj
                 [(''id'', JInt 1921682250),
                  (''subnet'', JStr ''192.168.225.0/24''),
                  (''shared-network-name'', JNull),
                  (''pools'', JArr [JObj [(''pool'', JStr ''192.168.225.50-192.168.225.150'')]]),
                  (''relay'', JObj [(''ip-addresses'', JArr [JStr ''192.168.225.1''])]),
                  (''option-data'', JArr [JObj [(''code'', JInt 3), (''name'', JStr ''routers''),
                                                (''data'', JStr ''192.168.225.1''),
                                                (''always-send'', JBool False)]])]])])
   = Inr \<lparr>Subnets =
       [zero_RemoteSubnet4
          \<lparr>rs_ID := 1921682250,
           rs_OptionData := [\<lparr>od_Code = Some 3, od_Data = ''192.168.225.1'', od_Name = ''routers'',
                              od_Space = None, od_AlwaysSend = False\<rparr>],
           rs_Pools := [\<lparr>po_Pool = ''192.168.225.50-192.168.225.150''\<rparr>],
           rs_Relay := \<lparr>IPAddresses = [''192.168.225.1'']\<rparr>,
           rs_Subnet := ''192.168.225.0/24''\<rparr>]\<rparr>"
  by (simp add: dec_ret_Subnets_def dec_struct_def ret_Subnets_set_def fieldFor_def dec_slice_def
        dec_RemoteSubnet4_def RemoteSubnet4_set_def dec_int_def dec_string_def dec_bool_def dec_any_def
        dec_ptr_def dec_Pool_def Pool_set_def dec_Relay_def Relay_set_def dec_OptionData_def
        OptionData_set_def zero_ret_Subnets_def zero_RemoteSubnet4_def zero_Pool_def zero_Relay_def
        zero_OptionData_def zero_Metadata_def asciiLower_def)

lemma no_subnets_shapes:
  "no_subnets None \<and> no_subnets (Some JNull) \<and> no_subnets (Some (JObj []))
   \<and> no_subnets (Some (JObj [(''subnets'', JArr [])]))
   \<and> no_subnets (Some (JObj [(''subnets'', JNull)]))
   \<and> no_subnets (Some (JObj [(''count'', JInt 0), (''subnets'', JArr [])]))"
  by (simp add: no_subnets_def dec_ret_Subnets_def dec_struct_def ret_Subnets_set_def fieldFor_def
        dec_slice_def zero_ret_Subnets_def asciiLower_def)


text \<open>
  C4.  When the server answers a \<open>remote-subnet4-get-by-prefix\<close> request with result 3 and a
  text that contains \<open>not found\<close>, the lookup returns the empty subnet together with the
  error \<open>result:3(<text>)\<close>, and \<open>Read\<close>, which filters errors whose text contains
  \<open>not found\<close>, adds no diagnostic and writes the state from the empty subnet (id 0, no
  options, pools or relays, empty prefix).  In general the lookups by prefix and by id and
  the list return the empty subnet (the empty list) with the error for any result other
  than 0, and the first decoded subnet for result 0.  An error whose text does not contain
  \<open>not found\<close> is reported by \<open>Read\<close> as a diagnostic.
\<close>

theorem read_absent_subnet:
  fixes e :: env and c :: Client and h prefix :: string and i :: int and d0 :: "diagnostic list"
    and i0 :: "int tf" and os :: "remoteSubnet4OptionResourceModel list"
    and ps :: "remoteSubnet4PoolResourceModel list" and ys :: "remoteSubnet4RelayResourceModel list"
  defines "req \<equiv> post_request c h
             \<lparr>Command = ''remote-subnet4-get-by-prefix'',
              rq_Arguments = [(''remote'', AStringMap [(''type'', cl_remote c)]),
                              (''subnets'', AStringMaps [[(''subnet'', prefix)]])],
              Service = [''dhcp4'']\<rparr>"
    and "reqID \<equiv> post_request c h
             \<lparr>Command = ''remote-subnet4-get-by-id'',
              rq_Arguments = [(''remote'', AStringMap [(''type'', cl_remote c)]),
                              (''subnets'', AIntMaps [[(''id'', i)]])],
              Service = [''dhcp4'']\<rparr>"
    and "reqList \<equiv> post_request c h
             \<lparr>Command = ''remote-subnet4-list'',
              rq_Arguments = [(''remote'', AStringMap [(''type'', cl_remote c)]),
                              (''server-tags'', AStrings [''all''])],
              Service = [''dhcp4'']\<rparr>"
    and "cfg \<equiv> \<lparr>sc_Hostname = tfValue h, sc_ID = i0, sc_OptionData = os, sc_Pools = ps,
                   sc_Relay = ys, sc_Subnet = tfValue prefix\<rparr>"
  assumes lib: "newRequestError e ''POST'' (request_url h) = None"
    and dec: "Decode_Responses body = Inr (r # rs)"
    and host: "h \<noteq> []" "prefix \<noteq> []" and diags: "\<not> HasError d0"
  shows
    "(Result r = 3 \<and> strings_Contains (Text r) ''not found'' \<and> roundTrip e req = Inr body \<longrightarrow>
        RemoteSubnet4GetByPrefix e c h prefix
          = (Inr (zero_RemoteSubnet4, Some (ResultError 3 (Text r))), [req])
      \<and> remoteSubnet4Resource_Read e c d0 cfg
          = (Inr (d0, Some (cfg\<lparr>sc_ID := tfValue 0, sc_OptionData := [], sc_Pools := [],
                                 sc_Relay := [], sc_Subnet := tfValue []\<rparr>)), [req]))
     \<and> (Result r \<noteq> 0 \<longrightarrow>
          (roundTrip e req = Inr body \<longrightarrow>
             RemoteSubnet4GetByPrefix e c h prefix
               = (Inr (zero_RemoteSubnet4, Some (ResultError (Result r) (Text r))), [req]))
        \<and> (roundTrip e reqID = Inr body \<longrightarrow>
             RemoteSubnet4GetByID e c h i
               = (Inr (zero_RemoteSubnet4, Some (ResultError (Result r) (Text r))), [reqID]))
        \<and> (roundTrip e reqList = Inr body \<longrightarrow>
             RemoteSubnet4List e c h = (([], Some (ResultError (Result r) (Text r))), [reqList])))
     \<and> (Result r = 0 \<and> Arguments r = Some args
          \<and> dec_ret_Subnets ''[]kea.RemoteSubnet4'' zero_RemoteSubnet4 dec_RemoteSubnet4
                zero_ret_Subnets args = Inr \<lparr>Subnets = s0 # ss\<rparr>
          \<and> roundTrip e req = Inr body \<longrightarrow>
          RemoteSubnet4GetByPrefix e c h prefix = (Inr (s0, None), [req])
        \<and> remoteSubnet4Resource_Read e c d0 cfg
            = (Inr (d0, Some (cfg\<lparr>
                 sc_ID := tfValue (rs_ID s0),
                 sc_OptionData :=
                   map (\<lambda>v. \<lparr>om_Code = tfValue (case od_Code v of None \<Rightarrow> 0 | Some code \<Rightarrow> code),
                              om_Data = tfValue (od_Data v),
                              om_Name = tfValue (od_Name v),
                              om_AlwaysSend = tfValue (od_AlwaysSend v)\<rparr>) (rs_OptionData s0),
                 sc_Pools := map (\<lambda>v. \<lparr>pm_Pool = tfValue (po_Pool v)\<rparr>) (rs_Pools s0),
                 sc_Relay := map (\<lambda>v. \<lparr>rm_IPAddress = tfValue v\<rparr>) (IPAddresses (rs_Relay s0)),
                 sc_Subnet := tfValue (rs_Subnet s0)\<rparr>)), [req]))
     \<and> (Result r \<noteq> 0
          \<and> \<not> strings_Contains (error_Error (ResultError (Result r) (Text r))) ''not found''
          \<and> roundTrip e req = Inr body \<longrightarrow>
          remoteSubnet4Resource_Read e c d0 cfg
            = (Inr (AddError ''RemoteSubnet4GetByPrefix''
                      (''Unable to read example, got error: ''
                         @ error_Error (ResultError (Result r) (Text r))) d0, None), [req]))"
proof -
  have rq: "subnet4_required cfg d0 = d0"
    unfolding cfg_def by (rule subnet4_required_ok [OF host])
  have ne: "\<not> HasError (subnet4_required cfg d0)" using diags rq by simp
  have hn: "ValueString (sc_Hostname cfg) = h" and sn: "ValueString (sc_Subnet cfg) = prefix"
    by (simp_all add: cfg_def ValueString_def)
  have nz: "RemoteSubnet4GetByPrefix e c h prefix
               = (Inr (zero_RemoteSubnet4, Some (ResultError (Result r) (Text r))), [req])"
    if "Result r \<noteq> 0" "roundTrip e req = Inr body"
    using that(2) unfolding req_def
    by (simp add: RemoteSubnet4GetByPrefix_unfold [OF lib] do_nonzero [OF _ dec that(1)] Let_def)
  have nzID: "RemoteSubnet4GetByID e c h i
               = (Inr (zero_RemoteSubnet4, Some (ResultError (Result r) (Text r))), [reqID])"
    if "Result r \<noteq> 0" "roundTrip e reqID = Inr body"
    using that(2) unfolding reqID_def
    by (simp add: RemoteSubnet4GetByID_unfold [OF lib] do_nonzero [OF _ dec that(1)] Let_def)
  have nzList: "RemoteSubnet4List e c h = (([], Some (ResultError (Result r) (Text r))), [reqList])"
    if "Result r \<noteq> 0" "roundTrip e reqList = Inr body"
    using that(2) unfolding reqList_def
    by (simp add: RemoteSubnet4List_unfold [OF lib] do_nonzero [OF _ dec that(1)] Let_def)
  have found: "RemoteSubnet4GetByPrefix e c h prefix = (Inr (s0, None), [req])"
    if "Result r = 0" "Arguments r = Some args"
       "dec_ret_Subnets ''[]kea.RemoteSubnet4'' zero_RemoteSubnet4 dec_RemoteSubnet4
                zero_ret_Subnets args = Inr \<lparr>Subnets = s0 # ss\<rparr>"
       "roundTrip e req = Inr body"
    using that(2,3,4) unfolding req_def
    by (simp add: RemoteSubnet4GetByPrefix_unfold [OF lib] do_zero [OF _ dec that(1)] Let_def
          target_content_def)
  have a: "Result r = 3 \<and> strings_Contains (Text r) ''not found'' \<and> roundTrip e req = Inr body \<longrightarrow>
        RemoteSubnet4GetByPrefix e c h prefix
          = (Inr (zero_RemoteSubnet4, Some (ResultError 3 (Text r))), [req])
      \<and> remoteSubnet4Resource_Read e c d0 cfg
          = (Inr (d0, Some (cfg\<lparr>sc_ID := tfValue 0, sc_OptionData := [], sc_Pools := [],
                                 sc_Relay := [], sc_Subnet := tfValue []\<rparr>)), [req])"
  proof (intro impI conjI)
    assume h: "Result r = 3 \<and> strings_Contains (Text r) ''not found'' \<and> roundTrip e req = Inr body"
    then have g: "RemoteSubnet4GetByPrefix e c h prefix
          = (Inr (zero_RemoteSubnet4, Some (ResultError 3 (Text r))), [req])"
      using nz by simp
    then show "RemoteSubnet4GetByPrefix e c h prefix
          = (Inr (zero_RemoteSubnet4, Some (ResultError 3 (Text r))), [req])" .
    have f: "strings_Contains (error_Error (ResultError 3 (Text r))) ''not found''"
      using h ResultError_contains by blast
    show "remoteSubnet4Resource_Read e c d0 cfg
          = (Inr (d0, Some (cfg\<lparr>sc_ID := tfValue 0, sc_OptionData := [], sc_Pools := [],
                                 sc_Relay := [], sc_Subnet := tfValue []\<rparr>)), [req])"
      using Read_filtered [OF ne, of e c zero_RemoteSubnet4 "ResultError 3 (Text r)" "[req]"] g f
      unfolding hn sn rq by (simp add: zero_RemoteSubnet4_def zero_Relay_def)
  qed
  have b: "Result r = 0 \<and> Arguments r = Some args
          \<and> dec_ret_Subnets ''[]kea.RemoteSubnet4'' zero_RemoteSubnet4 dec_RemoteSubnet4
                zero_ret_Subnets args = Inr \<lparr>Subnets = s0 # ss\<rparr>
          \<and> roundTrip e req = Inr body \<longrightarrow>
          RemoteSubnet4GetByPrefix e c h prefix = (Inr (s0, None), [req])
        \<and> remoteSubnet4Resource_Read e c d0 cfg
            = (Inr (d0, Some (cfg\<lparr>
                 sc_ID := tfValue (rs_ID s0),
                 sc_OptionData :=
                   map (\<lambda>v. \<lparr>om_Code = tfValue (case od_Code v of None \<Rightarrow> 0 | Some code \<Rightarrow> code),
                              om_Data = tfValue (od_Data v),
                              om_Name = tfValue (od_Name v),
                              om_AlwaysSend = tfValue (od_AlwaysSend v)\<rparr>) (rs_OptionData s0),
                 sc_Pools := map (\<lambda>v. \<lparr>pm_Pool = tfValue (po_Pool v)\<rparr>) (rs_Pools s0),
                 sc_Relay := map (\<lambda>v. \<lparr>rm_IPAddress = tfValue v\<rparr>) (IPAddresses (rs_Relay s0)),
                 sc_Subnet := tfValue (rs_Subnet s0)\<rparr>)), [req])"
  proof (intro impI)
    assume h: "Result r = 0 \<and> Arguments r = Some args
          \<and> dec_ret_Subnets ''[]kea.RemoteSubnet4'' zero_RemoteSubnet4 dec_RemoteSubnet4
                zero_ret_Subnets args = Inr \<lparr>Subnets = s0 # ss\<rparr>
          \<and> roundTrip e req = Inr body"
    then have g: "RemoteSubnet4GetByPrefix e c h prefix = (Inr (s0, None), [req])"
      using found by blast
    show "RemoteSubnet4GetByPrefix e c h prefix = (Inr (s0, None), [req])
        \<and> remoteSubnet4Resource_Read e c d0 cfg
            = (Inr (d0, Some (cfg\<lparr>
                 sc_ID := tfValue (rs_ID s0),
                 sc_OptionData :=
                   map (\<lambda>v. \<lparr>om_Code = tfValue (case od_Code v of None \<Rightarrow> 0 | Some code \<Rightarrow> code),
                              om_Data = tfValue (od_Data v),
                              om_Name = tfValue (od_Name v),
                              om_AlwaysSend = tfValue (od_AlwaysSend v)\<rparr>) (rs_OptionData s0),
                 sc_Pools := map (\<lambda>v. \<lparr>pm_Pool = tfValue (po_Pool v)\<rparr>) (rs_Pools s0),
                 sc_Relay := map (\<lambda>v. \<lparr>rm_IPAddress = tfValue v\<rparr>) (IPAddresses (rs_Relay s0)),
                 sc_Subnet := tfValue (rs_Subnet s0)\<rparr>)), [req])"
      using Read_found [OF ne, of e c s0 "[req]"] g unfolding hn sn rq by simp
  qed
  have d: "Result r \<noteq> 0
          \<and> \<not> strings_Contains (error_Error (ResultError (Result r) (Text r))) ''not found''
          \<and> roundTrip e req = Inr body \<longrightarrow>
          remoteSubnet4Resource_Read e c d0 cfg
            = (Inr (AddError ''RemoteSubnet4GetByPrefix''
                      (''Unable to read example, got error: ''
                         @ error_Error (ResultError (Result r) (Text r))) d0, None), [req])"
  proof (intro impI)
    assume h: "Result r \<noteq> 0
          \<and> \<not> strings_Contains (error_Error (ResultError (Result r) (Text r))) ''not found''
          \<and> roundTrip e req = Inr body"
    then have g: "RemoteSubnet4GetByPrefix e c h prefix
               = (Inr (zero_RemoteSubnet4, Some (ResultError (Result r) (Text r))), [req])"
      using nz by blast
    show "remoteSubnet4Resource_Read e c d0 cfg
            = (Inr (AddError ''RemoteSubnet4GetByPrefix''
                      (''Unable to read example, got error: ''
                         @ error_Error (ResultError (Result r) (Text r))) d0, None), [req])"
      using Read_unfiltered [OF ne, of e c zero_RemoteSubnet4 "ResultError (Result r) (Text r)" "[req]"] g h
      unfolding hn sn rq by simp
  qed
  show ?thesis using a b d nz nzID nzList by blast
qed


theorem read_absent_subnet_witness:
  "remoteSubnet4Resource_Read (example_env (envelope 3 ''subnet not found'' JNull)) example_client []
      (example_subnet_config ''192.168.225.0/24'')
   = (Inr ([], Some ((example_subnet_config ''192.168.225.0/24'')
                       \<lparr>sc_ID := tfValue 0, sc_OptionData := [], sc_Pools := [], sc_Relay := [],
                        sc_Subnet := tfValue []\<rparr>)),
      [post_request example_client ''kea-primary.example.com''
         \<lparr>Command = ''remote-subnet4-get-by-prefix'',
          rq_Arguments = [(''remote'', AStringMap [(''type'', ''postgresql'')]),
                          (''subnets'', AStringMaps [[(''subnet'', ''192.168.225.0/24'')]])],
          Service = [''dhcp4'']\<rparr>])
   \<and> fst (RemoteSubnet4GetByPrefix (example_env (envelope 3 ''subnet not found'' JNull)) example_client
            ''kea-primary.example.com'' ''192.168.225.0/24'')
       = Inr (zero_RemoteSubnet4, Some (ResultError 3 ''subnet not found''))
   \<and> fst (RemoteSubnet4GetByID (example_env (envelope 3 ''subnet not found'' JNull)) example_client
            ''kea-primary.example.com'' 1921682250)
       = Inr (zero_RemoteSubnet4, Some (ResultError 3 ''subnet not found''))
   \<and> fst (RemoteSubnet4List (example_env (envelope 3 ''subnet not found'' JNull)) example_client
            ''kea-primary.example.com'')
       = ([], Some (ResultError 3 ''subnet not found''))
   \<and> fst (RemoteSubnet4GetByPrefix (example_env example_found_reply) example_client
            ''kea-primary.example.com'' ''192.168.225.0/24'')
       = Inr (zero_RemoteSubnet4
                \<lparr>rs_ID := 1921682250,
                 rs_OptionData := [\<lparr>od_Code = Some 3, od_Data = ''192.168.225.1'', od_Name = ''routers'',
                                    od_Space = None, od_AlwaysSend = False\<rparr>],
                 rs_Pools := [\<lparr>po_Pool = ''192.168.225.50-192.168.225.150''\<rparr>],
                 rs_Relay := \<lparr>IPAddresses = [''192.168.225.1'']\<rparr>,
                 rs_Subnet := ''192.168.225.0/24''\<rparr>, None)
   \<and> fst (remoteSubnet4Resource_Read (example_env (envelope 3 ''0 IPv4 subnet(s) found.'' JNull))
            example_client [] (example_subnet_config ''192.168.225.0/24''))
       = Inr ([Diagnostic SeverityError ''RemoteSubnet4GetByPrefix''
                 ''Unable to read example, got error: result:3(0 IPv4 subnet(s) found.)''], None)"
proof -
  let ?h = "''kea-primary.example.com''"
  let ?p = "''192.168.225.0/24''"
  let ?b1 = "envelope 3 ''subnet not found'' JNull"
  let ?r1 = "\<lparr>Result = 3, Text = ''subnet not found'', Arguments = Some JNull\<rparr>"
  let ?b3 = "envelope 3 ''0 IPv4 subnet(s) found.'' JNull"
  let ?r3 = "\<lparr>Result = 3, Text = ''0 IPv4 subnet(s) found.'', Arguments = Some JNull\<rparr>"
  let ?args = "JObj [(''count'', JInt 1),
              (''subnets'', JArr [JObj
                 [(''id'', JInt 1921682250),
                  (''subnet'', JStr ''192.168.225.0/24''),
                  (''shared-network-name'', JNull),
                  (''pools'', JArr [JObj [(''pool'', JStr ''192.168.225.50-192.168.225.150'')]]),
                  (''relay'', JObj [(''ip-addresses'', JArr [JStr ''192.168.225.1''])]),
                  (''option-data'', JArr [JObj [(''code'', JInt 3), (''name'', JStr ''routers''),
                                                (''data'', JStr ''192.168.225.1''),
                                                (''always-send'', JBool False)]])]])]"
  let ?r2 = "\<lparr>Result = 0, Text = ''1 IPv4 subnet(s) found.'', Arguments = Some ?args\<rparr>"
  have lib: "newRequestError (example_env b) ''POST'' (request_url ?h) = None" for b
    by (simp add: example_env_def)
  have d1: "Decode_Responses ?b1 = Inr (?r1 # [])" by (rule Decode_envelope) simp_all
  have d2: "Decode_Responses example_found_reply = Inr (?r2 # [])"
    unfolding example_found_reply_def by (rule Decode_envelope) simp_all
  have d3: "Decode_Responses ?b3 = Inr (?r3 # [])" by (rule Decode_envelope) simp_all
  have hs: "?h \<noteq> []" "?p \<noteq> []" "\<not> HasError []" by (simp_all add: HasError_def)
  have c1: "strings_Contains (Text ?r1) ''not found''" by (simp add: strings_HasPrefix_def)
  have c3: "\<not> strings_Contains (error_Error (ResultError (Result ?r3) (Text ?r3))) ''not found''"
    by (simp add: error_Error_def fmt_d_3 strings_HasPrefix_def)
  have cfg: "example_subnet_config ?p =
       \<lparr>sc_Hostname = tfValue ?h, sc_ID = sc_ID (example_subnet_config ?p),
        sc_OptionData = sc_OptionData (example_subnet_config ?p),
        sc_Pools = sc_Pools (example_subnet_config ?p),
        sc_Relay = sc_Relay (example_subnet_config ?p), sc_Subnet = tfValue ?p\<rparr>"
    by (simp add: example_subnet_config_def)
  note t1 = read_absent_subnet [where e = "example_env ?b1" and c = example_client and h = ?h
      and prefix = ?p and i = 1921682250 and ?d0.0 = "[]" and body = ?b1 and r = ?r1 and rs = "[]"
      and ?i0.0 = "sc_ID (example_subnet_config ?p)" and os = "sc_OptionData (example_subnet_config ?p)"
      and ps = "sc_Pools (example_subnet_config ?p)" and ys = "sc_Relay (example_subnet_config ?p)",
      OF lib d1 hs, folded cfg]
  note t2 = read_absent_subnet [where e = "example_env example_found_reply" and c = example_client
      and h = ?h and prefix = ?p and ?d0.0 = "[]" and body = example_found_reply and r = ?r2
      and rs = "[]" and args = ?args and ss = "[]", OF lib d2 hs]
  note t3 = read_absent_subnet [where e = "example_env ?b3" and c = example_client and h = ?h
      and prefix = ?p and ?d0.0 = "[]" and body = ?b3 and r = ?r3 and rs = "[]"
      and ?i0.0 = "sc_ID (example_subnet_config ?p)" and os = "sc_OptionData (example_subnet_config ?p)"
      and ps = "sc_Pools (example_subnet_config ?p)" and ys = "sc_Relay (example_subnet_config ?p)",
      OF lib d3 hs, folded cfg]
  have cr: "cl_remote example_client = ''postgresql''" by (simp add: example_client_def)
  have hyp1: "Result ?r1 = 3 \<and> strings_Contains (Text ?r1) ''not found''
              \<and> roundTrip (example_env ?b1) q = Inr ?b1" for q
    using c1 by (simp add: example_env_roundTrip)
  have hyp2: "Result ?r1 \<noteq> 0" by simp
  have hyp3: "Result ?r2 = 0 \<and> Arguments ?r2 = Some ?args
          \<and> dec_ret_Subnets ''[]kea.RemoteSubnet4'' zero_RemoteSubnet4 dec_RemoteSubnet4
                zero_ret_Subnets ?args = Inr \<lparr>Subnets = zero_RemoteSubnet4
                \<lparr>rs_ID := 1921682250,
                 rs_OptionData := [\<lparr>od_Code = Some 3, od_Data = ''192.168.225.1'', od_Name = ''routers'',
                                    od_Space = None, od_AlwaysSend = False\<rparr>],
                 rs_Pools := [\<lparr>po_Pool = ''192.168.225.50-192.168.225.150''\<rparr>],
                 rs_Relay := \<lparr>IPAddresses = [''192.168.225.1'']\<rparr>,
                 rs_Subnet := ''192.168.225.0/24''\<rparr> # []\<rparr>
          \<and> roundTrip (example_env example_found_reply) q = Inr example_found_reply" for q
    using example_found_decode by (simp add: example_env_roundTrip)
  have hyp4: "Result ?r3 \<noteq> 0
          \<and> \<not> strings_Contains (error_Error (ResultError (Result ?r3) (Text ?r3))) ''not found''
          \<and> roundTrip (example_env ?b3) q = Inr ?b3" for q
    using c3 by (simp add: example_env_roundTrip)
  note s1 = t1 [THEN conjunct1, rule_format, OF hyp1]
  have w1: "fst (RemoteSubnet4GetByPrefix (example_env ?b1) example_client ?h ?p)
          = Inr (zero_RemoteSubnet4, Some (ResultError 3 ''subnet not found''))"
    using s1 [THEN conjunct1] by simp
  have w1': "remoteSubnet4Resource_Read (example_env ?b1) example_client [] (example_subnet_config ?p)
          = (Inr ([], Some ((example_subnet_config ?p)
                       \<lparr>sc_ID := tfValue 0, sc_OptionData := [], sc_Pools := [], sc_Relay := [],
                        sc_Subnet := tfValue []\<rparr>)),
             [post_request example_client ?h
               \<lparr>Command = ''remote-subnet4-get-by-prefix'',
                rq_Arguments = [(''remote'', AStringMap [(''type'', ''postgresql'')]),
                                (''subnets'', AStringMaps [[(''subnet'', ?p)]])],
                Service = [''dhcp4'']\<rparr>])"
    using s1 [THEN conjunct2] by (simp add: cr)
  note s2 = t1 [THEN conjunct2, THEN conjunct1, rule_format, OF hyp2]
  have w2: "fst (RemoteSubnet4GetByID (example_env ?b1) example_client ?h 1921682250)
       = Inr (zero_RemoteSubnet4, Some (ResultError 3 ''subnet not found''))"
    using s2 [THEN conjunct2, THEN conjunct1, rule_format, OF example_env_roundTrip] by simp
  have w2': "fst (RemoteSubnet4List (example_env ?b1) example_client ?h)
       = ([], Some (ResultError 3 ''subnet not found''))"
    using s2 [THEN conjunct2, THEN conjunct2, rule_format, OF example_env_roundTrip] by simp
  note s3 = t2 [THEN conjunct2, THEN conjunct2, THEN conjunct1, rule_format, OF hyp3]
  have w3: "fst (RemoteSubnet4GetByPrefix (example_env example_found_reply) example_client ?h ?p)
       = Inr (zero_RemoteSubnet4
                \<lparr>rs_ID := 1921682250,
                 rs_OptionData := [\<lparr>od_Code = Some 3, od_Data = ''192.168.225.1'', od_Name = ''routers'',
                                    od_Space = None, od_AlwaysSend = False\<rparr>],
                 rs_Pools := [\<lparr>po_Pool = ''192.168.225.50-192.168.225.150''\<rparr>],
                 rs_Relay := \<lparr>IPAddresses = [''192.168.225.1'']\<rparr>,
                 rs_Subnet := ''192.168.225.0/24''\<rparr>, None)"
    using s3 [THEN conjunct1] by simp
  note s4 = t3 [THEN conjunct2, THEN conjunct2, THEN conjunct2, rule_format, OF hyp4]
  have w4: "fst (remoteSubnet4Resource_Read (example_env ?b3) example_client []
                   (example_subnet_config ?p))
       = Inr ([Diagnostic SeverityError ''RemoteSubnet4GetByPrefix''
                 ''Unable to read example, got error: result:3(0 IPv4 subnet(s) found.)''], None)"
    using s4 by (simp add: AddError_def error_Error_def fmt_d_3)
  show ?thesis using w1 w1' w2 w2' w3 w4 by simp
qed

text \<open>
  C6.  \<open>RemoteSubnet4GetByPrefix\<close> and \<open>RemoteSubnet4GetByID\<close> index the first element of the
  decoded list without a check: when the server answers with result 0 and \<open>arguments\<close> that
  are absent, \<open>null\<close>, or hold no or an empty \<open>subnets\<close> list, the call ends in the run-time
  panic \<open>index out of range [0] with length 0\<close> after its request has been sent, and \<open>Read\<close>
  of the subnet resource ends in the same panic.
\<close>

theorem lookup_panics_on_empty_list:
  fixes e :: env and c :: Client and h prefix :: string and i :: int and d0 :: "diagnostic list"
    and i0 :: "int tf" and os :: "remoteSubnet4OptionResourceModel list"
    and ps :: "remoteSubnet4PoolResourceModel list" and ys :: "remoteSubnet4RelayResourceModel list"
  defines "req \<equiv> post_request c h
             \<lparr>Command = ''remote-subnet4-get-by-prefix'',
              rq_Arguments = [(''remote'', AStringMap [(''type'', cl_remote c)]),
                              (''subnets'', AStringMaps [[(''subnet'', prefix)]])],
              Service = [''dhcp4'']\<rparr>"
    and "reqID \<equiv> post_request c h
             \<lparr>Command = ''remote-subnet4-get-by-id'',
              rq_Arguments = [(''remote'', AStringMap [(''type'', cl_remote c)]),
                              (''subnets'', AIntMaps [[(''id'', i)]])],
              Service = [''dhcp4'']\<rparr>"
    and "cfg \<equiv> \<lparr>sc_Hostname = tfValue h, sc_ID = i0, sc_OptionData = os, sc_Pools = ps,
                   sc_Relay = ys, sc_Subnet = tfValue prefix\<rparr>"
  assumes lib: "newRequestError e ''POST'' (request_url h) = None"
    and dec: "Decode_Responses body = Inr (r # rs)" and zero: "Result r = 0"
    and empty: "no_subnets (Arguments r)"
  shows
    "(roundTrip e req = Inr body \<longrightarrow>
        RemoteSubnet4GetByPrefix e c h prefix = (Inl (IndexOutOfRange 0 0), [req]))
     \<and> (roundTrip e reqID = Inr body \<longrightarrow>
        RemoteSubnet4GetByID e c h i = (Inl (IndexOutOfRange 0 0), [reqID]))
     \<and> (roundTrip e req = Inr body \<and> h \<noteq> [] \<and> prefix \<noteq> [] \<and> \<not> HasError d0 \<longrightarrow>
        remoteSubnet4Resource_Read e c d0 cfg = (Inl (IndexOutOfRange 0 0), [req]))
     \<and> no_subnets None \<and> no_subnets (Some JNull) \<and> no_subnets (Some (JObj []))
     \<and> no_subnets (Some (JObj [(''subnets'', JArr [])]))
     \<and> no_subnets (Some (JObj [(''subnets'', JNull)]))"
proof -
  have p: "RemoteSubnet4GetByPrefix e c h prefix = (Inl (IndexOutOfRange 0 0), [req])"
    if "roundTrip e req = Inr body"
    using that empty unfolding req_def no_subnets_def
    by (cases "Arguments r")
       (simp_all add: RemoteSubnet4GetByPrefix_unfold [OF lib] do_zero [OF _ dec zero] Let_def
          target_content_def zero_ret_Subnets_def)
  have q: "RemoteSubnet4GetByID e c h i = (Inl (IndexOutOfRange 0 0), [reqID])"
    if "roundTrip e reqID = Inr body"
    using that empty unfolding reqID_def no_subnets_def
    by (cases "Arguments r")
       (simp_all add: RemoteSubnet4GetByID_unfold [OF lib] do_zero [OF _ dec zero] Let_def
          target_content_def zero_ret_Subnets_def)
  have rd: "remoteSubnet4Resource_Read e c d0 cfg = (Inl (IndexOutOfRange 0 0), [req])"
    if "roundTrip e req = Inr body" "h \<noteq> []" "prefix \<noteq> []" "\<not> HasError d0"
  proof -
    have rq: "subnet4_required cfg d0 = d0"
      unfolding cfg_def by (rule subnet4_required_ok [OF that(2,3)])
    have ne: "\<not> HasError (subnet4_required cfg d0)" using that(4) rq by simp
    have hn: "ValueString (sc_Hostname cfg) = h" and sn: "ValueString (sc_Subnet cfg) = prefix"
      by (simp_all add: cfg_def ValueString_def)
    show ?thesis
      using Read_panic [OF ne, of e c "IndexOutOfRange 0 0" "[req]"] p [OF that(1)]
      unfolding hn sn by simp
  qed
  show ?thesis using p q rd no_subnets_shapes by blast
qed

theorem lookup_panics_on_empty_list_witness:
  "RemoteSubnet4GetByPrefix
      (example_env (envelope 0 ''0 IPv4 subnet(s) found.'' (JObj [(''subnets'', JArr [])])))
      example_client ''kea-primary.example.com'' ''192.168.225.0/24''
   = (Inl (IndexOutOfRange 0 0),
      [post_request example_client ''kea-primary.example.com''
         \<lparr>Command = ''remote-subnet4-get-by-prefix'',
          rq_Arguments = [(''remote'', AStringMap [(''type'', cl_remote example_client)]),
                          (''subnets'', AStringMaps [[(''subnet'', ''192.168.225.0/24'')]])],
          Service = [''dhcp4'']\<rparr>])
   \<and> fst (RemoteSubnet4GetByID
            (example_env (envelope 0 ''0 IPv4 subnet(s) found.'' (JObj [(''subnets'', JArr [])])))
            example_client ''kea-primary.example.com'' 1921682250)
       = Inl (IndexOutOfRange 0 0)
   \<and> fst (remoteSubnet4Resource_Read
            (example_env (envelope 0 ''0 IPv4 subnet(s) found.'' (JObj [(''subnets'', JArr [])])))
            example_client [] (example_subnet_config ''192.168.225.0/24''))
       = Inl (IndexOutOfRange 0 0)"
proof -
  let ?h = "''kea-primary.example.com''"
  let ?p = "''192.168.225.0/24''"
  let ?a = "JObj [(''subnets'', JArr [])]"
  let ?b = "envelope 0 ''0 IPv4 subnet(s) found.'' ?a"
  let ?r = "\<lparr>Result = 0, Text = ''0 IPv4 subnet(s) found.'', Arguments = Some ?a\<rparr>"
  have lib: "newRequestError (example_env ?b) ''POST'' (request_url ?h) = None"
    by (simp add: example_env_def)
  have d: "Decode_Responses ?b = Inr (?r # [])" by (rule Decode_envelope) simp_all
  have z: "Result ?r = 0" by simp
  have n: "no_subnets (Arguments ?r)" using no_subnets_shapes by simp
  have cfg: "example_subnet_config ?p =
       \<lparr>sc_Hostname = tfValue ?h, sc_ID = sc_ID (example_subnet_config ?p),
        sc_OptionData = sc_OptionData (example_subnet_config ?p),
        sc_Pools = sc_Pools (example_subnet_config ?p),
        sc_Relay = sc_Relay (example_subnet_config ?p), sc_Subnet = tfValue ?p\<rparr>"
    by (simp add: example_subnet_config_def)
  note t = lookup_panics_on_empty_list [where e = "example_env ?b" and c = example_client and h = ?h
      and prefix = ?p and i = 1921682250 and ?d0.0 = "[]" and body = ?b and r = ?r and rs = "[]"
      and ?i0.0 = "sc_ID (example_subnet_config ?p)" and os = "sc_OptionData (example_subnet_config ?p)"
      and ps = "sc_Pools (example_subnet_config ?p)" and ys = "sc_Relay (example_subnet_config ?p)",
      OF lib d z n, folded cfg]
  have hs: "roundTrip (example_env ?b) q = Inr ?b \<and> ?h \<noteq> [] \<and> ?p \<noteq> [] \<and> \<not> HasError []" for q
    by (simp add: example_env_roundTrip HasError_def)
  have w1: "RemoteSubnet4GetByPrefix (example_env ?b) example_client ?h ?p
   = (Inl (IndexOutOfRange 0 0),
      [post_request example_client ?h
         \<lparr>Command = ''remote-subnet4-get-by-prefix'',
          rq_Arguments = [(''remote'', AStringMap [(''type'', cl_remote example_client)]),
                          (''subnets'', AStringMaps [[(''subnet'', ?p)]])],
          Service = [''dhcp4'']\<rparr>])"
    using t [THEN conjunct1, rule_format, OF example_env_roundTrip] .
  have w2: "fst (RemoteSubnet4GetByID (example_env ?b) example_client ?h 1921682250)
       = Inl (IndexOutOfRange 0 0)"
    using t [THEN conjunct2, THEN conjunct1, rule_format, OF example_env_roundTrip] by simp
  have w3: "fst (remoteSubnet4Resource_Read (example_env ?b) example_client []
                  (example_subnet_config ?p)) = Inl (IndexOutOfRange 0 0)"
    using t [THEN conjunct2, THEN conjunct2, THEN conjunct1, rule_format, OF hs] by simp
  show ?thesis using w1 w2 w3 by simp
qed

subsection \<open>Deleting a reservation\<close>

lemma ReservationDel_unfold:
  assumes "net_ParseIP e ip" "newRequestError e ''POST'' (request_url h) = None"
  shows "ReservationDel e c h ip sid =
    (let req = post_request c h
                 \<lparr>Command = ''reservation-del'',
                  rq_Arguments = [(''subnet-id'', AInt sid), (''ip-address'', AString ip)],
                  Service = [''dhcp4'']\<rparr>
     in case do e c req (Some (JNull, dec_any)) of
          (_, Some err, _) \<Rightarrow> (Some err, [req])
        | (_, None, _) \<Rightarrow> (None, [req]))"
  using assms by (simp add: ReservationDel_def make_req_post Let_def)

lemma ReservationDel_invalid:
  assumes "\<not> net_ParseIP e ip"
  shows "ReservationDel e c h ip sid = (Some ErrInvalidIP, [])"
  using assms by (simp add: ReservationDel_def)

lemma reservation_required_ok:
  assumes "rr_SubnetID cfg = tfValue sid" "rr_Hostname cfg = tfValue h"
    "rr_ReservationHostname cfg = tfValue rh" "rr_IPAddress cfg = tfValue ip"
    "h \<noteq> []" "rh \<noteq> []" "ip \<noteq> []" "\<not> HasError d0"
  shows "reservationResource_Delete e c d0 cfg =
           (case ReservationDel e c h ip sid of
              (Some err, sent) \<Rightarrow>
                (AddError ''ReservationDel''
                   (''Unable to delete reservation, got error: '' @ error_Error err) d0, sent)
            | (None, sent) \<Rightarrow> (d0, sent))"
  using assms
  by (simp add: reservationResource_Delete_def IsNull_def IsUnknown_def ValueString_def
        ValueInt64_def Let_def)

lemma example_ip_ok: "net_ParseIP e ''192.168.225.5''"
  by (simp add: net_ParseIP_def parseIPv4_def ipv4Field_def decimal_def isDigit_def digitVal_def)


lemma Delete_of_reply:
  fixes e :: env and c :: Client
  assumes f: "rr_SubnetID cfg = tfValue sid" "rr_Hostname cfg = tfValue h"
      "rr_ReservationHostname cfg = tfValue rh" "rr_IPAddress cfg = tfValue ip"
      "h \<noteq> []" "rh \<noteq> []" "ip \<noteq> []" "\<not> HasError d0"
    and ip: "net_ParseIP e ip"
    and lib: "newRequestError e ''POST'' (request_url h) = None"
    and dec: "Decode_Responses body = Inr (r # rs)"
    and reply: "roundTrip e (post_request c h
                 \<lparr>Command = ''reservation-del'',
                  rq_Arguments = [(''subnet-id'', AInt sid), (''ip-address'', AString ip)],
                  Service = [''dhcp4'']\<rparr>) = Inr body"
  shows "reservationResource_Delete e c d0 cfg =
           (if Result r = 0 then d0
            else AddError ''ReservationDel''
                   (''Unable to delete reservation, got error: result:'' @ fmt_d (Result r)
                      @ ''('' @ Text r @ '')'') d0,
            [post_request c h
               \<lparr>Command = ''reservation-del'',
                rq_Arguments = [(''subnet-id'', AInt sid), (''ip-address'', AString ip)],
                Service = [''dhcp4'']\<rparr>])"
proof (cases "Result r = 0")
  case True
  show ?thesis
    using True reply
    by (cases "Arguments r")
       (simp_all add: reservation_required_ok [OF f] ReservationDel_unfold [OF ip lib]
          do_zero [OF _ dec True] Let_def dec_any_def)
next
  case False
  show ?thesis
    using False reply
    by (simp add: reservation_required_ok [OF f] ReservationDel_unfold [OF ip lib]
          do_nonzero [OF _ dec False] Let_def error_Error_def)
qed

text \<open>
  C5 (as amended).  \<open>Delete\<close> of the reservation resource passes every error of
  \<open>ReservationDel\<close> on: when the server answers the \<open>reservation-del\<close> request with a result
  other than 0, result 3 included, \<open>Delete\<close> adds the error diagnostic \<open>ReservationDel\<close> with
  the text \<open>Unable to delete reservation, got error: result:<code>(<text>)\<close>; it adds no
  diagnostic when the server answers with result 0.  In both cases exactly one request is
  sent.
\<close>

theorem reservation_delete_reports_errors:
  fixes e :: env and c :: Client
  assumes "rr_SubnetID cfg = tfValue sid" "rr_Hostname cfg = tfValue h"
      "rr_ReservationHostname cfg = tfValue rh" "rr_IPAddress cfg = tfValue ip"
      "h \<noteq> []" "rh \<noteq> []" "ip \<noteq> []" "\<not> HasError d0"
    and "net_ParseIP e ip"
    and "newRequestError e ''POST'' (request_url h) = None"
    and "Decode_Responses body = Inr (r # rs)"
    and "roundTrip e (post_request c h
                 \<lparr>Command = ''reservation-del'',
                  rq_Arguments = [(''subnet-id'', AInt sid), (''ip-address'', AString ip)],
                  Service = [''dhcp4'']\<rparr>) = Inr body"
  shows "(Result r \<noteq> 0 \<longrightarrow>
            reservationResource_Delete e c d0 cfg =
              (AddError ''ReservationDel''
                 (''Unable to delete reservation, got error: result:'' @ fmt_d (Result r)
                    @ ''('' @ Text r @ '')'') d0,
               [post_request c h
                  \<lparr>Command = ''reservation-del'',
                   rq_Arguments = [(''subnet-id'', AInt sid), (''ip-address'', AString ip)],
                   Service = [''dhcp4'']\<rparr>])
          \<and> HasError (fst (reservationResource_Delete e c d0 cfg)))
       \<and> (Result r = 0 \<longrightarrow>
            reservationResource_Delete e c d0 cfg =
              (d0,
               [post_request c h
                  \<lparr>Command = ''reservation-del'',
                   rq_Arguments = [(''subnet-id'', AInt sid), (''ip-address'', AString ip)],
                   Service = [''dhcp4'']\<rparr>]))"
  using Delete_of_reply [OF assms] by (simp add: HasError_AddError)

lemma example_reservation_fields:
  "rr_SubnetID example_reservation_config = tfValue 1921682250"
  "rr_Hostname example_reservation_config = tfValue ''kea-primary.example.com''"
  "rr_ReservationHostname example_reservation_config = tfValue ''host-1''"
  "rr_IPAddress example_reservation_config = tfValue ''192.168.225.5''"
  "''kea-primary.example.com'' \<noteq> []" "''host-1'' \<noteq> []" "''192.168.225.5'' \<noteq> []"
  "\<not> HasError []"
  by (simp_all add: example_reservation_config_def HasError_def)

lemma example_env_lib: "newRequestError (example_env b) m u = None"
  by (simp add: example_env_def)

theorem reservation_delete_reports_errors_witness:
  "reservationResource_Delete (example_env (envelope 4 ''conflict'' JNull)) example_client []
      example_reservation_config
     = ([Diagnostic SeverityError ''ReservationDel''
           ''Unable to delete reservation, got error: result:4(conflict)''],
        [post_request example_client ''kea-primary.example.com''
           \<lparr>Command = ''reservation-del'',
            rq_Arguments = [(''subnet-id'', AInt 1921682250), (''ip-address'', AString ''192.168.225.5'')],
            Service = [''dhcp4'']\<rparr>])
   \<and> reservationResource_Delete (example_env (envelope 0 ''Host deleted.'' JNull)) example_client []
      example_reservation_config
     = ([],
        [post_request example_client ''kea-primary.example.com''
           \<lparr>Command = ''reservation-del'',
            rq_Arguments = [(''subnet-id'', AInt 1921682250), (''ip-address'', AString ''192.168.225.5'')],
            Service = [''dhcp4'']\<rparr>])"
proof -
  let ?b1 = "envelope 4 ''conflict'' JNull"
  let ?r1 = "\<lparr>Result = 4, Text = ''conflict'', Arguments = Some JNull\<rparr>"
  let ?b2 = "envelope 0 ''Host deleted.'' JNull"
  let ?r2 = "\<lparr>Result = 0, Text = ''Host deleted.'', Arguments = Some JNull\<rparr>"
  have d1: "Decode_Responses ?b1 = Inr (?r1 # [])" by (rule Decode_envelope) simp_all
  have d2: "Decode_Responses ?b2 = Inr (?r2 # [])" by (rule Decode_envelope) simp_all
  have f4: "fmt_d 4 = ''4''" by (simp add: fmt_d_def natDigits.simps)
  note t1 = reservation_delete_reports_errors [OF example_reservation_fields example_ip_ok
      example_env_lib d1 example_env_roundTrip, of example_client]
  note t2 = reservation_delete_reports_errors [OF example_reservation_fields example_ip_ok
      example_env_lib d2 example_env_roundTrip, of example_client]
  have n1: "Result ?r1 \<noteq> 0" and z2: "Result ?r2 = 0" by simp_all
  from t1 [THEN conjunct1, rule_format, OF n1, THEN conjunct1]
       t2 [THEN conjunct2, rule_format, OF z2]
  show ?thesis by (simp add: AddError_def f4)
qed

theorem reservation_delete_not_found_counterexample:
  "reservationResource_Delete
      (example_env (envelope 3 ''Host not deleted (not found).'' JNull)) example_client []
      example_reservation_config
     = ([Diagnostic SeverityError ''ReservationDel''
           ''Unable to delete reservation, got error: result:3(Host not deleted (not found).)''],
        [post_request example_client ''kea-primary.example.com''
           \<lparr>Command = ''reservation-del'',
            rq_Arguments = [(''subnet-id'', AInt 1921682250), (''ip-address'', AString ''192.168.225.5'')],
            Service = [''dhcp4'']\<rparr>])"
proof -
  let ?b = "envelope 3 ''Host not deleted (not found).'' JNull"
  let ?r = "\<lparr>Result = 3, Text = ''Host not deleted (not found).'', Arguments = Some JNull\<rparr>"
  have d: "Decode_Responses ?b = Inr (?r # [])" by (rule Decode_envelope) simp_all
  show ?thesis
    using Delete_of_reply [OF example_reservation_fields example_ip_ok example_env_lib d
        example_env_roundTrip, of example_client]
    by (simp add: AddError_def fmt_d_3)
qed

subsection \<open>Hardware addresses of reservations\<close>

lemma hexVal_lt: "hexVal ch = Some x \<Longrightarrow> x < 16"
  by (auto simp: hexVal_def Let_def split: if_splits)

lemma xtoi2_lt:
  assumes "xtoi2 s sep = Some v"
  shows "v < 256"
proof (cases s)
  case Nil
  then show ?thesis using assms by simp
next
  case (Cons a t)
  show ?thesis
  proof (cases t)
    case Nil
    then show ?thesis using assms Cons by simp
  next
    case (Cons b rest)
    from assms \<open>s = a # t\<close> Cons obtain x y where "hexVal a = Some x" "hexVal b = Some y" "v = x * 16 + y"
      by (auto split: if_splits option.splits)
    then show ?thesis using hexVal_lt [of a x] hexVal_lt [of b y] by simp
  qed
qed

lemma macPairs_bytes:
  "macPairs sep n s = Some bs \<Longrightarrow> length bs = n \<and> list_all (\<lambda>b. b < 256) bs"
proof (induction n arbitrary: s bs)
  case 0
  then show ?case by simp
next
  case (Suc n)
  from Suc.prems obtain b rest where b: "xtoi2 s sep = Some b"
    and r: "macPairs sep n (drop 3 s) = Some rest" and bs: "bs = b # rest"
    by (auto split: option.splits)
  from Suc.IH [OF r] xtoi2_lt [OF b] bs show ?case by simp
qed

lemma macQuads_bytes:
  "macQuads sep n s = Some bs \<Longrightarrow> length bs = 2 * n \<and> list_all (\<lambda>b. b < 256) bs"
proof (induction n arbitrary: s bs)
  case 0
  then show ?case by simp
next
  case (Suc n)
  from Suc.prems obtain b1 b2 rest where b1: "xtoi2 (take 2 s) (CHR 0x00) = Some b1"
    and b2: "xtoi2 (drop 2 s) sep = Some b2"
    and r: "macQuads sep n (drop 5 s) = Some rest" and bs: "bs = b1 # b2 # rest"
    by (auto split: option.splits)
  from Suc.IH [OF r] xtoi2_lt [OF b1] xtoi2_lt [OF b2] bs show ?case by simp
qed

lemma net_ParseMAC_bytes:
  assumes "net_ParseMAC s = Some bs"
  shows "bs \<noteq> [] \<and> list_all (\<lambda>b. b < 256) bs"
proof -
  from assms consider n where "macPairs (s ! 2) n s = Some bs" "n = 6 \<or> n = 8 \<or> n = 20"
    | n where "macQuads (s ! 4) (n div 2) s = Some bs" "n = 6 \<or> n = 8 \<or> n = 20"
    by (auto simp: net_ParseMAC_def Let_def split: if_splits)
  then show ?thesis
  proof cases
    case 1
    from macPairs_bytes [OF 1(1)] 1(2) show ?thesis by auto
  next
    case 2
    from macQuads_bytes [OF 2(1)] 2(2) show ?thesis by auto
  qed
qed

lemma lowerHex_hexDigit: "n < 16 \<Longrightarrow> lowerHex (hexDigit n)"
proof -
  assume "n < 16"
  then have "''0123456789abcdef'' ! n \<in> set ''0123456789abcdef''"
    by (intro nth_mem) simp
  then show ?thesis by (simp only: lowerHex_def hexDigit_def)
qed

lemma canonical_HardwareAddr_String:
  "bs \<noteq> [] \<Longrightarrow> list_all (\<lambda>b. b < 256) bs \<Longrightarrow> canonicalMAC (HardwareAddr_String bs)"
proof (induction bs rule: HardwareAddr_String.induct)
  case 1
  then show ?case by simp
next
  case (2 b)
  then have "b < 256" by simp
  then have "b div 16 < 16" "b mod 16 < 16" by presburger+
  then show ?case using lowerHex_hexDigit by simp
next
  case (3 b v va)
  then have "b < 256" by simp
  then have "b div 16 < 16" "b mod 16 < 16" by presburger+
  then show ?case using lowerHex_hexDigit 3 by simp
qed





lemma example_mac_upper: "net_ParseMAC ''B8:27:EB:9C:AE:B7'' = Some [184, 39, 235, 156, 174, 183]"
  by code_simp

lemma example_mac_lower: "net_ParseMAC ''b8:27:eb:9c:ae:b7'' = Some [184, 39, 235, 156, 174, 183]"
  by code_simp

lemma example_mac_string: "HardwareAddr_String [184, 39, 235, 156, 174, 183] = ''b8:27:eb:9c:ae:b7''"
  by (simp add: hexDigit_def)

lemma example_mac_bad: "net_ParseMAC ''not-a-mac'' = None"
  by (simp add: net_ParseMAC_def)


lemma ReservationAdd_sent:
  assumes "net_ParseIP e (rv_IPAddress res)" "net_ParseMAC (rv_HwAddress res) = Some bs"
    "newRequestError e ''POST'' (request_url h) = None"
  shows "snd (ReservationAdd e c h res) =
     [post_request c h
        \<lparr>Command = ''reservation-add'',
         rq_Arguments = [(''reservation'', AReservation (res\<lparr>rv_HwAddress := HardwareAddr_String bs\<rparr>))],
         Service = [''dhcp4'']\<rparr>]"
proof -
  obtain x err y where d: "do e c (post_request c h
        \<lparr>Command = ''reservation-add'',
         rq_Arguments = [(''reservation'', AReservation (res\<lparr>rv_HwAddress := HardwareAddr_String bs\<rparr>))],
         Service = [''dhcp4'']\<rparr>) (Some (zero_ret_Options, dec_ret_Options)) = (x, err, y)"
    by (metis prod.exhaust)
  show ?thesis using assms d
    by (cases err) (simp_all add: ReservationAdd_def make_req_post Let_def)
qed

lemma ReservationDel_sent:
  assumes "net_ParseIP e ip" "newRequestError e ''POST'' (request_url h) = None"
  shows "snd (ReservationDel e c h ip sid) =
     [post_request c h
        \<lparr>Command = ''reservation-del'',
         rq_Arguments = [(''subnet-id'', AInt sid), (''ip-address'', AString ip)],
         Service = [''dhcp4'']\<rparr>]"
proof -
  obtain x err y where d: "do e c (post_request c h
        \<lparr>Command = ''reservation-del'',
         rq_Arguments = [(''subnet-id'', AInt sid), (''ip-address'', AString ip)],
         Service = [''dhcp4'']\<rparr>) (Some (JNull, dec_any)) = (x, err, y)"
    by (metis prod.exhaust)
  show ?thesis using d
    by (cases err) (simp_all add: ReservationDel_unfold [OF assms] Let_def)
qed

text \<open>
  C7.  When the IP address and the hardware address of a reservation parse (and the library
  accepts the URL), \<open>ReservationAdd\<close> sends exactly one request, whose reservation carries
  the hardware address in the canonical form, pairs of lower-case hexadecimal digits
  separated by colons; \<open>B8:27:EB:9C:AE:B7\<close> and \<open>b8:27:eb:9c:ae:b7\<close> parse to the same bytes
  and are both sent as \<open>b8:27:eb:9c:ae:b7\<close>.  When the hardware address does not parse, as
  for \<open>not-a-mac\<close>, no request is sent and the call returns a validation error:
  \<open>ErrInvalidMAC\<close> if the IP address parses (the IP address is checked first, so otherwise
  \<open>ErrInvalidIP\<close>).
\<close>

theorem reservation_mac_normalised:
  "(net_ParseIP e (rv_IPAddress res) \<and> net_ParseMAC (rv_HwAddress res) = Some bs
      \<and> newRequestError e ''POST'' (request_url h) = None \<longrightarrow>
        snd (ReservationAdd e c h res) =
          [post_request c h
             \<lparr>Command = ''reservation-add'',
              rq_Arguments = [(''reservation'',
                               AReservation (res\<lparr>rv_HwAddress := HardwareAddr_String bs\<rparr>))],
              Service = [''dhcp4'']\<rparr>]
      \<and> canonicalMAC (HardwareAddr_String bs))
   \<and> net_ParseMAC ''B8:27:EB:9C:AE:B7'' = Some [184, 39, 235, 156, 174, 183]
   \<and> net_ParseMAC ''b8:27:eb:9c:ae:b7'' = Some [184, 39, 235, 156, 174, 183]
   \<and> HardwareAddr_String [184, 39, 235, 156, 174, 183] = ''b8:27:eb:9c:ae:b7''
   \<and> (net_ParseMAC (rv_HwAddress res) = None \<longrightarrow>
         snd (ReservationAdd e c h res) = []
       \<and> (net_ParseIP e (rv_IPAddress res) \<longrightarrow> fst (ReservationAdd e c h res) = Some ErrInvalidMAC)
       \<and> (\<not> net_ParseIP e (rv_IPAddress res) \<longrightarrow> fst (ReservationAdd e c h res) = Some ErrInvalidIP))
   \<and> net_ParseMAC ''not-a-mac'' = None"
proof (intro conjI impI)
  assume a: "net_ParseIP e (rv_IPAddress res) \<and> net_ParseMAC (rv_HwAddress res) = Some bs
      \<and> newRequestError e ''POST'' (request_url h) = None"
  then show "snd (ReservationAdd e c h res) =
          [post_request c h
             \<lparr>Command = ''reservation-add'',
              rq_Arguments = [(''reservation'',
                               AReservation (res\<lparr>rv_HwAddress := HardwareAddr_String bs\<rparr>))],
              Service = [''dhcp4'']\<rparr>]"
    using ReservationAdd_sent by blast
  from a have "bs \<noteq> [] \<and> list_all (\<lambda>b. b < 256) bs" using net_ParseMAC_bytes by blast
  then show "canonicalMAC (HardwareAddr_String bs)" using canonical_HardwareAddr_String by blast
next
  assume n: "net_ParseMAC (rv_HwAddress res) = None"
  then show "snd (ReservationAdd e c h res) = []" by (simp add: ReservationAdd_def)
  { assume "net_ParseIP e (rv_IPAddress res)"
    then show "fst (ReservationAdd e c h res) = Some ErrInvalidMAC"
      using n by (simp add: ReservationAdd_def) }
  { assume "\<not> net_ParseIP e (rv_IPAddress res)"
    then show "fst (ReservationAdd e c h res) = Some ErrInvalidIP"
      by (simp add: ReservationAdd_def) }
qed (rule example_mac_upper example_mac_lower example_mac_string example_mac_bad)+

lemma example_reservation_fields2:
  "rv_IPAddress (example_reservation ip mac) = ip" "rv_HwAddress (example_reservation ip mac) = mac"
  by (simp_all add: example_reservation_def)

theorem reservation_mac_normalised_witness:
  "map request_reservation
      (snd (ReservationAdd (example_env (envelope 0 ''Host added.'' JNull)) example_client
              ''kea-primary.example.com'' (example_reservation ''192.168.225.5'' ''B8:27:EB:9C:AE:B7'')))
     = [Some (example_reservation ''192.168.225.5'' ''b8:27:eb:9c:ae:b7'')]
   \<and> map request_reservation
      (snd (ReservationAdd (example_env (envelope 0 ''Host added.'' JNull)) example_client
              ''kea-primary.example.com'' (example_reservation ''192.168.225.5'' ''b8:27:eb:9c:ae:b7'')))
     = [Some (example_reservation ''192.168.225.5'' ''b8:27:eb:9c:ae:b7'')]
   \<and> canonicalMAC ''b8:27:eb:9c:ae:b7''
   \<and> ReservationAdd (example_env (envelope 0 ''Host added.'' JNull)) example_client
        ''kea-primary.example.com'' (example_reservation ''192.168.225.5'' ''not-a-mac'')
       = (Some ErrInvalidMAC, [])"
proof -
  let ?e = "example_env (envelope 0 ''Host added.'' JNull)"
  let ?h = "''kea-primary.example.com''"
  let ?bs = "[184, 39, 235, 156, 174, 183] :: nat list"
  have hyp: "net_ParseIP ?e (rv_IPAddress (example_reservation ''192.168.225.5'' m))
      \<and> net_ParseMAC (rv_HwAddress (example_reservation ''192.168.225.5'' m)) = Some ?bs
      \<and> newRequestError ?e ''POST'' (request_url ?h) = None"
    if "net_ParseMAC m = Some ?bs" for m
    using that by (simp add: example_reservation_fields2 example_ip_ok example_env_lib)
  note t1 = reservation_mac_normalised [of ?e "example_reservation ''192.168.225.5'' ''B8:27:EB:9C:AE:B7''"
      ?bs ?h example_client, THEN conjunct1, rule_format, OF hyp [OF example_mac_upper]]
  note t2 = reservation_mac_normalised [of ?e "example_reservation ''192.168.225.5'' ''b8:27:eb:9c:ae:b7''"
      ?bs ?h example_client, THEN conjunct1, rule_format, OF hyp [OF example_mac_lower]]
  note t3 = reservation_mac_normalised [of ?e "example_reservation ''192.168.225.5'' ''not-a-mac''"
      ?bs ?h example_client]
  have bad: "net_ParseMAC (rv_HwAddress (example_reservation ''192.168.225.5'' ''not-a-mac'')) = None"
    by (simp add: example_reservation_fields2 example_mac_bad)
  have ok: "net_ParseIP ?e (rv_IPAddress (example_reservation ''192.168.225.5'' ''not-a-mac''))"
    by (simp add: example_reservation_fields2 example_ip_ok)
  note s3 = t3 [THEN conjunct2, THEN conjunct2, THEN conjunct2, THEN conjunct2, THEN conjunct1,
      rule_format, OF bad]
  have w3: "ReservationAdd ?e example_client ?h (example_reservation ''192.168.225.5'' ''not-a-mac'')
       = (Some ErrInvalidMAC, [])"
    using s3 [THEN conjunct1] s3 [THEN conjunct2, THEN conjunct1, rule_format, OF ok]
    by (simp add: prod_eq_iff)
  have w1: "map request_reservation
      (snd (ReservationAdd ?e example_client ?h (example_reservation ''192.168.225.5'' ''B8:27:EB:9C:AE:B7'')))
     = [Some (example_reservation ''192.168.225.5'' ''b8:27:eb:9c:ae:b7'')]"
    using t1 [THEN conjunct1]
    by (simp add: request_reservation_def post_request_def example_reservation_def hexDigit_def)
  have w2: "map request_reservation
      (snd (ReservationAdd ?e example_client ?h (example_reservation ''192.168.225.5'' ''b8:27:eb:9c:ae:b7'')))
     = [Some (example_reservation ''192.168.225.5'' ''b8:27:eb:9c:ae:b7'')]"
    using t2 [THEN conjunct1]
    by (simp add: request_reservation_def post_request_def example_reservation_def hexDigit_def)
  have w4: "canonicalMAC ''b8:27:eb:9c:ae:b7''"
    using t2 [THEN conjunct2] by (simp only: example_mac_string)
  show ?thesis using w1 w2 w3 w4 by simp
qed

subsection \<open>IP addresses of reservations\<close>

lemma example_ip_rejected: "\<not> net_ParseIP e ''999.1.1.1''"
  by (simp add: net_ParseIP_def parseIPv4_def ipv4Field_def decimal_def isDigit_def digitVal_def)

lemma example_ip_empty: "\<not> net_ParseIP e []"
  by (simp add: net_ParseIP_def)

lemma example_ip_accepted: "net_ParseIP e ''192.168.1.5''"
  by (simp add: net_ParseIP_def parseIPv4_def ipv4Field_def decimal_def isDigit_def digitVal_def)

lemma checkResponse_error_kind:
  "checkResponse b = Inl er \<Longrightarrow> er \<noteq> ErrInvalidIP \<and> er \<noteq> ErrInvalidMAC"
  by (auto simp: checkResponse_def split: sum.splits list.splits if_splits)

text \<open>
  C8.  \<open>ReservationAdd\<close> and \<open>ReservationDel\<close> return \<open>ErrInvalidIP\<close> and send no request
  when the IP address does not parse, as for \<open>999.1.1.1\<close> and the empty string;
  \<open>192.168.1.5\<close> parses.  \<open>ReservationDel\<close> takes no hardware address: with an IP address
  that parses (and a URL the library accepts) it sends its single request, which carries
  the subnet id and the IP address only.
\<close>

theorem reservation_ip_validated:
  "(\<not> net_ParseIP e ip \<longrightarrow>
        ReservationAdd e c h (res\<lparr>rv_IPAddress := ip\<rparr>) = (Some ErrInvalidIP, [])
      \<and> ReservationDel e c h ip sid = (Some ErrInvalidIP, []))
   \<and> \<not> net_ParseIP e ''999.1.1.1'' \<and> \<not> net_ParseIP e [] \<and> net_ParseIP e ''192.168.1.5''
   \<and> (net_ParseIP e ip \<and> newRequestError e ''POST'' (request_url h) = None \<longrightarrow>
        snd (ReservationDel e c h ip sid) =
          [post_request c h
             \<lparr>Command = ''reservation-del'',
              rq_Arguments = [(''subnet-id'', AInt sid), (''ip-address'', AString ip)],
              Service = [''dhcp4'']\<rparr>]
      \<and> fst (ReservationDel e c h ip sid) \<noteq> Some ErrInvalidIP
      \<and> fst (ReservationDel e c h ip sid) \<noteq> Some ErrInvalidMAC)"
proof (intro conjI impI)
  assume "\<not> net_ParseIP e ip"
  then show "ReservationAdd e c h (res\<lparr>rv_IPAddress := ip\<rparr>) = (Some ErrInvalidIP, [])"
    and "ReservationDel e c h ip sid = (Some ErrInvalidIP, [])"
    by (simp_all add: ReservationAdd_def ReservationDel_def)
next
  assume a: "net_ParseIP e ip \<and> newRequestError e ''POST'' (request_url h) = None"
  then show "snd (ReservationDel e c h ip sid) =
          [post_request c h
             \<lparr>Command = ''reservation-del'',
              rq_Arguments = [(''subnet-id'', AInt sid), (''ip-address'', AString ip)],
              Service = [''dhcp4'']\<rparr>]"
    using ReservationDel_sent by blast
  obtain x err y where d: "do e c (post_request c h
        \<lparr>Command = ''reservation-del'',
         rq_Arguments = [(''subnet-id'', AInt sid), (''ip-address'', AString ip)],
         Service = [''dhcp4'']\<rparr>) (Some (JNull, dec_any)) = (x, err, y)"
    by (metis prod.exhaust)
  have ne: "err \<noteq> Some ErrInvalidIP \<and> err \<noteq> Some ErrInvalidMAC"
    using d by (auto simp: do_def split: sum.splits option.splits if_splits dest: checkResponse_error_kind)
  from a have u: "ReservationDel e c h ip sid =
      (case err of Some er \<Rightarrow> (Some er, [post_request c h
        \<lparr>Command = ''reservation-del'',
         rq_Arguments = [(''subnet-id'', AInt sid), (''ip-address'', AString ip)],
         Service = [''dhcp4'']\<rparr>]) | None \<Rightarrow> (None, [post_request c h
        \<lparr>Command = ''reservation-del'',
         rq_Arguments = [(''subnet-id'', AInt sid), (''ip-address'', AString ip)],
         Service = [''dhcp4'']\<rparr>]))"
    using d by (cases err) (simp_all add: ReservationDel_unfold Let_def)
  show "fst (ReservationDel e c h ip sid) \<noteq> Some ErrInvalidIP"
    and "fst (ReservationDel e c h ip sid) \<noteq> Some ErrInvalidMAC"
    using ne unfolding u by (cases err; simp)+
qed (rule example_ip_rejected example_ip_empty example_ip_accepted)+

theorem reservation_ip_validated_witness:
  "ReservationAdd (example_env (envelope 0 ''ok'' JNull)) example_client ''kea-primary.example.com''
      (example_reservation ''999.1.1.1'' ''b8:27:eb:9c:ae:b7'') = (Some ErrInvalidIP, [])
   \<and> ReservationDel (example_env (envelope 0 ''ok'' JNull)) example_client ''kea-primary.example.com''
        ''999.1.1.1'' 1921682250 = (Some ErrInvalidIP, [])
   \<and> ReservationDel (example_env (envelope 0 ''ok'' JNull)) example_client ''kea-primary.example.com''
        [] 1921682250 = (Some ErrInvalidIP, [])
   \<and> snd (ReservationDel (example_env (envelope 0 ''ok'' JNull)) example_client
             ''kea-primary.example.com'' ''192.168.1.5'' 1921682250)
       = [post_request example_client ''kea-primary.example.com''
            \<lparr>Command = ''reservation-del'',
             rq_Arguments = [(''subnet-id'', AInt 1921682250), (''ip-address'', AString ''192.168.1.5'')],
             Service = [''dhcp4'']\<rparr>]"
proof -
  let ?e = "example_env (envelope 0 ''ok'' JNull)"
  let ?h = "''kea-primary.example.com''"
  let ?res = "example_reservation ''999.1.1.1'' ''b8:27:eb:9c:ae:b7''"
  have r: "?res\<lparr>rv_IPAddress := ''999.1.1.1''\<rparr> = ?res" by (simp add: example_reservation_def)
  note t1 = reservation_ip_validated [of ?e "''999.1.1.1''" example_client ?h ?res 1921682250,
      THEN conjunct1, rule_format, OF example_ip_rejected, unfolded r]
  note t2 = reservation_ip_validated [of ?e "[]" example_client ?h ?res 1921682250,
      THEN conjunct1, rule_format, OF example_ip_empty]
  have hyp: "net_ParseIP ?e ''192.168.1.5'' \<and> newRequestError ?e ''POST'' (request_url ?h) = None"
    by (simp add: example_ip_accepted example_env_lib)
  note t3 = reservation_ip_validated [of ?e "''192.168.1.5''" example_client ?h ?res 1921682250,
      THEN conjunct2, THEN conjunct2, THEN conjunct2, THEN conjunct2, rule_format, OF hyp]
  show ?thesis using t1 t2 [THEN conjunct2] t3 [THEN conjunct1] by simp
qed

subsection \<open>Request URLs and client construction\<close>

lemma strings_HasSuffix_char: "strings_HasSuffix s [ch] \<longleftrightarrow> (s \<noteq> [] \<and> last s = ch)"
proof (cases s rule: rev_cases)
  case Nil
  then show ?thesis by (simp add: strings_HasSuffix_def)
next
  case (snoc ys y)
  then show ?thesis by (simp add: strings_HasSuffix_def)
qed

lemma request_url_cases:
  "request_url url =
     (if strings_HasPrefix url ''https://''
      then (if strings_HasSuffix url ''/'' then url else url @ ''/'')
      else (if strings_HasSuffix (''https://'' @ url) ''/'' then ''https://'' @ url
            else ''https://'' @ url @ ''/''))"
  by (simp add: request_url_def Let_def)

lemma request_url_prefix: "strings_HasPrefix (request_url url) ''https://''"
proof (cases "strings_HasPrefix url ''https://''")
  case True
  then obtain b where "url = ''https://'' @ b" using strings_HasPrefix_iff by blast
  then show ?thesis unfolding request_url_cases strings_HasPrefix_iff by auto
next
  case False
  then show ?thesis unfolding request_url_cases strings_HasPrefix_iff by auto
qed

lemma request_url_suffix: "strings_HasSuffix (request_url url) ''/''"
  unfolding request_url_cases by (simp add: strings_HasSuffix_char)

lemma do_sent_cases:
  "(case do e c req v of (x, Some err, y) \<Rightarrow> f err | (x, None, y) \<Rightarrow> g y) =
     (case fst (snd (do e c req v)) of Some err \<Rightarrow> f err | None \<Rightarrow> g (snd (snd (do e c req v))))"
  by (cases "do e c req v") (simp split: option.splits)

lemma RemoteSubnet4List_posts:
  "list_all (\<lambda>r. hr_Method r = ''POST'' \<and> hr_URL r = request_url h) (snd (RemoteSubnet4List e c h))"
  by (cases "newRequestError e ''POST'' (request_url h)")
     (simp_all add: RemoteSubnet4List_def make_req_post do_sent_cases post_request_def Let_def
        split: option.splits)

lemma RemoteSubnet4GetByPrefix_posts:
  "list_all (\<lambda>r. hr_Method r = ''POST'' \<and> hr_URL r = request_url h)
     (snd (RemoteSubnet4GetByPrefix e c h prefix))"
  by (cases "newRequestError e ''POST'' (request_url h)")
     (simp_all add: RemoteSubnet4GetByPrefix_def make_req_post do_sent_cases post_request_def Let_def
        split: option.splits list.splits)

lemma RemoteSubnet4GetByID_posts:
  "list_all (\<lambda>r. hr_Method r = ''POST'' \<and> hr_URL r = request_url h)
     (snd (RemoteSubnet4GetByID e c h i))"
  by (cases "newRequestError e ''POST'' (request_url h)")
     (simp_all add: RemoteSubnet4GetByID_def make_req_post do_sent_cases post_request_def Let_def
        split: option.splits list.splits)

lemma RemoteSubnet4Set_posts:
  "list_all (\<lambda>r. hr_Method r = ''POST'' \<and> hr_URL r = request_url h)
     (snd (RemoteSubnet4Set e c h subnets))"
  by (cases "newRequestError e ''POST'' (request_url h)")
     (simp_all add: RemoteSubnet4Set_def make_req_post do_sent_cases post_request_def Let_def
        split: option.splits)

lemma ReservationAdd_posts:
  "list_all (\<lambda>r. hr_Method r = ''POST'' \<and> hr_URL r = request_url h)
     (snd (ReservationAdd e c h res))"
  by (cases "newRequestError e ''POST'' (request_url h)")
     (simp_all add: ReservationAdd_def make_req_post do_sent_cases post_request_def Let_def
        split: option.splits)

lemma ReservationDel_posts:
  "list_all (\<lambda>r. hr_Method r = ''POST'' \<and> hr_URL r = request_url h)
     (snd (ReservationDel e c h ip sid))"
  by (cases "newRequestError e ''POST'' (request_url h)")
     (simp_all add: ReservationDel_def make_req_post do_sent_cases post_request_def Let_def
        split: option.splits)


text \<open>
  C9.  The URL of every request \<open>make\<close> builds is the host name it was given, with
  \<open>https://\<close> put in front unless the name starts with it, and with \<open>/\<close> put behind unless
  the result ends with it; it starts with \<open>https://\<close> and ends with \<open>/\<close>.  For a non-empty
  host name without scheme and without trailing slash it is \<open>https://<hostname>/\<close>.  The
  method is the one passed in, and every command passes \<open>POST\<close>: each request a command
  sends is a \<open>POST\<close> to that URL.
\<close>

theorem request_url_normalised:
  "(make_req e c m url body q = Inr req \<longrightarrow> hr_Method req = m \<and> hr_URL req = request_url url)
   \<and> strings_HasPrefix (request_url url) ''https://''
   \<and> strings_HasSuffix (request_url url) ''/''
   \<and> (url \<noteq> [] \<and> \<not> strings_HasPrefix url ''https://'' \<and> \<not> strings_HasSuffix url ''/'' \<longrightarrow>
         request_url url = ''https://'' @ url @ ''/'')
   \<and> (url \<noteq> [] \<and> \<not> strings_HasPrefix url ''https://'' \<and> strings_HasSuffix url ''/'' \<longrightarrow>
         request_url url = ''https://'' @ url)
   \<and> (strings_HasPrefix url ''https://'' \<and> \<not> strings_HasSuffix url ''/'' \<longrightarrow>
         request_url url = url @ ''/'')
   \<and> (strings_HasPrefix url ''https://'' \<and> strings_HasSuffix url ''/'' \<longrightarrow> request_url url = url)
   \<and> list_all (\<lambda>r. hr_Method r = ''POST'' \<and> hr_URL r = request_url url)
        (snd (RemoteSubnet4List e c url))
   \<and> list_all (\<lambda>r. hr_Method r = ''POST'' \<and> hr_URL r = request_url url)
        (snd (RemoteSubnet4GetByPrefix e c url prefix))
   \<and> list_all (\<lambda>r. hr_Method r = ''POST'' \<and> hr_URL r = request_url url)
        (snd (RemoteSubnet4GetByID e c url i))
   \<and> list_all (\<lambda>r. hr_Method r = ''POST'' \<and> hr_URL r = request_url url)
        (snd (RemoteSubnet4Set e c url subnets))
   \<and> list_all (\<lambda>r. hr_Method r = ''POST'' \<and> hr_URL r = request_url url)
        (snd (ReservationAdd e c url res))
   \<and> list_all (\<lambda>r. hr_Method r = ''POST'' \<and> hr_URL r = request_url url)
        (snd (ReservationDel e c url ip sid))"
proof (intro conjI impI)
  assume "make_req e c m url body q = Inr req"
  then show "hr_Method req = m" and "hr_URL req = request_url url"
    using make_req_Inr [of e c m url body q req] by (simp_all add: request_url_def)
next
  assume "url \<noteq> [] \<and> \<not> strings_HasPrefix url ''https://'' \<and> \<not> strings_HasSuffix url ''/''"
  then show "request_url url = ''https://'' @ url @ ''/''"
    by (auto simp: request_url_cases strings_HasSuffix_char)
next
  assume "url \<noteq> [] \<and> \<not> strings_HasPrefix url ''https://'' \<and> strings_HasSuffix url ''/''"
  then show "request_url url = ''https://'' @ url"
    by (auto simp: request_url_cases strings_HasSuffix_char)
next
  assume "strings_HasPrefix url ''https://'' \<and> \<not> strings_HasSuffix url ''/''"
  then show "request_url url = url @ ''/''" by (simp add: request_url_cases)
next
  assume "strings_HasPrefix url ''https://'' \<and> strings_HasSuffix url ''/''"
  then show "request_url url = url" by (simp add: request_url_cases)
qed (rule request_url_prefix request_url_suffix RemoteSubnet4List_posts
       RemoteSubnet4GetByPrefix_posts RemoteSubnet4GetByID_posts RemoteSubnet4Set_posts
       ReservationAdd_posts ReservationDel_posts)+

theorem request_url_normalised_witness:
  "map hr_URL (snd (ReservationDel (example_env (envelope 0 ''ok'' JNull)) example_client
                      ''kea-primary.example.com'' ''192.168.1.5'' 1921682250))
     = [''https://kea-primary.example.com/'']
   \<and> map hr_Method (snd (ReservationDel (example_env (envelope 0 ''ok'' JNull)) example_client
                      ''kea-primary.example.com'' ''192.168.1.5'' 1921682250))
     = [''POST'']
   \<and> request_url ''kea-primary.example.com/'' = ''https://kea-primary.example.com/''
   \<and> request_url ''https://kea-primary.example.com'' = ''https://kea-primary.example.com/''
   \<and> request_url ''https://kea-primary.example.com/'' = ''https://kea-primary.example.com/''
   \<and> map_sum id hr_URL (make_req (example_env EmptyStream) example_client ''POST''
                           ''kea-primary.example.com'' None None)
       = Inr ''https://kea-primary.example.com/''"
proof -
  let ?e = "example_env (envelope 0 ''ok'' JNull)"
  let ?h = "''kea-primary.example.com''"
  have p: "\<not> strings_HasPrefix ?h ''https://''" "\<not> strings_HasSuffix ?h ''/''" "?h \<noteq> []"
    by (simp_all add: strings_HasPrefix_def strings_HasSuffix_def)
  have u: "request_url ?h = ''https://'' @ ?h @ ''/''"
    using request_url_normalised [of ?e example_client "''POST''" ?h,
        THEN conjunct2, THEN conjunct2, THEN conjunct2, THEN conjunct1] p by blast
  have s: "snd (ReservationDel ?e example_client ?h ''192.168.1.5'' 1921682250) =
       [post_request example_client ?h
            \<lparr>Command = ''reservation-del'',
             rq_Arguments = [(''subnet-id'', AInt 1921682250), (''ip-address'', AString ''192.168.1.5'')],
             Service = [''dhcp4'']\<rparr>]"
    by (rule ReservationDel_sent [OF example_ip_accepted example_env_lib])
  have w1: "map hr_URL (snd (ReservationDel ?e example_client ?h ''192.168.1.5'' 1921682250))
     = [''https://kea-primary.example.com/'']"
    and w2: "map hr_Method (snd (ReservationDel ?e example_client ?h ''192.168.1.5'' 1921682250))
     = [''POST'']"
    unfolding s using u by (simp_all add: post_request_def)
  have w3: "request_url ''kea-primary.example.com/'' = ''https://kea-primary.example.com/''"
    using request_url_normalised [of ?e example_client "''POST''" "''kea-primary.example.com/''",
        THEN conjunct2, THEN conjunct2, THEN conjunct2, THEN conjunct2, THEN conjunct1]
    by (simp add: strings_HasPrefix_def strings_HasSuffix_def)
  have w4: "request_url ''https://kea-primary.example.com'' = ''https://kea-primary.example.com/''"
    using request_url_normalised [of ?e example_client "''POST''" "''https://kea-primary.example.com''",
        THEN conjunct2, THEN conjunct2, THEN conjunct2, THEN conjunct2, THEN conjunct2, THEN conjunct1]
    by (simp add: strings_HasPrefix_def strings_HasSuffix_def)
  have w5: "request_url ''https://kea-primary.example.com/'' = ''https://kea-primary.example.com/''"
    using request_url_normalised [of ?e example_client "''POST''" "''https://kea-primary.example.com/''",
        THEN conjunct2, THEN conjunct2, THEN conjunct2, THEN conjunct2, THEN conjunct2,
        THEN conjunct2, THEN conjunct1]
    by (simp add: strings_HasPrefix_def strings_HasSuffix_def)
  have w6: "map_sum id hr_URL (make_req (example_env EmptyStream) example_client ''POST'' ?h None None)
       = Inr ''https://kea-primary.example.com/''"
    using u by (simp add: make_req_def example_env_def request_url_def Let_def)
  show ?thesis using w1 w2 w3 w4 w5 w6 by simp
qed

lemma auth_eta: "\<lparr>username = username (x::auth), password = password x\<rparr> = x"
  by simp

lemma processOptions_result:
  "processOptions getenv up opts =
     (case (case op_proxyURL (fold (\<lambda>opt acc. opt acc) opts zero_options) of
              None \<Rightarrow> None
            | Some u \<Rightarrow> up u) of
        Some err \<Rightarrow> Inl (FatalProxy err)
      | None \<Rightarrow>
          if username (resolved_auth getenv opts) = [] \<or> password (resolved_auth getenv opts) = []
          then Inl FatalMissingAuth
          else Inr \<lparr>cl_Timeout = op_httpTimeout (fold (\<lambda>opt acc. opt acc) opts zero_options),
                    cl_Proxy = op_proxyURL (fold (\<lambda>opt acc. opt acc) opts zero_options),
                    cl_InsecureSkipVerify = (op_proxyURL (fold (\<lambda>opt acc. opt acc) opts zero_options) = None),
                    cl_logLevel = (case op_logLevel (fold (\<lambda>opt acc. opt acc) opts zero_options) of
                                     None \<Rightarrow> InfoLevel | Some l \<Rightarrow> l),
                    cl_auth = resolved_auth getenv opts,
                    cl_remote = (case op_remote (fold (\<lambda>opt acc. opt acc) opts zero_options) of
                                   None \<Rightarrow> ''postgresql'' | Some r \<Rightarrow> r)\<rparr>)"
  by (cases "op_auth (fold (\<lambda>opt acc. opt acc) opts zero_options)")
     (simp_all add: processOptions_def resolved_auth_def Let_def split: option.splits)

text \<open>
  C10.  A client that \<open>processOptions\<close> (and so \<open>New\<close>) returns carries the credentials of
  the explicit configuration (the last \<open>WithAuth\<close> option) or, when no such option is given,
  those of the environment variables \<open>KEA_USERNAME\<close> and \<open>KEA_PASSWORD\<close>, and both its user
  name and its password are non-empty.  Whenever the credentials resolved in this way have
  an empty user name or an empty password, construction ends in a fatal exit and no client
  is returned; explicit but empty credentials are not replaced by the environment's.
\<close>

theorem client_requires_credentials:
  "(processOptions getenv up opts = Inr c \<longrightarrow>
        cl_auth c = resolved_auth getenv opts
      \<and> username (cl_auth c) \<noteq> [] \<and> password (cl_auth c) \<noteq> [])
   \<and> (username (resolved_auth getenv opts) = [] \<or> password (resolved_auth getenv opts) = [] \<longrightarrow>
        (\<exists>f. processOptions getenv up opts = Inl f))
   \<and> resolved_auth getenv (opts @ [WithAuth u p]) = \<lparr>username = u, password = p\<rparr>
   \<and> (op_auth (fold (\<lambda>opt acc. opt acc) opts zero_options) = None \<longrightarrow>
        resolved_auth getenv opts
          = \<lparr>username = getenv ''KEA_USERNAME'', password = getenv ''KEA_PASSWORD''\<rparr>)
   \<and> resolved_auth getenv [] = \<lparr>username = getenv ''KEA_USERNAME'', password = getenv ''KEA_PASSWORD''\<rparr>
   \<and> New getenv up opts = processOptions getenv up opts"
proof (intro conjI impI)
  assume a: "processOptions getenv up opts = Inr c"
  then have "cl_auth c = resolved_auth getenv opts
      \<and> username (resolved_auth getenv opts) \<noteq> [] \<and> password (resolved_auth getenv opts) \<noteq> []"
    unfolding processOptions_result by (auto split: option.splits if_splits)
  then show "cl_auth c = resolved_auth getenv opts" "username (cl_auth c) \<noteq> []"
    "password (cl_auth c) \<noteq> []" by simp_all
next
  assume "username (resolved_auth getenv opts) = [] \<or> password (resolved_auth getenv opts) = []"
  then show "\<exists>f. processOptions getenv up opts = Inl f"
    unfolding processOptions_result by (auto split: option.splits)
next
  show "resolved_auth getenv (opts @ [WithAuth u p]) = \<lparr>username = u, password = p\<rparr>"
    by (simp add: resolved_auth_def WithAuth_def)
next
  assume "op_auth (fold (\<lambda>opt acc. opt acc) opts zero_options) = None"
  then show "resolved_auth getenv opts
          = \<lparr>username = getenv ''KEA_USERNAME'', password = getenv ''KEA_PASSWORD''\<rparr>"
    by (simp add: resolved_auth_def)
next
  show "resolved_auth getenv [] = \<lparr>username = getenv ''KEA_USERNAME'', password = getenv ''KEA_PASSWORD''\<rparr>"
    by (simp add: resolved_auth_def zero_options_def)
next
  show "New getenv up opts = processOptions getenv up opts" by (simp add: New_def)
qed

theorem client_requires_credentials_witness:
  "map_sum id cl_auth (New example_getenv (\<lambda>u. None) []) = Inr \<lparr>username = ''kea'', password = ''secret''\<rparr>
   \<and> map_sum id cl_auth (New example_getenv (\<lambda>u. None) [WithAuth ''admin'' ''pw''])
       = Inr \<lparr>username = ''admin'', password = ''pw''\<rparr>
   \<and> New example_getenv (\<lambda>u. None) [WithAuth ''admin'' []] = Inl FatalMissingAuth
   \<and> New (\<lambda>k. []) (\<lambda>u. None) [] = Inl FatalMissingAuth
   \<and> New (\<lambda>k. if k = ''KEA_USERNAME'' then ''kea'' else []) (\<lambda>u. None) [WithRemote ''mysql'']
       = Inl FatalMissingAuth"
proof -
  have e1: "processOptions example_getenv (\<lambda>u. None) [] =
      Inr \<lparr>cl_Timeout = None, cl_Proxy = None, cl_InsecureSkipVerify = True, cl_logLevel = InfoLevel,
           cl_auth = \<lparr>username = ''kea'', password = ''secret''\<rparr>, cl_remote = ''postgresql''\<rparr>"
    by (simp add: processOptions_def zero_options_def example_getenv_def)
  have e2: "processOptions example_getenv (\<lambda>u. None) [WithAuth ''admin'' ''pw''] =
      Inr \<lparr>cl_Timeout = None, cl_Proxy = None, cl_InsecureSkipVerify = True, cl_logLevel = InfoLevel,
           cl_auth = \<lparr>username = ''admin'', password = ''pw''\<rparr>, cl_remote = ''postgresql''\<rparr>"
    by (simp add: processOptions_def zero_options_def WithAuth_def)
  note t1 = client_requires_credentials [of example_getenv "\<lambda>u. None" "[]" _ "''admin''" "''pw''",
      THEN conjunct1, rule_format, OF e1]
  note t2 = client_requires_credentials [of example_getenv "\<lambda>u. None" "[WithAuth ''admin'' ''pw'']" _
      "''admin''" "''pw''", THEN conjunct1, rule_format, OF e2]
  have r3: "username (resolved_auth example_getenv [WithAuth ''admin'' []]) = []
            \<or> password (resolved_auth example_getenv [WithAuth ''admin'' []]) = []"
    by (simp add: resolved_auth_def WithAuth_def zero_options_def)
  have r4: "username (resolved_auth (\<lambda>k. []) []) = [] \<or> password (resolved_auth (\<lambda>k. []) []) = []"
    by (simp add: resolved_auth_def zero_options_def)
  have r5: "username (resolved_auth (\<lambda>k. if k = ''KEA_USERNAME'' then ''kea'' else []) [WithRemote ''mysql'']) = []
          \<or> password (resolved_auth (\<lambda>k. if k = ''KEA_USERNAME'' then ''kea'' else []) [WithRemote ''mysql'']) = []"
    by (simp add: resolved_auth_def WithRemote_def zero_options_def)
  note t3 = client_requires_credentials [of example_getenv "\<lambda>u. None" "[WithAuth ''admin'' []]" _
      "''admin''" "''pw''", THEN conjunct2, THEN conjunct1, rule_format, OF r3]
  note t4 = client_requires_credentials [of "\<lambda>k. []" "\<lambda>u. None" "[]" _
      "''admin''" "''pw''", THEN conjunct2, THEN conjunct1, rule_format, OF r4]
  note t5 = client_requires_credentials [of "\<lambda>k. if k = ''KEA_USERNAME'' then ''kea'' else []"
      "\<lambda>u. None" "[WithRemote ''mysql'']" _ "''admin''" "''pw''",
      THEN conjunct2, THEN conjunct1, rule_format, OF r5]
  have w1: "map_sum id cl_auth (New example_getenv (\<lambda>u. None) [])
              = Inr \<lparr>username = ''kea'', password = ''secret''\<rparr>"
    using t1 e1 by (simp add: New_def)
  have w2: "map_sum id cl_auth (New example_getenv (\<lambda>u. None) [WithAuth ''admin'' ''pw''])
              = Inr \<lparr>username = ''admin'', password = ''pw''\<rparr>"
    using t2 e2 by (simp add: New_def)
  have w3: "New example_getenv (\<lambda>u. None) [WithAuth ''admin'' []] = Inl FatalMissingAuth"
    using t3 by (auto simp: New_def processOptions_result zero_options_def WithAuth_def split: if_splits)
  have w4: "New (\<lambda>k. []) (\<lambda>u. None) [] = Inl FatalMissingAuth"
    using t4 by (auto simp: New_def processOptions_result zero_options_def split: if_splits)
  have w5: "New (\<lambda>k. if k = ''KEA_USERNAME'' then ''kea'' else []) (\<lambda>u. None) [WithRemote ''mysql'']
       = Inl FatalMissingAuth"
    using t5 by (auto simp: New_def processOptions_result zero_options_def WithRemote_def split: if_splits)
  show ?thesis using w1 w2 w3 w4 w5 by simp
qed

end
